theory Spec2Isabelle
  imports Main "HOL-Library.Word" "HOL-Library.AList"
begin

section \<open>The import scanner of tools/isobuild/import-scanner.ts\<close>

text \<open>
  A shallow embedding of \<^verbatim>\<open>ImportScanner\<close>. File objects are mutable and shared
  (between \<^verbatim>\<open>outputFiles\<close>, \<^verbatim>\<open>realPathToFiles\<close> and the caller), so they live in a
  heap: a list of files, a file's address being its index. Every property of a file is
  optional (\<^verbatim>\<open>File = { [key: string]: any }\<close>), so every field is an option, \<open>None\<close>
  meaning that the object has no such property. What the scanner imports from other
  modules (file system, path functions, resolver, transcoders, hashing) is the record
  \<open>externals\<close>, a parameter of every operation; the theorems hold for all of them.
\<close>

subsection \<open>Strings, bytes and JSON\<close>

text \<open>A JavaScript string is a sequence of 16-bit code units, a Buffer a sequence of bytes.
  Paths and module identifiers, whose code units never matter, are HOL strings.\<close>

type_synonym bytes = "8 word list"
type_synonym ustring = "16 word list"

definition ustr :: "string \<Rightarrow> ustring" where
  "ustr s = map (\<lambda>c. of_nat (of_char c)) s"

datatype json =
    JNull
  | JBool bool
  | JNum int
  | JStr string
  | JArr "json list"
  | JObj "(string \<times> json) list"

subsection \<open>Objects as association lists\<close>

text \<open>An object used as a dictionary is an association list in insertion order;
  assigning to a key that exists keeps its place, which is what \<open>AList.update\<close> does.
  \<^verbatim>\<open>Object.keys\<close> lists first the keys that are array indices (the canonical decimal
  numerals below \<^verbatim>\<open>2^32 - 1\<close>), in ascending order, and then the other keys in
  insertion order.\<close>

definition has :: "(string \<times> 'v) list \<Rightarrow> string \<Rightarrow> bool" where
  "has obj k = (map_of obj k \<noteq> None)"

definition digitTable :: "(char \<times> nat) list" where
  "digitTable = [(CHR ''0'', 0), (CHR ''1'', 1), (CHR ''2'', 2), (CHR ''3'', 3), (CHR ''4'', 4),
                 (CHR ''5'', 5), (CHR ''6'', 6), (CHR ''7'', 7), (CHR ''8'', 8), (CHR ''9'', 9)]"

fun decimalValue :: "string \<Rightarrow> nat \<Rightarrow> nat option" where
  "decimalValue [] acc = Some acc"
| "decimalValue (c # cs) acc =
     (case map_of digitTable c of None \<Rightarrow> None | Some d \<Rightarrow> decimalValue cs (acc * 10 + d))"

definition arrayIndex :: "string \<Rightarrow> nat option" where
  "arrayIndex k =
     (if k = [] \<or> (hd k = CHR ''0'' \<and> k \<noteq> ''0'') then None
      else (case decimalValue k 0 of
              None \<Rightarrow> None
            | Some n \<Rightarrow> if n < 4294967295 then Some n else None))"

definition keys :: "(string \<times> 'v) list \<Rightarrow> string list" where
  "keys obj =
     (let ks = remdups (map fst obj)
      in sort_key (\<lambda>k. case arrayIndex k of None \<Rightarrow> 0 | Some n \<Rightarrow> n)
           (filter (\<lambda>k. arrayIndex k \<noteq> None) ks) @
         filter (\<lambda>k. arrayIndex k = None) ks)"

subsection \<open>The imported status\<close>

text \<open>\<^verbatim>\<open>const importedStatusOrder = [false, "dynamic", "static"]\<close>\<close>

datatype importedStatus = NotImported | Dynamic | Static

definition importedStatusOrder :: "importedStatus list" where
  "importedStatusOrder = [NotImported, Dynamic, Static]"

text \<open>\<^verbatim>\<open>importedStatusOrder.indexOf(x)\<close>, where \<open>None\<close> is a file without the property
  (\<^verbatim>\<open>undefined\<close>, index -1).\<close>

fun indexOfStatus :: "importedStatus option \<Rightarrow> int" where
  "indexOfStatus None = - 1"
| "indexOfStatus (Some NotImported) = 0"
| "indexOfStatus (Some Dynamic) = 1"
| "indexOfStatus (Some Static) = 2"

text \<open>\<^verbatim>\<open>importedStatusOrder[i]\<close>: \<^verbatim>\<open>undefined\<close> outside the array.\<close>

definition statusAt :: "int \<Rightarrow> importedStatus option" where
  "statusAt i = (if 0 \<le> i \<and> nat i < length importedStatusOrder
                 then Some (importedStatusOrder ! nat i) else None)"

subsection \<open>ImportInfo, resolutions and files\<close>

record importInfo =
  parentPath :: "string option"
  helpers :: "(string \<times> bool) list option"
  dynamic :: bool
  parentWasDynamic :: bool
  possiblySpurious :: bool
  packageName :: "string option"
  infoBundleArch :: "string option"
  infoAbsModuleId :: "string option"

type_synonym missingMap = "(string \<times> importInfo list) list"

text \<open>\<^verbatim>\<open>alias.absModuleId\<close> is a string, \<^verbatim>\<open>false\<close> (an empty stub) or
  \<^verbatim>\<open>undefined\<close>.\<close>

datatype idval = IdUndefined | IdFalse | IdString string

text \<open>What \<^verbatim>\<open>resolve\<close> returns when it returns an object: a resolution of the
  resolver (\<^verbatim>\<open>path\<close>, \<^verbatim>\<open>id\<close>, \<^verbatim>\<open>packageJsonMap\<close>) or an alias record, which also
  has \<^verbatim>\<open>absModuleId\<close>.\<close>

record resolution =
  resPath :: "string option"
  resId :: "string option"
  packageJsonMap :: "(string \<times> json) list option"
  resAbsModuleId :: idval

datatype sourceMap = SourceMap (mappings: string) (sources: "string list")

record File =
  absPath :: "string option"
  sourcePath :: "string option"
  targetPath :: "string option"
  servePath :: "string option"
  path :: "string option"
  absModuleId :: "string option"
  data :: "bytes option"
  dataString :: "ustring option"
  hash :: "string option"
  type :: "string option"
  lazy :: "bool option"
  bare :: "bool option"
  imported :: "importedStatus option"
  implicit :: "bool option"
  deps :: "(string \<times> importInfo) list option"
  missingModules :: "(string \<times> importInfo) list option"
  fileAlias :: "resolution option"
  jsonData :: "json option"
  hasErrors :: "bool option"
  sourceMap :: "sourceMap option"
  fake :: "bool option"
  reportPendingErrors :: "nat option"

text \<open>An object literal \<^verbatim>\<open>{}\<close>.\<close>

definition emptyFile :: File where
  "emptyFile = \<lparr>absPath = None, sourcePath = None, targetPath = None, servePath = None,
     path = None, absModuleId = None, data = None, dataString = None, hash = None,
     type = None, lazy = None, bare = None, imported = None, implicit = None, deps = None,
     missingModules = None, fileAlias = None, jsonData = None, hasErrors = None,
     sourceMap = None, fake = None, reportPendingErrors = None\<rparr>"

definition emptyInfo :: importInfo where
  "emptyInfo = \<lparr>parentPath = None, helpers = None, dynamic = False,
     parentWasDynamic = False, possiblySpurious = False, packageName = None,
     infoBundleArch = None, infoAbsModuleId = None\<rparr>"

subsection \<open>setImportedStatus and alignImportedStatuses\<close>

text \<open>
\<^verbatim>\<open>
function setImportedStatus(file, status) {
  if (importedStatusOrder.indexOf(status) >
      importedStatusOrder.indexOf(file.imported)) {
    file.imported = status;
  }
}
\<close>\<close>

definition setImportedStatus :: "File \<Rightarrow> importedStatus \<Rightarrow> File" where
  "setImportedStatus f status =
     (if indexOfStatus (Some status) > indexOfStatus (imported f)
      then f\<lparr>imported := Some status\<rparr> else f)"

text \<open>
\<^verbatim>\<open>
function alignImportedStatuses(...files) {
  const maxIndex = Math.max(...files.map(
    file => importedStatusOrder.indexOf(file.imported)));
  const maxStatus = importedStatusOrder[maxIndex];
  files.forEach(file => file.imported = maxStatus);
}
\<close>
  \<^verbatim>\<open>Math.max()\<close> of no argument is minus infinity, which indexes nothing, as -1 does.
  The files are given by their addresses in the heap.\<close>

definition maxIndex :: "File list \<Rightarrow> nat list \<Rightarrow> int" where
  "maxIndex heap files = foldr (\<lambda>a m. max (indexOfStatus (imported (heap ! a))) m) files (- 1)"

definition alignImportedStatuses :: "File list \<Rightarrow> nat list \<Rightarrow> File list" where
  "alignImportedStatuses heap files =
     (let maxStatus = statusAt (maxIndex heap files)
      in foldl (\<lambda>h a. h[a := (h ! a)\<lparr>imported := maxStatus\<rparr>]) heap files)"

subsection \<open>mergeMissing\<close>

text \<open>
\<^verbatim>\<open>
static mergeMissing(target, source) {
  keys(source).forEach(id => {
    const importInfoList = source[id];
    const pathToIndex = Object.create(null);
    if (! has(target, id)) {
      target[id] = [];
    } else {
      target[id].forEach((importInfo, index) => {
        pathToIndex[importInfo.parentPath] = index;
      });
    }
    importInfoList.forEach(importInfo => {
      const { parentPath } = importInfo;
      if (typeof parentPath === "string") {
        const index = pathToIndex[parentPath];
        if (typeof index === "number") {
          target[id][index] = importInfo;
          return;
        }
      }
      target[id].push(importInfo);
    });
  });
}
\<close>
  A property key is a string: \<^verbatim>\<open>pathToIndex[importInfo.parentPath]\<close> with a
  \<^verbatim>\<open>parentPath\<close> that is \<^verbatim>\<open>undefined\<close> writes the key \<^verbatim>\<open>"undefined"\<close>.\<close>

definition propertyKey :: "string option \<Rightarrow> string" where
  "propertyKey p = (case p of Some s \<Rightarrow> s | None \<Rightarrow> ''undefined'')"

fun buildPathToIndex :: "importInfo list \<Rightarrow> nat \<Rightarrow> (string \<rightharpoonup> nat) \<Rightarrow> (string \<rightharpoonup> nat)" where
  "buildPathToIndex [] index pathToIndex = pathToIndex"
| "buildPathToIndex (importInfo # rest) index pathToIndex =
     buildPathToIndex rest (Suc index)
       (pathToIndex(propertyKey (parentPath importInfo) \<mapsto> index))"

definition mergeEntry :: "(string \<rightharpoonup> nat) \<Rightarrow> importInfo list \<Rightarrow> importInfo \<Rightarrow> importInfo list" where
  "mergeEntry pathToIndex targetList importInfo =
     (case parentPath importInfo of
        Some p \<Rightarrow>
          (case pathToIndex p of
             Some index \<Rightarrow> targetList[index := importInfo]
           | None \<Rightarrow> targetList @ [importInfo])
      | None \<Rightarrow> targetList @ [importInfo])"

definition mergeMissingId :: "missingMap \<Rightarrow> string \<Rightarrow> importInfo list \<Rightarrow> missingMap" where
  "mergeMissingId target ident importInfoList =
     (case map_of target ident of
        None \<Rightarrow> AList.update ident (foldl (mergeEntry Map.empty) [] importInfoList) target
      | Some old \<Rightarrow>
          AList.update ident
            (foldl (mergeEntry (buildPathToIndex old 0 Map.empty)) old importInfoList) target)"

definition mergeMissing :: "missingMap \<Rightarrow> missingMap \<Rightarrow> missingMap" where
  "mergeMissing target source =
     foldl (\<lambda>t ident. case map_of source ident of None \<Rightarrow> t
                    | Some importInfoList \<Rightarrow> mergeMissingId t ident importInfoList)
       target (keys source)"

subsection \<open>Exceptions\<close>

text \<open>Every \<^verbatim>\<open>throw\<close> of the scanner, and every exception of a function it calls, is
  a value: an operation returns \<open>Inl\<close> of it in place of its result.\<close>

datatype exn =
    ENOENT
  | ParseError string nat nat
  | CombineError bool
  | SourcePathOutsideSourceRoot string
  | TypeError string
  | AssertionError string
  | OtherError string

subsection \<open>What the scanner imports\<close>

text \<open>The functions of other modules that the scanner calls: \<^verbatim>\<open>sha1\<close> of
  \<^verbatim>\<open>../fs/watch\<close>, \<^verbatim>\<open>Buffer.from(s, "utf8")\<close> and \<^verbatim>\<open>buffer.toString("utf8")\<close>,
  \<^verbatim>\<open>String.prototype.toLowerCase\<close>, \<^verbatim>\<open>JSON.parse\<close>, \<^verbatim>\<open>JSON.stringify(data, null, 2)\<close>
  and \<^verbatim>\<open>JSON.stringify\<close> of a string; the path functions of \<^verbatim>\<open>../fs/files\<close> and of
  \<^verbatim>\<open>path.posix\<close>; the optimistic file system functions; \<^verbatim>\<open>archinfo.matches\<close>, the
  Reify compiler behind its cache, \<^verbatim>\<open>cssToCommonJS\<close>, the identifier extractor of
  \<^verbatim>\<open>js-analyze\<close>, \<^verbatim>\<open>new Script(source)\<close>, the \<^verbatim>\<open>Resolver\<close> and the source map
  library. The resolver asks the scanner whether a path is a file the scanner holds
  (the \<^verbatim>\<open>statOrNull\<close> hook set in the constructor), so its functions take that
  predicate as their first argument.\<close>

datatype resolved = Unresolved string | ResolvedNull | Resolved resolution

record externals =
  sha1 :: "bytes \<Rightarrow> string"
  bufferFrom :: "ustring \<Rightarrow> bytes"
  toStringUtf8 :: "bytes \<Rightarrow> ustring"
  toLowerCase :: "string \<Rightarrow> string"
  jsonParse :: "ustring \<Rightarrow> exn + json"
  jsonStringify :: "json \<Rightarrow> ustring"
  jsonQuote :: "string \<Rightarrow> ustring"
  pathJoin :: "string list \<Rightarrow> string"
  pathRelative :: "string \<Rightarrow> string \<Rightarrow> string"
  pathNormalize :: "string \<Rightarrow> string"
  pathExtname :: "string \<Rightarrow> string"
  pathDirname :: "string \<Rightarrow> string"
  pathIsAbsolute :: "string \<Rightarrow> bool"
  convertToOSPath :: "string \<Rightarrow> string"
  convertToPosixPath :: "string \<Rightarrow> string"
  posixRelative :: "string \<Rightarrow> string \<Rightarrow> string"
  posixDirname :: "string \<Rightarrow> string"
  optimisticReadFile :: "string \<Rightarrow> exn + bytes"
  optimisticReadFileUtf8 :: "string \<Rightarrow> exn + ustring"
  optimisticHashOrNull :: "string \<Rightarrow> string option"
  lstatIsSymbolicLink :: "string \<Rightarrow> bool"
  realpathOrNull :: "string \<Rightarrow> string option"
  shouldWatch :: "string \<Rightarrow> bool"
  archMatches :: "string \<Rightarrow> string \<Rightarrow> bool"
  reifyCompileWithCache :: "ustring \<Rightarrow> string option \<Rightarrow> string \<Rightarrow> exn + ustring"
  cssToCommonJS :: "ustring \<Rightarrow> string option \<Rightarrow> ustring"
  findImportedModuleIdentifiers ::
    "ustring \<Rightarrow> string option \<Rightarrow> exn + (string \<times> importInfo) list"
  scriptParses :: "ustring \<Rightarrow> bool"
  resolverResolve :: "(string \<Rightarrow> bool) \<Rightarrow> string \<Rightarrow> string \<Rightarrow> resolved"
  resolverJoinAndStat :: "(string \<Rightarrow> bool) \<Rightarrow> string \<Rightarrow> string \<Rightarrow> bool"
  isNative :: "string \<Rightarrow> bool"
  getNativeStubId :: "string \<Rightarrow> string option"
  combinedSourceMap ::
    "ustring \<times> sourceMap option \<Rightarrow> ustring \<times> sourceMap option \<Rightarrow> string option \<Rightarrow> sourceMap"

subsection \<open>The scanner\<close>

text \<open>The fields of \<^verbatim>\<open>ImportScanner\<close>, with the heap of file objects, the cache directory
  of its \<^verbatim>\<open>DefaultHandlers\<close>, and the calls it has made to \<^verbatim>\<open>watchSet.addFile\<close> and
  \<^verbatim>\<open>buildmessage.error\<close>. An application scan has the empty \<open>name\<close>. The caches of the
  memoised functions (\<^verbatim>\<open>wrap\<close> of the optimism library, keyed by \<^verbatim>\<open>file.hash\<close>) are
  not part of the state: a memoised function is taken to return what the function
  returns.\<close>

record scanner =
  name :: string
  bundleArch :: string
  sourceRoot :: string
  nodeModulesPaths :: "string list"
  cacheDir :: "string option"
  heap :: "File list"
  absPathToOutputIndex :: "(string \<times> nat) list"
  realPathToFiles :: "(string \<times> nat list) list"
  realPathCache :: "(string \<times> string) list"
  allMissingModules :: missingMap
  outputFiles :: "nat list"
  watchSet :: "(string \<times> string option) list"
  messages :: "(string \<times> string option \<times> nat \<times> nat) list"

text \<open>\<^verbatim>\<open>new ImportScanner({name, bundleArch, sourceRoot, nodeModulesPaths, cacheDir})\<close>;
  the constructor of \<^verbatim>\<open>DefaultHandlers\<close> joins the cache directory with the
  architecture.\<close>

definition newScanner ::
  "externals \<Rightarrow> string \<Rightarrow> string \<Rightarrow> string \<Rightarrow> string list \<Rightarrow> string option \<Rightarrow> scanner" where
  "newScanner env nm arch root nmPaths cdir =
     \<lparr>name = nm, bundleArch = arch, sourceRoot = root, nodeModulesPaths = nmPaths,
      cacheDir = (case cdir of None \<Rightarrow> None
                  | Some d \<Rightarrow> if d = [] then None else Some (pathJoin env [d, arch])),
      heap = [], absPathToOutputIndex = [], realPathToFiles = [], realPathCache = [],
      allMissingModules = [], outputFiles = [], watchSet = [],
      messages = []\<rparr>"

text \<open>A new object gets the next address of the heap.\<close>

definition alloc :: "scanner \<Rightarrow> File \<Rightarrow> scanner \<times> nat" where
  "alloc s f = (s\<lparr>heap := heap s @ [f]\<rparr>, length (heap s))"

definition fileAt :: "scanner \<Rightarrow> nat \<Rightarrow> File" where
  "fileAt s a = heap s ! a"

definition setFile :: "scanner \<Rightarrow> nat \<Rightarrow> File \<Rightarrow> scanner" where
  "setFile s a f = s\<lparr>heap := (heap s)[a := f]\<rparr>"

subsection \<open>Strings\<close>

definition startsWith :: "'a list \<Rightarrow> 'a list \<Rightarrow> bool" where
  "startsWith s p = (take (length p) s = p)"

definition endsWith :: "'a list \<Rightarrow> 'a list \<Rightarrow> bool" where
  "endsWith s p = (length p \<le> length s \<and> drop (length s - length p) s = p)"

text \<open>\<^verbatim>\<open>s.split("/")\<close>: never the empty array.\<close>

fun splitSlash :: "string \<Rightarrow> string list" where
  "splitSlash [] = [[]]"
| "splitSlash (c # cs) =
     (if c = CHR ''/'' then [] # splitSlash cs
      else (case splitSlash cs of [] \<Rightarrow> [[c]] | p # ps \<Rightarrow> (c # p) # ps))"

text \<open>\<^verbatim>\<open>parts.lastIndexOf(x)\<close> and \<^verbatim>\<open>parts.indexOf(x, start)\<close>, \<open>None\<close> for -1.\<close>

definition lastIndexOf :: "'a list \<Rightarrow> 'a \<Rightarrow> nat option" where
  "lastIndexOf xs x =
     (case filter (\<lambda>i. xs ! i = x) (rev [0..<length xs]) of [] \<Rightarrow> None | i # _ \<Rightarrow> Some i)"

definition indexOfFrom :: "'a list \<Rightarrow> 'a \<Rightarrow> nat \<Rightarrow> nat option" where
  "indexOfFrom xs x start =
     (case filter (\<lambda>i. xs ! i = x) [start..<length xs] of [] \<Rightarrow> None | i # _ \<Rightarrow> Some i)"

text \<open>\<^verbatim>\<open>dataString.replace(/^#![^\n]*/, "")\<close>\<close>

definition stripHashBang :: "ustring \<Rightarrow> ustring" where
  "stripHashBang dataStr =
     (if startsWith dataStr [0x23, 0x21] then dropWhile (\<lambda>c. c \<noteq> 0x0A) dataStr
      else dataStr)"

definition stripLeadingSlash :: "string option \<Rightarrow> string option" where
  "stripLeadingSlash p =
     (case p of None \<Rightarrow> None
      | Some s \<Rightarrow> if startsWith s ''/'' then Some (drop 1 s) else Some s)"

definition ensureLeadingSlash :: "externals \<Rightarrow> string option \<Rightarrow> string option" where
  "ensureLeadingSlash env p =
     (case p of None \<Rightarrow> None
      | Some s \<Rightarrow>
          (let posix = convertToPosixPath env s
           in if \<not> startsWith posix ''/'' then Some (''/'' @ posix) else Some posix))"

text \<open>\<^verbatim>\<open>function jsonDataToCommonJS(data)\<close>\<close>

definition jsonDataToCommonJS :: "externals \<Rightarrow> json \<Rightarrow> ustring" where
  "jsonDataToCommonJS env d = ustr ''module.exports = '' @ jsonStringify env d @ ustr [CHR '';'', CHR 0x0A]"

text \<open>\<^verbatim>\<open>const useNodeStub = { dataString: "module.useNode();", deps: Object.create(null) };
useNodeStub.data = Buffer.from(useNodeStub.dataString, "utf8");
useNodeStub.hash = sha1(useNodeStub.data);\<close>\<close>

definition useNodeStub :: "externals \<Rightarrow> File" where
  "useNodeStub env =
     emptyFile\<lparr>dataString := Some (ustr ''module.useNode();''), deps := Some [],
       data := Some (bufferFrom env (ustr ''module.useNode();'')),
       hash := Some (sha1 env (bufferFrom env (ustr ''module.useNode();'')))\<rparr>"

text \<open>\<^verbatim>\<open>isWeb() { return ! archMatches(this.bundleArch, "os"); }
isWebBrowser() { return archMatches(this.bundleArch, "web.browser"); }\<close>\<close>

definition isWeb :: "externals \<Rightarrow> scanner \<Rightarrow> bool" where
  "isWeb env s = (\<not> archMatches env (bundleArch s) ''os'')"

definition isWebBrowser :: "externals \<Rightarrow> scanner \<Rightarrow> bool" where
  "isWebBrowser env s = archMatches env (bundleArch s) ''web.browser''"

subsection \<open>DefaultHandlers\<close>

text \<open>
\<^verbatim>\<open>
getCacheFileName(file) {
  return this.cacheDir && pathJoin(this.cacheDir, "reify-" + file.hash + ".js");
}
\<close>\<close>

definition getCacheFileName :: "externals \<Rightarrow> scanner \<Rightarrow> File \<Rightarrow> string option" where
  "getCacheFileName env s f =
     (case cacheDir s of
        None \<Rightarrow> None
      | Some d \<Rightarrow>
          Some (pathJoin env
            [d, ''reify-'' @ (case hash f of Some h \<Rightarrow> h | None \<Rightarrow> ''undefined'') @ ''.js'']))"

text \<open>
\<^verbatim>\<open>
js(file) {
  const parts = file.absPath.split("/");
  const nmi = parts.lastIndexOf("node_modules");
  if (nmi >= 0) {
    const nextPart = parts[nmi + 1];
    if (nextPart === "core-js") {
      return stripHashBang(file.dataString);
    }
  }
  if (this.cacheDir) {
    const cacheFileName = this.getCacheFileName(file)!;
    try {
      return optimisticReadFile(cacheFileName, "utf8");
    } catch (e) {
      if (e.code !== "ENOENT") throw e;
      const code = reifyCompileWithCache(file.dataString, file.hash, this.bundleArch);
      process.nextTick(writeFileAtomically, cacheFileName, code);
      return code;
    }
  } else {
    return reifyCompileWithCache(file.dataString, file.hash, this.bundleArch);
  }
}
\<close>
  The write of the cache file on the next tick is outside the scanner and not modelled.\<close>

definition inCoreJs :: "string \<Rightarrow> bool" where
  "inCoreJs absP =
     (let parts = splitSlash absP
      in case lastIndexOf parts ''node_modules'' of
           None \<Rightarrow> False
         | Some nmi \<Rightarrow> Suc nmi < length parts \<and> parts ! Suc nmi = ''core-js'')"

definition compileJs :: "externals \<Rightarrow> scanner \<Rightarrow> File \<Rightarrow> exn + ustring" where
  "compileJs env s f =
     (case dataString f of
        None \<Rightarrow> Inl (TypeError ''dataString is undefined'')
      | Some src \<Rightarrow> reifyCompileWithCache env src (hash f) (bundleArch s))"

definition handlerJs :: "externals \<Rightarrow> scanner \<Rightarrow> File \<Rightarrow> exn + ustring" where
  "handlerJs env s f =
     (case absPath f of
        None \<Rightarrow> Inl (TypeError ''file.absPath is undefined'')
      | Some absP \<Rightarrow>
          if inCoreJs absP then
            (case dataString f of
               None \<Rightarrow> Inl (TypeError ''dataString is undefined'')
             | Some src \<Rightarrow> Inr (stripHashBang src))
          else
            (case getCacheFileName env s f of
               Some cacheFileName \<Rightarrow>
                 (case optimisticReadFileUtf8 env cacheFileName of
                    Inr code \<Rightarrow> Inr code
                  | Inl e \<Rightarrow> if e \<noteq> ENOENT then Inl e else compileJs env s f)
             | None \<Rightarrow> compileJs env s f))"

text \<open>
\<^verbatim>\<open>
json(file) {
  file.jsonData = JSON.parse(file.dataString);
  return jsonDataToCommonJS(file.jsonData);
}
css({ dataString, hash }) {
  return cssToCommonJS(dataString, hash);
}
\<close>
  \<open>runHandler\<close> is \<^verbatim>\<open>this.defaultHandlers[type](file)\<close> followed by the use the callers
  make of its result, which must be a string: it returns the file, which the \<^verbatim>\<open>json\<close>
  handler changes, and the module body. \<^verbatim>\<open>mjs\<close> delegates to \<^verbatim>\<open>js\<close>. The object has other
  methods than the handlers: \<^verbatim>\<open>getCacheFileName\<close>, whose result is a string when there
  is a cache directory, and the methods it inherits from \<^verbatim>\<open>Object.prototype\<close>, of which
  \<^verbatim>\<open>toString\<close> and \<^verbatim>\<open>toLocaleString\<close> return the string \<^verbatim>\<open>[object Object]\<close>; the others
  return no string or throw, and \<^verbatim>\<open>Buffer.from\<close> throws a TypeError on what is not a
  string. A type that names no property is a call of \<^verbatim>\<open>undefined\<close>, and \<^verbatim>\<open>constructor\<close>
  cannot be called: both throw a TypeError. The own properties of the prototype, which
  \<^verbatim>\<open>has(DefaultHandlers.prototype, ext)\<close> tests, are the four handlers, \<^verbatim>\<open>constructor\<close> and
  \<^verbatim>\<open>getCacheFileName\<close>.\<close>

definition handlerJson :: "externals \<Rightarrow> File \<Rightarrow> exn + File \<times> ustring" where
  "handlerJson env f =
     (case dataString f of
        None \<Rightarrow> Inl (OtherError ''SyntaxError'')
      | Some src \<Rightarrow>
          (case jsonParse env src of
             Inl e \<Rightarrow> Inl e
           | Inr j \<Rightarrow> Inr (f\<lparr>jsonData := Some j\<rparr>, jsonDataToCommonJS env j)))"

definition handlerCss :: "externals \<Rightarrow> File \<Rightarrow> exn + ustring" where
  "handlerCss env f =
     (case dataString f of
        None \<Rightarrow> Inl (TypeError ''dataString is undefined'')
      | Some src \<Rightarrow> Inr (cssToCommonJS env src (hash f)))"

definition hasHandler :: "string \<Rightarrow> bool" where
  "hasHandler ext =
     (ext \<in> set [''js'', ''mjs'', ''json'', ''css'', ''constructor'', ''getCacheFileName''])"

definition runHandler :: "externals \<Rightarrow> scanner \<Rightarrow> string option \<Rightarrow> File \<Rightarrow> exn + File \<times> ustring" where
  "runHandler env s ty f =
     (if ty = Some ''js'' \<or> ty = Some ''mjs'' then
        (case handlerJs env s f of Inl e \<Rightarrow> Inl e | Inr code \<Rightarrow> Inr (f, code))
      else if ty = Some ''json'' then handlerJson env f
      else if ty = Some ''css'' then
        (case handlerCss env f of Inl e \<Rightarrow> Inl e | Inr code \<Rightarrow> Inr (f, code))
      else if ty = Some ''toString'' \<or> ty = Some ''toLocaleString'' then
        Inr (f, ustr ''[object Object]'')
      else if ty = Some ''getCacheFileName'' then
        (case getCacheFileName env s f of
           None \<Rightarrow> Inl (TypeError ''The first argument must be of type string'')
         | Some cacheFileName \<Rightarrow> Inr (f, ustr cacheFileName))
      else Inl (TypeError ''this.defaultHandlers[type] is not a function''))"

subsection \<open>getDataString\<close>

text \<open>
\<^verbatim>\<open>
private getDataString(file) {
  if (typeof file.dataString === "string") {
    return file.dataString;
  }
  const rawDataString = file.data.toString("utf8");
  if (file.type === "js") {
    file.dataString = stripHashBang(rawDataString);
  } else {
    file.dataString = rawDataString;
    file.dataString = this.defaultHandlers[file.type](file);
  }
  if (! (file.data instanceof Buffer) ||
      file.dataString !== rawDataString) {
    file.data = Buffer.from(file.dataString, "utf8");
  }
  return file.dataString;
}
\<close>
  It returns the file as changed and the string. \<^verbatim>\<open>file.data\<close>, when present, is a
  Buffer.\<close>

definition getDataString :: "externals \<Rightarrow> scanner \<Rightarrow> File \<Rightarrow> exn + File \<times> ustring" where
  "getDataString env s f =
     (case dataString f of
        Some str \<Rightarrow> Inr (f, str)
      | None \<Rightarrow>
          (case data f of
             None \<Rightarrow> Inl (TypeError ''file.data is undefined'')
           | Some d \<Rightarrow>
               (let rawDataString = toStringUtf8 env d
                in case (if type f = Some ''js''
                         then Inr (f, stripHashBang rawDataString)
                         else runHandler env s (type f) (f\<lparr>dataString := Some rawDataString\<rparr>)) of
                     Inl e \<Rightarrow> Inl e
                   | Inr (f1, str) \<Rightarrow>
                       if str \<noteq> rawDataString
                       then Inr (f1\<lparr>dataString := Some str, data := Some (bufferFrom env str)\<rparr>, str)
                       else Inr (f1\<lparr>dataString := Some str\<rparr>, str))))"

text \<open>\<^verbatim>\<open>this.getDataString(file)\<close> on a file of the heap.\<close>

definition getDataStringAt :: "externals \<Rightarrow> scanner \<Rightarrow> nat \<Rightarrow> exn + scanner \<times> ustring" where
  "getDataStringAt env s a =
     (case getDataString env s (fileAt s a) of
        Inl e \<Rightarrow> Inl e
      | Inr (f, str) \<Rightarrow> Inr (setFile s a f, str))"

subsection \<open>readFile, readPackageJson and readModule\<close>

text \<open>
\<^verbatim>\<open>
private readFile(absPath) {
  const info = {
    absPath,
    data: optimisticReadFile(absPath),
    hash: optimisticHashOrNull(absPath),
  };
  this.watchSet.addFile(absPath, info.hash);
  info.dataString = info.data.toString("utf8");
  if (info.dataString.charCodeAt(0) === 0xfeff) {
    info.dataString = info.dataString.slice(1);
    info.data = Buffer.from(info.dataString, "utf8");
    info.hash = sha1(info.data);
  }
  return info;
}
\<close>\<close>

definition readFile :: "externals \<Rightarrow> scanner \<Rightarrow> string \<Rightarrow> exn + scanner \<times> File" where
  "readFile env s absP =
     (case optimisticReadFile env absP of
        Inl e \<Rightarrow> Inl e
      | Inr d \<Rightarrow>
          (let h = optimisticHashOrNull env absP;
               s1 = s\<lparr>watchSet := watchSet s @ [(absP, h)]\<rparr>;
               str = toStringUtf8 env d;
               info = emptyFile\<lparr>absPath := Some absP, data := Some d, hash := h,
                        dataString := Some str\<rparr>
           in if str \<noteq> [] \<and> hd str = 0xFEFF
              then Inr (s1, info\<lparr>dataString := Some (drop 1 str),
                              data := Some (bufferFrom env (drop 1 str)),
                              hash := Some (sha1 env (bufferFrom env (drop 1 str)))\<rparr>)
              else Inr (s1, info)))"

text \<open>
\<^verbatim>\<open>
private readPackageJson(absPath) {
  try {
    var info = this.readFile(absPath);
  } catch (e) {
    if (e.code !== "ENOENT") throw e;
    return null;
  }
  const jsonData = JSON.parse(info.dataString);
  Object.keys(jsonData).forEach(key => {
    if (key.startsWith("_")) {
      delete jsonData[key];
    }
  });
  info.dataString = jsonDataToCommonJS(jsonData);
  info.data = Buffer.from(info.dataString, "utf8");
  info.hash = sha1(info.data);
  info.jsonData = jsonData;
  return info;
}
\<close>
  \<^verbatim>\<open>Object.keys(null)\<close> throws; an array or a string has no key that starts with an
  underscore.\<close>

definition stripPrivateKeys :: "json \<Rightarrow> exn + json" where
  "stripPrivateKeys j =
     (case j of
        JNull \<Rightarrow> Inl (TypeError ''Cannot convert undefined or null to object'')
      | JObj kvs \<Rightarrow> Inr (JObj (filter (\<lambda>(k, v). \<not> startsWith k ''_'') kvs))
      | _ \<Rightarrow> Inr j)"

definition readPackageJson :: "externals \<Rightarrow> scanner \<Rightarrow> string \<Rightarrow> exn + scanner \<times> File option" where
  "readPackageJson env s absP =
     (case readFile env s absP of
        Inl e \<Rightarrow> if e \<noteq> ENOENT then Inl e else Inr (s, None)
      | Inr (s1, info) \<Rightarrow>
          (case dataString info of
             None \<Rightarrow> Inl (OtherError ''SyntaxError'')
           | Some str \<Rightarrow>
               (case jsonParse env str of
                  Inl e \<Rightarrow> Inl e
                | Inr parsed \<Rightarrow>
                    (case stripPrivateKeys parsed of
                       Inl e \<Rightarrow> Inl e
                     | Inr j \<Rightarrow>
                         (let str' = jsonDataToCommonJS env j
                          in Inr (s1, Some (info\<lparr>dataString := Some str',
                                   data := Some (bufferFrom env str'),
                                   hash := Some (sha1 env (bufferFrom env str')),
                                   jsonData := Some j\<rparr>)))))))"

text \<open>
\<^verbatim>\<open>
private readModule(absPath) {
  const dotExt = pathExtname(absPath).toLowerCase();
  if (dotExt === ".node") {
    const dataString = "throw new Error(" + JSON.stringify(
      this.isWeb()
        ? "cannot load native .node modules on the client"
        : "module.useNode() must succeed for native .node modules"
    ) + ");\n";
    const data = Buffer.from(dataString, "utf8");
    const hash = sha1(data);
    return { absPath, data, dataString, hash };
  }
  try {
    var info = this.readFile(absPath);
  } catch (e) {
    if (e.code !== "ENOENT") throw e;
    return null;
  }
  const dataString = info.dataString;
  let ext = dotExt.slice(1);
  if (! has(DefaultHandlers.prototype, ext)) {
    if (canBeParsedAsPlainJS(dataString)) {
      ext = "js";
    } else {
      return null;
    }
  }
  info.dataString = this.defaultHandlers[ext](info);
  if (info.dataString !== dataString) {
    info.data = Buffer.from(info.dataString, "utf8");
  }
  return info;
}
\<close>
  \<^verbatim>\<open>canBeParsedAsPlainJS\<close> is called without a hash, so its cache is not used.\<close>

definition canBeParsedAsPlainJS :: "externals \<Rightarrow> ustring \<Rightarrow> bool" where
  "canBeParsedAsPlainJS env dataStr = scriptParses env dataStr"

definition nodeModuleBody :: "externals \<Rightarrow> scanner \<Rightarrow> ustring" where
  "nodeModuleBody env s =
     ustr ''throw new Error('' @
     jsonQuote env (if isWeb env s then ''cannot load native .node modules on the client''
                    else ''module.useNode() must succeed for native .node modules'') @
     ustr [CHR '')'', CHR '';'', CHR 0x0A]"

definition readModule :: "externals \<Rightarrow> scanner \<Rightarrow> string \<Rightarrow> exn + scanner \<times> File option" where
  "readModule env s absP =
     (let dotExt = toLowerCase env (pathExtname env absP)
      in if dotExt = ''.node'' then
           (let str = nodeModuleBody env s; d = bufferFrom env str
            in Inr (s, Some (emptyFile\<lparr>absPath := Some absP, data := Some d,
                      dataString := Some str, hash := Some (sha1 env d)\<rparr>)))
         else
           (case readFile env s absP of
              Inl e \<Rightarrow> if e \<noteq> ENOENT then Inl e else Inr (s, None)
            | Inr (s1, info) \<Rightarrow>
                (case dataString info of
                   None \<Rightarrow> Inl (TypeError ''dataString is undefined'')
                 | Some dataStr \<Rightarrow>
                     (let ext = drop 1 dotExt
                      in if \<not> hasHandler ext \<and> \<not> canBeParsedAsPlainJS env dataStr
                         then Inr (s1, None)
                         else
                           (case runHandler env s1
                                   (Some (if hasHandler ext then ext else ''js'')) info of
                              Inl e \<Rightarrow> Inl e
                            | Inr (info1, str) \<Rightarrow>
                                if str \<noteq> dataStr
                                then Inr (s1, Some (info1\<lparr>dataString := Some str,
                                           data := Some (bufferFrom env str)\<rparr>))
                                else Inr (s1, Some (info1\<lparr>dataString := Some str\<rparr>)))))))"

subsection \<open>The table of output files\<close>

text \<open>
\<^verbatim>\<open>
private getFile(absPath) {
  absPath = absPath.toLowerCase();
  if (has(this.absPathToOutputIndex, absPath)) {
    return this.outputFiles[this.absPathToOutputIndex[absPath]];
  }
}
\<close>\<close>

definition getFile :: "externals \<Rightarrow> scanner \<Rightarrow> string \<Rightarrow> nat option" where
  "getFile env s absP =
     (case map_of (absPathToOutputIndex s) (toLowerCase env absP) of
        None \<Rightarrow> None
      | Some i \<Rightarrow> if i < length (outputFiles s) then Some (outputFiles s ! i) else None)"

text \<open>\<^verbatim>\<open>Object.assign(target, source)\<close>: every own property of the source is written
  to the target.\<close>

definition orElse :: "'a option \<Rightarrow> 'a option \<Rightarrow> 'a option" where
  "orElse new old = (case new of None \<Rightarrow> old | Some v \<Rightarrow> Some v)"

definition objectAssign :: "File \<Rightarrow> File \<Rightarrow> File" where
  "objectAssign target src =
     \<lparr>absPath = orElse (absPath src) (absPath target),
      sourcePath = orElse (sourcePath src) (sourcePath target),
      targetPath = orElse (targetPath src) (targetPath target),
      servePath = orElse (servePath src) (servePath target),
      path = orElse (path src) (path target),
      absModuleId = orElse (absModuleId src) (absModuleId target),
      data = orElse (data src) (data target),
      dataString = orElse (dataString src) (dataString target),
      hash = orElse (hash src) (hash target),
      type = orElse (type src) (type target),
      lazy = orElse (lazy src) (lazy target),
      bare = orElse (bare src) (bare target),
      imported = orElse (imported src) (imported target),
      implicit = orElse (implicit src) (implicit target),
      deps = orElse (deps src) (deps target),
      missingModules = orElse (missingModules src) (missingModules target),
      fileAlias = orElse (fileAlias src) (fileAlias target),
      jsonData = orElse (jsonData src) (jsonData target),
      hasErrors = orElse (hasErrors src) (hasErrors target),
      sourceMap = orElse (sourceMap src) (sourceMap target),
      fake = orElse (fake src) (fake target),
      reportPendingErrors = orElse (reportPendingErrors src) (reportPendingErrors target)\<rparr>"

text \<open>
\<^verbatim>\<open>
private addFile(absPath, file) {
  if (! file || file[fakeSymbol]) {
    return file;
  }
  const absLowerPath = absPath.toLowerCase();
  if (has(this.absPathToOutputIndex, absLowerPath)) {
    const old = this.outputFiles[this.absPathToOutputIndex[absLowerPath]];
    if (old.implicit === true) {
      return Object.assign(old, { implicit: file.implicit || false }, file);
    }
    if (file.implicit === true) {
      return old;
    }
  } else {
    this.absPathToOutputIndex[absLowerPath] = this.outputFiles.push(file) - 1;
    return file;
  }
}
\<close>
  The file is given by its address; the result is the address returned, \<open>None\<close> for
  \<^verbatim>\<open>undefined\<close>. Every file that comes to \<^verbatim>\<open>addFile\<close> has the own property
  \<^verbatim>\<open>absModuleId\<close>, written by \<^verbatim>\<open>addInputFiles\<close>, by \<^verbatim>\<open>readDepFile\<close> or in the object
  literal of the caller, also when its value is \<^verbatim>\<open>undefined\<close>: \<^verbatim>\<open>Object.assign\<close> copies it
  whatever its value.\<close>

definition addFile :: "externals \<Rightarrow> scanner \<Rightarrow> string \<Rightarrow> nat \<Rightarrow> scanner \<times> nat option" where
  "addFile env s absP a =
     (if fake (fileAt s a) = Some True then (s, Some a)
      else
        (let absLowerPath = toLowerCase env absP
         in case map_of (absPathToOutputIndex s) absLowerPath of
              Some i \<Rightarrow>
                (let old = outputFiles s ! i
                 in if implicit (fileAt s old) = Some True then
                      (setFile s old
                         ((objectAssign
                             ((fileAt s old)\<lparr>implicit := Some (implicit (fileAt s a) = Some True)\<rparr>)
                             (fileAt s a))\<lparr>absModuleId := absModuleId (fileAt s a)\<rparr>),
                       Some old)
                    else if implicit (fileAt s a) = Some True then (s, Some old)
                    else (s, None))
            | None \<Rightarrow>
                (s\<lparr>absPathToOutputIndex :=
                     AList.update absLowerPath (length (outputFiles s)) (absPathToOutputIndex s),
                   outputFiles := outputFiles s @ [a]\<rparr>,
                 Some a)))"

text \<open>
\<^verbatim>\<open>
private addFileByRealPath(file, realPath) {
  if (! has(this.realPathToFiles, realPath)) {
    this.realPathToFiles[realPath] = [];
  }
  const files = this.realPathToFiles[realPath];
  if (files.indexOf(file) < 0) {
    files.push(file);
  }
  return file;
}
\<close>\<close>

definition addFileByRealPath :: "scanner \<Rightarrow> nat \<Rightarrow> string \<Rightarrow> scanner" where
  "addFileByRealPath s a realP =
     (let files = (case map_of (realPathToFiles s) realP of None \<Rightarrow> [] | Some l \<Rightarrow> l)
      in s\<lparr>realPathToFiles :=
             AList.update realP (if a \<in> set files then files else files @ [a])
               (realPathToFiles s)\<rparr>)"

text \<open>
\<^verbatim>\<open>
private getInfoByRealPath(realPath) {
  const files = this.realPathToFiles[realPath];
  if (files && files.length > 0) {
    const firstFile = files[0];
    const dataString = this.getDataString(firstFile);
    return { data: firstFile.data, dataString: dataString, hash: firstFile.hash };
  }
  return null;
}
\<close>\<close>

definition getInfoByRealPath :: "externals \<Rightarrow> scanner \<Rightarrow> string \<Rightarrow> exn + scanner \<times> File option" where
  "getInfoByRealPath env s realP =
     (case map_of (realPathToFiles s) realP of
        Some (firstFile # rest) \<Rightarrow>
          (case getDataStringAt env s firstFile of
             Inl e \<Rightarrow> Inl e
           | Inr (s1, dataStr) \<Rightarrow>
               Inr (s1, Some (emptyFile\<lparr>data := data (fileAt s1 firstFile),
                         dataString := Some dataStr, hash := hash (fileAt s1 firstFile)\<rparr>)))
      | _ \<Rightarrow> Inr (s, None))"

subsection \<open>realPath\<close>

text \<open>
\<^verbatim>\<open>
private realPath(absPath) {
  if (has(this.realPathCache, absPath)) {
    return this.realPathCache[absPath];
  }
  let relativePath = pathRelative(this.sourceRoot, absPath);
  if (relativePath.startsWith("..")) {
    return this.realPathCache[absPath] = absPath;
  }
  let foundSymbolicLink = false;
  while (! foundSymbolicLink) {
    const testPath = pathJoin(this.sourceRoot, relativePath);
    if (testPath === this.sourceRoot) {
      break;
    }
    const lstat = optimisticLStatOrNull(testPath);
    if (lstat && lstat.isSymbolicLink()) {
      foundSymbolicLink = true;
      break
    }
    relativePath = pathDirname(relativePath);
  }
  if (foundSymbolicLink) {
    const realPath = realpathOrNull(absPath);
    if (! realPath) {
      return absPath;
    }
    return this.realPathCache[absPath] = realPath;
  }
  return this.realPathCache[absPath] = absPath;
}
\<close>
  The loop ends when the path functions bring the relative path down to the source
  root; with path functions that never do, it runs forever. The model gives it fuel:
  \<open>None\<close> is a loop that has not ended within the fuel.\<close>

fun findSymbolicLink :: "nat \<Rightarrow> externals \<Rightarrow> string \<Rightarrow> string \<Rightarrow> bool option" where
  "findSymbolicLink 0 env root relativePath = None"
| "findSymbolicLink (Suc n) env root relativePath =
     (let testPath = pathJoin env [root, relativePath]
      in if testPath = root then Some False
         else if lstatIsSymbolicLink env testPath then Some True
         else findSymbolicLink n env root (pathDirname env relativePath))"

definition cacheRealPath :: "scanner \<Rightarrow> string \<Rightarrow> string \<Rightarrow> scanner" where
  "cacheRealPath s absP realP = s\<lparr>realPathCache := AList.update absP realP (realPathCache s)\<rparr>"

definition realPath :: "nat \<Rightarrow> externals \<Rightarrow> scanner \<Rightarrow> string \<Rightarrow> (scanner \<times> string) option" where
  "realPath n env s absP =
     (case map_of (realPathCache s) absP of
        Some cached \<Rightarrow> Some (s, cached)
      | None \<Rightarrow>
          (let relativePath = pathRelative env (sourceRoot s) absP
           in if startsWith relativePath ''..'' then Some (cacheRealPath s absP absP, absP)
              else
                (case findSymbolicLink n env (sourceRoot s) relativePath of
                   None \<Rightarrow> None
                 | Some True \<Rightarrow>
                     (case realpathOrNull env absP of
                        None \<Rightarrow> Some (s, absP)
                      | Some realP \<Rightarrow>
                          if realP = [] then Some (s, absP)
                          else Some (cacheRealPath s absP realP, realP))
                 | Some False \<Rightarrow> Some (cacheRealPath s absP absP, absP))))"

subsection \<open>Absolute module identifiers\<close>

text \<open>
\<^verbatim>\<open>
private getNodeModulesAbsModuleId(absPath) {
  let absModuleId;
  this.nodeModulesPaths.some(path => {
    const relPathWithinNodeModules = pathRelative(path, absPath);
    if (relPathWithinNodeModules.startsWith("..")) {
      return;
    }
    return absModuleId = pathJoin("node_modules", relPathWithinNodeModules);
  });
  return ensureLeadingSlash(absModuleId);
}
\<close>\<close>

fun nodeModulesSome :: "externals \<Rightarrow> string \<Rightarrow> string list \<Rightarrow> string option \<Rightarrow> string option" where
  "nodeModulesSome env absP [] absModId = absModId"
| "nodeModulesSome env absP (p # ps) absModId =
     (let relPathWithinNodeModules = pathRelative env p absP
      in if startsWith relPathWithinNodeModules ''..'' then nodeModulesSome env absP ps absModId
         else
           (let joined = pathJoin env [''node_modules'', relPathWithinNodeModules]
            in if joined \<noteq> [] then Some joined
               else nodeModulesSome env absP ps (Some joined)))"

definition getNodeModulesAbsModuleId :: "externals \<Rightarrow> scanner \<Rightarrow> string \<Rightarrow> string option" where
  "getNodeModulesAbsModuleId env s absP =
     ensureLeadingSlash env (nodeModulesSome env absP (nodeModulesPaths s) None)"

text \<open>
\<^verbatim>\<open>
private getSourceRootAbsModuleId(absPath) {
  const relPath = pathRelative(this.sourceRoot, absPath);
  if (relPath.startsWith("..")) {
    return;
  }
  const dirs = relPath.split("/");
  dirs.pop();
  while (dirs[0] === "") {
    dirs.shift();
  }
  const isApp = ! this.name;
  const bundlingForWeb = this.isWeb();
  const topLevelDir = dirs[0];
  if (topLevelDir === "private" || topLevelDir === "packages" ||
      topLevelDir === "programs" || topLevelDir === "cordova-build-override") {
    return;
  }
  for (let dir of dirs) {
    if (dir.charAt(0) === ".") {
      return;
    }
    if (isApp) {
      if (bundlingForWeb) {
        if (dir === "server") {
          return;
        }
      } else if (dir === "client") {
        return;
      }
    }
    if (dir === "node_modules") {
      return ensureLeadingSlash(relPath);
    }
  }
  return ensureLeadingSlash(relPath);
}
\<close>
  \<open>acceptDirs\<close> is the \<^verbatim>\<open>for\<close> loop: whether it ends in one of the two
  \<^verbatim>\<open>return ensureLeadingSlash(relPath)\<close>.\<close>

fun acceptDirs :: "bool \<Rightarrow> bool \<Rightarrow> string list \<Rightarrow> bool" where
  "acceptDirs isApp bundlingForWeb [] = True"
| "acceptDirs isApp bundlingForWeb (dir # dirs) =
     (if startsWith dir ''.'' then False
      else if isApp \<and> bundlingForWeb \<and> dir = ''server'' then False
      else if isApp \<and> \<not> bundlingForWeb \<and> dir = ''client'' then False
      else if dir = ''node_modules'' then True
      else acceptDirs isApp bundlingForWeb dirs)"

definition getSourceRootAbsModuleId :: "externals \<Rightarrow> scanner \<Rightarrow> string \<Rightarrow> string option" where
  "getSourceRootAbsModuleId env s absP =
     (let relPath = pathRelative env (sourceRoot s) absP
      in if startsWith relPath ''..'' then None
         else
           (let dirs = dropWhile (\<lambda>d. d = []) (butlast (splitSlash relPath))
            in if (case dirs of [] \<Rightarrow> False
                   | topLevelDir # _ \<Rightarrow>
                       topLevelDir \<in> set [''private'', ''packages'', ''programs'',
                                          ''cordova-build-override''])
               then None
               else if acceptDirs (name s = []) (isWeb env s) dirs
               then ensureLeadingSlash env (Some relPath)
               else None))"

text \<open>
\<^verbatim>\<open>
private getAbsModuleId(absPath) {
  let path =
    this.getNodeModulesAbsModuleId(absPath) ||
    this.getSourceRootAbsModuleId(absPath);
  if (! path) {
    return;
  }
  if (this.name) {
    path = pathJoin("node_modules", "meteor",
      this.name.replace(/^local-test[:_]/, ""), path);
  }
  return ensureLeadingSlash(path);
}
\<close>\<close>

definition stripLocalTest :: "string \<Rightarrow> string" where
  "stripLocalTest nm =
     (if startsWith nm ''local-test:'' \<or> startsWith nm ''local-test_'' then drop 11 nm else nm)"

definition truthy :: "string option \<Rightarrow> bool" where
  "truthy v = (case v of None \<Rightarrow> False | Some str \<Rightarrow> str \<noteq> [])"

definition getAbsModuleId :: "externals \<Rightarrow> scanner \<Rightarrow> string \<Rightarrow> string option" where
  "getAbsModuleId env s absP =
     (let found = (if truthy (getNodeModulesAbsModuleId env s absP)
                   then getNodeModulesAbsModuleId env s absP
                   else getSourceRootAbsModuleId env s absP)
      in case found of
           None \<Rightarrow> None
         | Some p \<Rightarrow>
             if p = [] then None
             else if name s \<noteq> [] then
               ensureLeadingSlash env
                 (Some (pathJoin env [''node_modules'', ''meteor'', stripLocalTest (name s), p]))
             else ensureLeadingSlash env (Some p))"

text \<open>
\<^verbatim>\<open>
private shouldUseNode(absModuleId) {
  if (this.isWeb()) {
    return false;
  }
  const parts = absModuleId.split("/");
  let start = 0;
  if (parts[start] === "") ++start;
  if (parts[start] === "node_modules" &&
      parts[start + 1] === "meteor") {
    start += 2;
  }
  return parts.indexOf("node_modules", start) >= 0;
}
\<close>\<close>

definition partIs :: "string list \<Rightarrow> nat \<Rightarrow> string \<Rightarrow> bool" where
  "partIs parts i str = (i < length parts \<and> parts ! i = str)"

definition shouldUseNode :: "externals \<Rightarrow> scanner \<Rightarrow> string \<Rightarrow> bool" where
  "shouldUseNode env s absModId =
     (if isWeb env s then False
      else
        (let parts = splitSlash absModId;
             start0 = (if partIs parts 0 [] then 1 else 0);
             start = (if partIs parts start0 ''node_modules'' \<and> partIs parts (start0 + 1) ''meteor''
                      then start0 + 2 else start0)
         in indexOfFrom parts ''node_modules'' start \<noteq> None))"

text \<open>
\<^verbatim>\<open>
private getRelativeImportId(absParentId, absChildId) {
  const relativeId = posixRelative(posixDirname(absParentId), absChildId);
  if ("./".indexOf(relativeId.charAt(0)) < 0) {
    return "./" + relativeId;
  }
  return relativeId;
}
\<close>
  The path functions throw a TypeError on \<^verbatim>\<open>undefined\<close>.\<close>

definition getRelativeImportId :: "externals \<Rightarrow> string option \<Rightarrow> string option \<Rightarrow> exn + string" where
  "getRelativeImportId env absParentId absChildId =
     (case (absParentId, absChildId) of
        (Some p, Some c) \<Rightarrow>
          (let relativeId = posixRelative env (posixDirname env p) c
           in if relativeId = [] \<or> startsWith relativeId ''.'' \<or> startsWith relativeId ''/''
              then Inr relativeId else Inr (''./'' @ relativeId))
      | _ \<Rightarrow> Inl (TypeError ''The path argument must be of type string''))"

subsection \<open>Input files\<close>

text \<open>The \<^verbatim>\<open>statOrNull\<close> hook that the constructor installs in the resolver: a path the
  scanner holds a file for counts as a file.\<close>

definition knownFile :: "externals \<Rightarrow> scanner \<Rightarrow> string \<Rightarrow> bool" where
  "knownFile env s absP = (getFile env s absP \<noteq> None)"

text \<open>
\<^verbatim>\<open>
private getSourcePath(file) {
  let sourcePath = file.sourcePath;
  if (sourcePath) {
    if (pathIsAbsolute(sourcePath)) {
      let relPath;
      try {
        relPath = pathRelative(this.sourceRoot, sourcePath);
      } finally {
        if (! relPath || relPath.startsWith("..")) {
          if (this.resolver.joinAndStat(this.sourceRoot, sourcePath)) {
            return pathNormalize(pathJoin(".", sourcePath));
          }
          if (relPath) {
            throw new Error("sourcePath outside sourceRoot: " + sourcePath);
          }
        }
      }
      sourcePath = relPath;
    }
  } else if (file.servePath) {
    sourcePath = convertToOSPath(file.servePath.replace(/^\//, ""));
  } else if (file.path) {
    sourcePath = file.path;
  }
  return pathNormalize(pathJoin(".", sourcePath));
}
\<close>
  \<^verbatim>\<open>pathRelative\<close> does not throw on strings. \<^verbatim>\<open>pathJoin(".", undefined)\<close> throws a
  TypeError.\<close>

definition getSourcePath :: "externals \<Rightarrow> scanner \<Rightarrow> File \<Rightarrow> exn + string" where
  "getSourcePath env s f =
     (if truthy (sourcePath f) then
        (case sourcePath f of
           None \<Rightarrow> Inl (TypeError ''unreachable'')
         | Some sp \<Rightarrow>
             if pathIsAbsolute env sp then
               (let relPath = pathRelative env (sourceRoot s) sp
                in if relPath = [] \<or> startsWith relPath ''..'' then
                     (if resolverJoinAndStat env (knownFile env s) (sourceRoot s) sp
                      then Inr (pathNormalize env (pathJoin env [''.'', sp]))
                      else if relPath \<noteq> [] then Inl (SourcePathOutsideSourceRoot sp)
                      else Inr (pathNormalize env (pathJoin env [''.'', relPath])))
                   else Inr (pathNormalize env (pathJoin env [''.'', relPath])))
             else Inr (pathNormalize env (pathJoin env [''.'', sp])))
      else if truthy (servePath f) then
        (case servePath f of
           None \<Rightarrow> Inl (TypeError ''unreachable'')
         | Some sv \<Rightarrow>
             Inr (pathNormalize env
                    (pathJoin env [''.'', convertToOSPath env
                       (if startsWith sv ''/'' then drop 1 sv else sv)])))
      else if truthy (path f) then
        (case path f of
           None \<Rightarrow> Inl (TypeError ''unreachable'')
         | Some p \<Rightarrow> Inr (pathNormalize env (pathJoin env [''.'', p])))
      else
        (case sourcePath f of
           None \<Rightarrow> Inl (TypeError ''The path argument must be of type string'')
         | Some sp \<Rightarrow> Inr (pathNormalize env (pathJoin env [''.'', sp]))))"

text \<open>
\<^verbatim>\<open>
private checkSourceAndTargetPaths(file) {
  file.sourcePath = this.getSourcePath(file);
  if (! isString(file.targetPath)) {
    return;
  }
  file.targetPath = pathNormalize(pathJoin(".", file.targetPath));
  if (file.targetPath !== file.sourcePath) {
    const absSourcePath = pathJoin(this.sourceRoot, file.sourcePath);
    const absTargetPath = pathJoin(this.sourceRoot, file.targetPath);
    const absSourceId = this.getAbsModuleId(absSourcePath);
    const absTargetId = this.getAbsModuleId(absTargetPath);
    const sourceFile = this.getFile(absSourcePath) || this.addFile(absSourcePath, {
      type: file.type,
      sourcePath: file.sourcePath,
      servePath: stripLeadingSlash(absSourceId),
      absModuleId: absSourceId,
      dataString: "",
      deps: {},
      lazy: true,
      imported: false,
      implicit: true,
    })!;
    file.absModuleId = absTargetId;
    file.sourcePath = file.targetPath;
    if (sourceFile.implicit !== true) {
      return;
    }
    const relativeId = this.getRelativeImportId(absSourceId, absTargetId);
    sourceFile.dataString = this.getDataString(sourceFile) +
      "module.link(" + JSON.stringify(relativeId) + ', { "*": "*+" });\n';
    sourceFile.data = Buffer.from(sourceFile.dataString, "utf8");
    sourceFile.hash = sha1(sourceFile.data);
    sourceFile.deps[relativeId] = {
      absModuleId: file.absModuleId,
      possiblySpurious: false,
      dynamic: false
    };
  }
}
\<close>\<close>

definition proxyFile :: "File \<Rightarrow> string option \<Rightarrow> File" where
  "proxyFile f absSourceId =
     emptyFile\<lparr>type := type f, sourcePath := sourcePath f,
       servePath := stripLeadingSlash absSourceId, absModuleId := absSourceId,
       dataString := Some [], deps := Some [], lazy := Some True,
       imported := Some NotImported, implicit := Some True\<rparr>"

definition moduleLink :: "externals \<Rightarrow> string \<Rightarrow> ustring" where
  "moduleLink env relativeId =
     ustr ''module.link('' @ jsonQuote env relativeId @
     ustr ('', { '' @ [CHR 0x22] @ ''*'' @ [CHR 0x22] @ '': '' @ [CHR 0x22] @ ''*+'' @ [CHR 0x22]
           @ '' });'' @ [CHR 0x0A])"

definition linkProxy :: "externals \<Rightarrow> scanner \<Rightarrow> nat \<Rightarrow> nat \<Rightarrow> string option \<Rightarrow> string option \<Rightarrow> exn + scanner" where
  "linkProxy env s a sourceFile absSourceId absTargetId =
     (case getRelativeImportId env absSourceId absTargetId of
        Inl e \<Rightarrow> Inl e
      | Inr relativeId \<Rightarrow>
          (case getDataStringAt env s sourceFile of
             Inl e \<Rightarrow> Inl e
           | Inr (s1, body) \<Rightarrow>
               (let str = body @ moduleLink env relativeId;
                    sf = (fileAt s1 sourceFile)\<lparr>dataString := Some str,
                           data := Some (bufferFrom env str),
                           hash := Some (sha1 env (bufferFrom env str))\<rparr>
                in case deps sf of
                     None \<Rightarrow> Inl (TypeError ''sourceFile.deps is undefined'')
                   | Some ds \<Rightarrow>
                       Inr (setFile s1 sourceFile
                              (sf\<lparr>deps := Some (AList.update relativeId
                                     (emptyInfo\<lparr>infoAbsModuleId := absModuleId (fileAt s1 a)\<rparr>)
                                     ds)\<rparr>)))))"

definition checkSourceAndTargetPaths :: "externals \<Rightarrow> scanner \<Rightarrow> nat \<Rightarrow> exn + scanner" where
  "checkSourceAndTargetPaths env s a =
     (case getSourcePath env s (fileAt s a) of
        Inl e \<Rightarrow> Inl e
      | Inr srcPath \<Rightarrow>
          (let s1 = setFile s a ((fileAt s a)\<lparr>sourcePath := Some srcPath\<rparr>)
           in case targetPath (fileAt s1 a) of
                None \<Rightarrow> Inr s1
              | Some tp \<Rightarrow>
                  (let tgtPath = pathNormalize env (pathJoin env [''.'', tp]);
                       s2 = setFile s1 a ((fileAt s1 a)\<lparr>targetPath := Some tgtPath\<rparr>)
                   in if tgtPath = srcPath then Inr s2
                      else
                        (let absSourcePath = pathJoin env [sourceRoot s2, srcPath];
                             absTargetPath = pathJoin env [sourceRoot s2, tgtPath];
                             absSourceId = getAbsModuleId env s2 absSourcePath;
                             absTargetId = getAbsModuleId env s2 absTargetPath;
                             (s3, sourceFile) =
                               (case getFile env s2 absSourcePath of
                                  Some old \<Rightarrow> (s2, Some old)
                                | None \<Rightarrow>
                                    (let (s', p) = alloc s2 (proxyFile (fileAt s2 a) absSourceId)
                                     in addFile env s' absSourcePath p))
                         in case sourceFile of
                              None \<Rightarrow> Inl (TypeError ''sourceFile is undefined'')
                            | Some sf \<Rightarrow>
                                (let s4 = setFile s3 a ((fileAt s3 a)\<lparr>absModuleId := absTargetId,
                                            sourcePath := Some tgtPath\<rparr>)
                                 in if implicit (fileAt s4 sf) \<noteq> Some True then Inr s4
                                    else linkProxy env s4 a sf absSourceId absTargetId)))))"

subsection \<open>combineFiles\<close>

text \<open>
\<^verbatim>\<open>
function checkProperty(name) {
  if (has(oldFile, name)) {
    if (! has(newFile, name)) {
      newFile[name] = oldFile[name];
    }
  } else if (has(newFile, name)) {
    oldFile[name] = newFile[name];
  }
  if (oldFile[name] !== newFile[name]) {
    const fuzzyCase =
      oldFile.sourcePath.toLowerCase() === newFile.sourcePath.toLowerCase();
    throw new Error("Attempting to combine different files" + ...);
  }
}
\<close>
  The property is given by its selector and its update. The error carries
  \<^verbatim>\<open>fuzzyCase\<close>, which decides its message.\<close>

definition checkProperty ::
  "externals \<Rightarrow> (File \<Rightarrow> bool option) \<Rightarrow> (bool option \<Rightarrow> File \<Rightarrow> File) \<Rightarrow> scanner \<Rightarrow> nat \<Rightarrow> nat
     \<Rightarrow> exn + scanner" where
  "checkProperty env get put s oldFile newFile =
     (let s1 = (case (get (fileAt s oldFile), get (fileAt s newFile)) of
                  (Some v, None) \<Rightarrow> setFile s newFile (put (Some v) (fileAt s newFile))
                | (None, Some v) \<Rightarrow> setFile s oldFile (put (Some v) (fileAt s oldFile))
                | _ \<Rightarrow> s)
      in if get (fileAt s1 oldFile) \<noteq> get (fileAt s1 newFile) then
           (case (sourcePath (fileAt s1 oldFile), sourcePath (fileAt s1 newFile)) of
              (Some p, Some q) \<Rightarrow> Inl (CombineError (toLowerCase env p = toLowerCase env q))
            | _ \<Rightarrow> Inl (TypeError ''Cannot read property toLowerCase of undefined''))
         else Inr s1)"

text \<open>
\<^verbatim>\<open>
private combineFiles(oldFile, newFile) {
  checkProperty("lazy");
  checkProperty("bare");
  function getChunk(file) {
    const consumer = file.sourceMap && new SourceMapConsumer(file.sourceMap);
    const node = consumer &&
      SourceNode.fromStringWithSourceMap(scanner.getDataString(file), consumer);
    return node || scanner.getDataString(file);
  }
  const { code: combinedDataString, map: combinedSourceMap } =
    new SourceNode(null, null, null, [
      getChunk(oldFile), "\n\n", getChunk(newFile)
    ]).toStringWithSourceMap({ file: oldFile.servePath || newFile.servePath });
  oldFile.dataString = combinedDataString;
  oldFile.data = Buffer.from(oldFile.dataString, "utf8");
  oldFile.hash = sha1(oldFile.data);
  alignImportedStatuses(oldFile, newFile);
  oldFile.sourceMap = combinedSourceMap.toJSON();
  if (! oldFile.sourceMap.mappings) {
    oldFile.sourceMap = null;
  }
}
\<close>
  Modelled from the spec: the source map library (\<^verbatim>\<open>SourceNode\<close>,
  \<^verbatim>\<open>SourceMapConsumer\<close>) is not in the sources. The spec gives the code of the combined
  node: "the combined body is oldBody + \<^verbatim>\<open>"\n\n"\<close> + newBody with a merged source map".
  The merged map is the parameter \<open>combinedSourceMap\<close> of the two chunks and the file
  name. A source map that is \<^verbatim>\<open>null\<close> is \<open>None\<close>.\<close>

definition combineFiles :: "externals \<Rightarrow> scanner \<Rightarrow> nat \<Rightarrow> nat \<Rightarrow> exn + scanner" where
  "combineFiles env s oldFile newFile =
     (case checkProperty env lazy (\<lambda>v f. f\<lparr>lazy := v\<rparr>) s oldFile newFile of
        Inl e \<Rightarrow> Inl e
      | Inr s1 \<Rightarrow>
     (case checkProperty env bare (\<lambda>v f. f\<lparr>bare := v\<rparr>) s1 oldFile newFile of
        Inl e \<Rightarrow> Inl e
      | Inr s2 \<Rightarrow>
     (case getDataStringAt env s2 oldFile of
        Inl e \<Rightarrow> Inl e
      | Inr (s3, oldBody) \<Rightarrow>
     (case getDataStringAt env s3 newFile of
        Inl e \<Rightarrow> Inl e
      | Inr (s4, newBody) \<Rightarrow>
          (let combinedDataString = oldBody @ ustr [CHR 0x0A, CHR 0x0A] @ newBody;
               combined = combinedSourceMap env
                  (oldBody, sourceMap (fileAt s3 oldFile))
                  (newBody, sourceMap (fileAt s4 newFile))
                  (if truthy (servePath (fileAt s4 oldFile)) then servePath (fileAt s4 oldFile)
                   else servePath (fileAt s4 newFile));
               s5 = setFile s4 oldFile ((fileAt s4 oldFile)\<lparr>
                      dataString := Some combinedDataString,
                      data := Some (bufferFrom env combinedDataString),
                      hash := Some (sha1 env (bufferFrom env combinedDataString))\<rparr>);
               s6 = s5\<lparr>heap := alignImportedStatuses (heap s5) [oldFile, newFile]\<rparr>
           in Inr (setFile s6 oldFile ((fileAt s6 oldFile)\<lparr>
                     sourceMap := (if mappings combined = [] then None else Some combined)\<rparr>)))))))"

subsection \<open>addInputFiles\<close>

text \<open>
\<^verbatim>\<open>
addInputFiles(files) {
  files.forEach(file => {
    this.checkSourceAndTargetPaths(file);
    file.absPath = pathJoin(this.sourceRoot, file.sourcePath);
    file.imported = false;
    file.absModuleId = file.absModuleId || this.getAbsModuleId(file.absPath);
    if (! this.addFile(file.absPath, file)) {
      this.combineFiles(this.getFile(file.absPath)!, file);
    }
    this.addFileByRealPath(file, this.realPath(file.absPath));
  });
  return this;
}
\<close>
  The files are objects of the caller, given by their addresses in the heap. The first
  argument is the fuel of \<^verbatim>\<open>realPath\<close>.\<close>

definition addInputFile :: "nat \<Rightarrow> externals \<Rightarrow> scanner \<Rightarrow> nat \<Rightarrow> (exn + scanner) option" where
  "addInputFile n env s a =
     (case checkSourceAndTargetPaths env s a of
        Inl e \<Rightarrow> Some (Inl e)
      | Inr s1 \<Rightarrow>
          (case sourcePath (fileAt s1 a) of
             None \<Rightarrow> Some (Inl (TypeError ''The path argument must be of type string''))
           | Some srcPath \<Rightarrow>
               (let absP = pathJoin env [sourceRoot s1, srcPath];
                    s2 = setFile s1 a ((fileAt s1 a)\<lparr>absPath := Some absP,
                           imported := Some NotImported\<rparr>);
                    s3 = setFile s2 a ((fileAt s2 a)\<lparr>absModuleId :=
                           (if truthy (absModuleId (fileAt s2 a)) then absModuleId (fileAt s2 a)
                            else getAbsModuleId env s2 absP)\<rparr>);
                    (s4, added) = addFile env s3 absP a
                 in case (case added of
                            Some r \<Rightarrow> Inr s4
                          | None \<Rightarrow>
                              (case getFile env s4 absP of
                                 None \<Rightarrow> Inl (TypeError ''oldFile is undefined'')
                               | Some old \<Rightarrow> combineFiles env s4 old a)) of
                      Inl e \<Rightarrow> Some (Inl e)
                    | Inr s5 \<Rightarrow>
                        (case realPath n env s5 absP of
                           None \<Rightarrow> None
                         | Some (s6, realP) \<Rightarrow> Some (Inr (addFileByRealPath s6 a realP))))))"

fun addInputFiles :: "nat \<Rightarrow> externals \<Rightarrow> scanner \<Rightarrow> nat list \<Rightarrow> (exn + scanner) option" where
  "addInputFiles n env s [] = Some (Inr s)"
| "addInputFiles n env s (a # files) =
     (case addInputFile n env s a of
        None \<Rightarrow> None
      | Some (Inl e) \<Rightarrow> Some (Inl e)
      | Some (Inr s1) \<Rightarrow> addInputFiles n env s1 files)"

subsection \<open>Dependencies of a file\<close>

definition depInfo :: "scanner \<Rightarrow> nat \<Rightarrow> string \<Rightarrow> importInfo option" where
  "depInfo s a ident = (case deps (fileAt s a) of None \<Rightarrow> None | Some ds \<Rightarrow> map_of ds ident)"

text \<open>\<^verbatim>\<open>info.helpers = info.helpers || {}; info.helpers[helperId] = forDynamicImport\<close>
  for \<^verbatim>\<open>info = file.deps[id]\<close>.\<close>

definition addHelper :: "string \<Rightarrow> bool \<Rightarrow> importInfo \<Rightarrow> importInfo" where
  "addHelper helperId fd info =
     info\<lparr>helpers := Some (AList.update helperId fd
                          (case helpers info of None \<Rightarrow> [] | Some hs \<Rightarrow> hs))\<rparr>"

definition ensureHelpers :: "importInfo \<Rightarrow> importInfo" where
  "ensureHelpers info = info\<lparr>helpers := Some (case helpers info of None \<Rightarrow> [] | Some hs \<Rightarrow> hs)\<rparr>"

definition updateDep :: "scanner \<Rightarrow> nat \<Rightarrow> string \<Rightarrow> (importInfo \<Rightarrow> importInfo) \<Rightarrow> scanner" where
  "updateDep s a ident change =
     (case deps (fileAt s a) of
        None \<Rightarrow> s
      | Some ds \<Rightarrow>
          (case map_of ds ident of
             None \<Rightarrow> s
           | Some info \<Rightarrow>
               setFile s a ((fileAt s a)\<lparr>deps := Some (AList.update ident (change info) ds)\<rparr>)))"

subsection \<open>package.json files and their browser aliases\<close>

text \<open>
\<^verbatim>\<open>
private areAbsModuleIdsInSamePackage(path1, path2) {
  if (! (isString(path1) && isString(path2))) {
    return false;
  }
  assert.strictEqual(path1.charAt(0), "/");
  assert.strictEqual(path2.charAt(0), "/");
  function getPackageRoot(path) {
    const parts = path.split("/");
    assert.strictEqual(parts[0], "");
    const nmi = parts.lastIndexOf("node_modules");
    return parts.slice(0, nmi + 2).join("/");
  }
  return getPackageRoot(path1) === getPackageRoot(path2);
}
\<close>\<close>

fun joinSlash :: "string list \<Rightarrow> string" where
  "joinSlash [] = []"
| "joinSlash [p] = p"
| "joinSlash (p # q # ps) = p @ ''/'' @ joinSlash (q # ps)"

definition getPackageRoot :: "string \<Rightarrow> string" where
  "getPackageRoot p =
     (let parts = splitSlash p
      in joinSlash (take (case lastIndexOf parts ''node_modules'' of
                            None \<Rightarrow> 1 | Some nmi \<Rightarrow> nmi + 2) parts))"

definition areAbsModuleIdsInSamePackage :: "string option \<Rightarrow> string option \<Rightarrow> exn + bool" where
  "areAbsModuleIdsInSamePackage path1 path2 =
     (case (path1, path2) of
        (Some p1, Some p2) \<Rightarrow>
          if \<not> startsWith p1 ''/'' \<or> \<not> startsWith p2 ''/''
          then Inl (AssertionError ''strictEqual'')
          else Inr (getPackageRoot p1 = getPackageRoot p2)
      | _ \<Rightarrow> Inr False)"

text \<open>The own enumerable properties of a JSON value that \<^verbatim>\<open>isObject\<close> accepts: those of
  an object, and the indices of an array.\<close>

fun decimal :: "nat \<Rightarrow> string" where
  "decimal n =
     (if n < 10 then [''0123456789'' ! n] else decimal (n div 10) @ [''0123456789'' ! (n mod 10)])"

definition jsonEntries :: "json \<Rightarrow> (string \<times> json) list option" where
  "jsonEntries j =
     (case j of
        JObj kvs \<Rightarrow> Some kvs
      | JArr xs \<Rightarrow> Some (zip (map decimal [0..<length xs]) xs)
      | _ \<Rightarrow> None)"

definition emptyResolution :: resolution where
  "emptyResolution = \<lparr>resPath = None, resId = None, packageJsonMap = None,
     resAbsModuleId = IdUndefined\<rparr>"

definition idOf :: "string option \<Rightarrow> idval" where
  "idOf m = (case m of None \<Rightarrow> IdUndefined | Some str \<Rightarrow> IdString str)"

text \<open>
\<^verbatim>\<open>
private resolvePkgJsonBrowserAliases(pkgFile, forDynamicImport = false) {
  if (! this.isWeb()) {
    return;
  }
  const browser = pkgFile.jsonData.browser;
  if (! isObject(browser)) {
    return;
  }
  const deps = pkgFile.deps || (pkgFile.deps = Object.create(null));
  const absPkgJsonPath = pathJoin(this.sourceRoot, pkgFile.sourcePath);
  Object.keys(browser).forEach(sourceId => {
    deps[sourceId] = deps[sourceId] || {};
    const source = this.resolver.resolve(sourceId, absPkgJsonPath);
    if (! source || source === "missing") {
      return;
    }
    const file = this.getFile(source.path);
    if (file && file.alias) {
      return;
    }
    const sourceAbsModuleId = this.getAbsModuleId(source.path);
    const hasAuthorityToCreateAlias =
      this.areAbsModuleIdsInSamePackage(pkgFile.absModuleId, sourceAbsModuleId);
    if (! hasAuthorityToCreateAlias) {
      return;
    }
    const targetId = browser[sourceId];
    const alias = {};
    if (typeof targetId === "string") {
      deps[targetId] = deps[targetId] || {};
      const target = this.resolver.resolve(targetId, absPkgJsonPath);
      if (! target || target === "missing") {
        return;
      }
      if (target.id === source.id) {
        return;
      }
      Object.assign(alias, target);
      alias.absModuleId = this.getAbsModuleId(target.path);
    } else if (targetId === false) {
      alias.absModuleId = false;
    } else {
      return;
    }
    if (file) {
      file.alias = alias;
    } else {
      const relSourcePath = pathRelative(this.sourceRoot, source.path);
      this.addFile(source.path, {
        alias,
        data: Buffer.from("", "utf8"),
        dataString: "",
        sourcePath: relSourcePath,
        absModuleId: sourceAbsModuleId,
        servePath: stripLeadingSlash(sourceAbsModuleId),
        lazy: true,
        imported: false,
        implicit: true,
      });
    }
  });
}
\<close>
  \<open>resolverObject\<close> is the test \<^verbatim>\<open>! r || r === "missing"\<close> on a result of the
  resolver: \<open>Inr None\<close> when it holds, the resolution otherwise; a string other than
  \<^verbatim>\<open>"missing"\<close> has no \<^verbatim>\<open>path\<close>, and \<^verbatim>\<open>getFile(undefined)\<close> throws.\<close>

definition ensureDep :: "scanner \<Rightarrow> nat \<Rightarrow> string \<Rightarrow> scanner" where
  "ensureDep s a ident =
     (let ds = (case deps (fileAt s a) of None \<Rightarrow> [] | Some l \<Rightarrow> l)
      in setFile s a ((fileAt s a)\<lparr>deps := Some
           (AList.update ident (case map_of ds ident of None \<Rightarrow> emptyInfo | Some i \<Rightarrow> i) ds)\<rparr>))"

definition resolverObject :: "resolved \<Rightarrow> exn + (resolution \<times> string) option" where
  "resolverObject r =
     (case r of
        ResolvedNull \<Rightarrow> Inr None
      | Unresolved str \<Rightarrow>
          if str = [] \<or> str = ''missing'' then Inr None
          else Inl (TypeError ''Cannot read property toLowerCase of undefined'')
      | Resolved res \<Rightarrow>
          (case resPath res of
             None \<Rightarrow> Inl (TypeError ''Cannot read property toLowerCase of undefined'')
           | Some p \<Rightarrow> Inr (Some (res, p))))"

definition aliasStub :: "externals \<Rightarrow> scanner \<Rightarrow> resolution \<Rightarrow> string \<Rightarrow> string option \<Rightarrow> File" where
  "aliasStub env s al sourceP sourceAbsModuleId =
     emptyFile\<lparr>fileAlias := Some al, data := Some (bufferFrom env []), dataString := Some [],
       sourcePath := Some (pathRelative env (sourceRoot s) sourceP),
       absModuleId := sourceAbsModuleId, servePath := stripLeadingSlash sourceAbsModuleId,
       lazy := Some True, imported := Some NotImported, implicit := Some True\<rparr>"

definition installAlias :: "externals \<Rightarrow> scanner \<Rightarrow> nat option \<Rightarrow> string \<Rightarrow> string option \<Rightarrow> resolution \<Rightarrow> scanner" where
  "installAlias env s file sourceP sourceAbsModuleId al =
     (case file of
        Some a \<Rightarrow> setFile s a ((fileAt s a)\<lparr>fileAlias := Some al\<rparr>)
      | None \<Rightarrow>
          (let (s1, p) = alloc s (aliasStub env s al sourceP sourceAbsModuleId)
           in fst (addFile env s1 sourceP p)))"

definition browserAlias ::
  "externals \<Rightarrow> scanner \<Rightarrow> nat \<Rightarrow> string \<Rightarrow> (string \<times> json) list \<Rightarrow> string \<Rightarrow> exn + scanner" where
  "browserAlias env s pkgFile absPkgJsonPath browser sourceId =
     (let s1 = ensureDep s pkgFile sourceId
      in case resolverObject (resolverResolve env (knownFile env s1) sourceId absPkgJsonPath) of
           Inl e \<Rightarrow> Inl e
         | Inr None \<Rightarrow> Inr s1
         | Inr (Some (source, sourceP)) \<Rightarrow>
             (let file = getFile env s1 sourceP
              in if (case file of None \<Rightarrow> False | Some a \<Rightarrow> fileAlias (fileAt s1 a) \<noteq> None)
                 then Inr s1
                 else
                   (let sourceAbsModuleId = getAbsModuleId env s1 sourceP
                    in case areAbsModuleIdsInSamePackage (absModuleId (fileAt s1 pkgFile))
                              sourceAbsModuleId of
                         Inl e \<Rightarrow> Inl e
                       | Inr hasAuthorityToCreateAlias \<Rightarrow>
                           if \<not> hasAuthorityToCreateAlias then Inr s1
                           else
                             (case map_of browser sourceId of
                                Some (JStr targetId) \<Rightarrow>
                                  (let s2 = ensureDep s1 pkgFile targetId
                                   in case resolverObject
                                             (resolverResolve env (knownFile env s2) targetId
                                                absPkgJsonPath) of
                                        Inl e \<Rightarrow> Inl e
                                      | Inr None \<Rightarrow> Inr s2
                                      | Inr (Some (target, targetP)) \<Rightarrow>
                                          if resId target = resId source then Inr s2
                                          else Inr (installAlias env s2 file sourceP
                                                 sourceAbsModuleId
                                                 (target\<lparr>resAbsModuleId :=
                                                    idOf (getAbsModuleId env s2 targetP)\<rparr>)))
                              | Some (JBool False) \<Rightarrow>
                                  Inr (installAlias env s1 file sourceP sourceAbsModuleId
                                         (emptyResolution\<lparr>resAbsModuleId := IdFalse\<rparr>))
                              | _ \<Rightarrow> Inr s1))))"

fun browserAliases ::
  "externals \<Rightarrow> scanner \<Rightarrow> nat \<Rightarrow> string \<Rightarrow> (string \<times> json) list \<Rightarrow> string list \<Rightarrow> exn + scanner" where
  "browserAliases env s pkgFile absPkgJsonPath browser [] = Inr s"
| "browserAliases env s pkgFile absPkgJsonPath browser (sourceId # sourceIds) =
     (case browserAlias env s pkgFile absPkgJsonPath browser sourceId of
        Inl e \<Rightarrow> Inl e
      | Inr s1 \<Rightarrow> browserAliases env s1 pkgFile absPkgJsonPath browser sourceIds)"

definition resolvePkgJsonBrowserAliases :: "externals \<Rightarrow> scanner \<Rightarrow> nat \<Rightarrow> bool \<Rightarrow> exn + scanner" where
  "resolvePkgJsonBrowserAliases env s pkgFile fd =
     (if \<not> isWeb env s then Inr s
      else
        (case jsonData (fileAt s pkgFile) of
           None \<Rightarrow> Inl (TypeError ''Cannot read property browser of undefined'')
         | Some JNull \<Rightarrow> Inl (TypeError ''Cannot read property browser of null'')
         | Some (JObj kvs) \<Rightarrow>
             (case (case map_of kvs ''browser'' of None \<Rightarrow> None | Some b \<Rightarrow> jsonEntries b) of
                None \<Rightarrow> Inr s
              | Some browser \<Rightarrow>
                  (let s1 = setFile s pkgFile ((fileAt s pkgFile)\<lparr>deps :=
                              Some (case deps (fileAt s pkgFile) of None \<Rightarrow> [] | Some l \<Rightarrow> l)\<rparr>)
                   in case sourcePath (fileAt s1 pkgFile) of
                        None \<Rightarrow> Inl (TypeError ''The path argument must be of type string'')
                      | Some sp \<Rightarrow>
                          browserAliases env s1 pkgFile (pathJoin env [sourceRoot s1, sp])
                            browser (keys browser)))
         | Some _ \<Rightarrow> Inr s))"

text \<open>
\<^verbatim>\<open>
private addPkgJsonToOutput(pkgJsonPath, pkg, forDynamicImport = false) {
  const file = this.getFile(pkgJsonPath);
  if (file) {
    setImportedStatus(file, forDynamicImport ? "dynamic" : "static");
    return file;
  }
  const data = Buffer.from(jsonDataToCommonJS(pkg), "utf8");
  const relPkgJsonPath = pathRelative(this.sourceRoot, pkgJsonPath);
  const absModuleId = this.getAbsModuleId(pkgJsonPath);
  const pkgFile = {
    type: "js",
    data,
    jsonData: pkg,
    deps: {},
    sourcePath: relPkgJsonPath,
    absModuleId,
    servePath: stripLeadingSlash(absModuleId),
    hash: sha1(data),
    lazy: true,
    imported: forDynamicImport ? "dynamic" : "static",
    implicit: true,
  };
  this.addFile(pkgJsonPath, pkgFile);
  const hash = optimisticHashOrNull(pkgJsonPath);
  if (hash) {
    this.watchSet.addFile(pkgJsonPath, hash);
  }
  this.resolvePkgJsonBrowserAliases(pkgFile, forDynamicImport);
  return pkgFile;
}
\<close>\<close>

definition statusFor :: "bool \<Rightarrow> importedStatus" where
  "statusFor fd = (if fd then Dynamic else Static)"

definition pkgJsonFile :: "externals \<Rightarrow> scanner \<Rightarrow> string \<Rightarrow> json \<Rightarrow> bool \<Rightarrow> File" where
  "pkgJsonFile env s pkgJsonPath pkg fd =
     (let d = bufferFrom env (jsonDataToCommonJS env pkg);
          absModId = getAbsModuleId env s pkgJsonPath
      in emptyFile\<lparr>type := Some ''js'', data := Some d, jsonData := Some pkg, deps := Some [],
           sourcePath := Some (pathRelative env (sourceRoot s) pkgJsonPath),
           absModuleId := absModId, servePath := stripLeadingSlash absModId,
           hash := Some (sha1 env d), lazy := Some True, imported := Some (statusFor fd),
           implicit := Some True\<rparr>)"

definition addPkgJsonToOutput ::
  "externals \<Rightarrow> scanner \<Rightarrow> string \<Rightarrow> json \<Rightarrow> bool \<Rightarrow> exn + scanner \<times> nat" where
  "addPkgJsonToOutput env s pkgJsonPath pkg fd =
     (case getFile env s pkgJsonPath of
        Some file \<Rightarrow>
          Inr (setFile s file (setImportedStatus (fileAt s file) (statusFor fd)), file)
      | None \<Rightarrow>
          (let (s1, pkgFile) = alloc s (pkgJsonFile env s pkgJsonPath pkg fd);
               s2 = fst (addFile env s1 pkgJsonPath pkgFile);
               s3 = (if truthy (optimisticHashOrNull env pkgJsonPath)
                     then s2\<lparr>watchSet := watchSet s2 @
                             [(pkgJsonPath, optimisticHashOrNull env pkgJsonPath)]\<rparr>
                     else s2)
           in case resolvePkgJsonBrowserAliases env s3 pkgFile fd of
                Inl e \<Rightarrow> Inl e
              | Inr s4 \<Rightarrow> Inr (s4, pkgFile)))"

subsection \<open>resolve and onMissing\<close>

text \<open>
\<^verbatim>\<open>
private onMissing(parentFile, id, forDynamicImport = false) {
  const isApp = ! this.name;
  const absParentPath = pathJoin(this.sourceRoot, parentFile.sourcePath);
  if (isApp && Resolver.isNative(id) && this.isWeb()) {
    const stubId = Resolver.getNativeStubId(id);
    if (isString(stubId) && stubId !== id) {
      const info = parentFile.deps[id];
      info.helpers = info.helpers || {};
      info.helpers[stubId] = forDynamicImport;
      return this.resolve(parentFile, stubId, forDynamicImport);
    }
  }
  const info = {
    packageName: this.name,
    parentPath: absParentPath,
    bundleArch: this.bundleArch,
    possiblySpurious: false,
    dynamic: false,
    parentWasDynamic: forDynamicImport,
  };
  if (parentFile && parentFile.deps && has(parentFile.deps, id)) {
    const importInfo = parentFile.deps[id];
    info.possiblySpurious = importInfo.possiblySpurious;
    info.dynamic = importInfo.dynamic;
  }
  if (parentFile) {
    const missing = parentFile.missingModules || Object.create(null);
    missing[id] = info;
    parentFile.missingModules = missing;
  }
  ImportScanner.mergeMissing(this.allMissingModules, { [id]: [info] });
  return null;
}
\<close>
  \<^verbatim>\<open>resolve\<close> and \<^verbatim>\<open>onMissing\<close> call each other. The first argument of \<open>onMissing\<close>
  is the \<^verbatim>\<open>resolve\<close> it calls, the first argument of \<open>resolve1\<close> the \<^verbatim>\<open>onMissing\<close> it
  calls; \<open>resolve\<close> ties them with fuel, \<open>None\<close> being a chain of calls that has not
  ended within the fuel.\<close>

type_synonym resolver =
  "externals \<Rightarrow> scanner \<Rightarrow> nat \<Rightarrow> string \<Rightarrow> bool \<Rightarrow> (exn + scanner \<times> resolution option) option"

definition nativeStub :: "externals \<Rightarrow> scanner \<Rightarrow> string \<Rightarrow> string option" where
  "nativeStub env s ident =
     (if name s = [] \<and> isNative env ident \<and> isWeb env s then
        (case getNativeStubId env ident of
           None \<Rightarrow> None
         | Some stubId \<Rightarrow> if stubId \<noteq> ident then Some stubId else None)
      else None)"

definition missingInfo :: "scanner \<Rightarrow> nat \<Rightarrow> string \<Rightarrow> string \<Rightarrow> bool \<Rightarrow> importInfo" where
  "missingInfo s parentFile ident absParentPath fd =
     (let info = \<lparr>parentPath = Some absParentPath, helpers = None, dynamic = False,
                   parentWasDynamic = fd, possiblySpurious = False,
                   packageName = Some (name s), infoBundleArch = Some (bundleArch s),
                   infoAbsModuleId = None\<rparr>
      in case depInfo s parentFile ident of
           None \<Rightarrow> info
         | Some importInfo \<Rightarrow>
             info\<lparr>possiblySpurious := possiblySpurious importInfo,
                  dynamic := dynamic importInfo\<rparr>)"

definition recordMissing :: "scanner \<Rightarrow> nat \<Rightarrow> string \<Rightarrow> importInfo \<Rightarrow> scanner" where
  "recordMissing s parentFile ident info =
     (let s1 = setFile s parentFile ((fileAt s parentFile)\<lparr>missingModules := Some
                 (AList.update ident info
                    (case missingModules (fileAt s parentFile) of None \<Rightarrow> [] | Some m \<Rightarrow> m))\<rparr>)
      in s1\<lparr>allMissingModules := mergeMissing (allMissingModules s1) [(ident, [info])]\<rparr>)"

definition onMissing :: "resolver \<Rightarrow> resolver" where
  "onMissing resolveRec env s parentFile ident fd =
     (case sourcePath (fileAt s parentFile) of
        None \<Rightarrow> Some (Inl (TypeError ''The path argument must be of type string''))
      | Some sp \<Rightarrow>
          (let absParentPath = pathJoin env [sourceRoot s, sp]
           in case nativeStub env s ident of
                Some stubId \<Rightarrow>
                  (case depInfo s parentFile ident of
                     None \<Rightarrow> Some (Inl (TypeError ''Cannot read property helpers of undefined''))
                   | Some info \<Rightarrow>
                       resolveRec env (updateDep s parentFile ident (addHelper stubId fd))
                         parentFile stubId fd)
              | None \<Rightarrow>
                  Some (Inr (recordMissing s parentFile ident
                               (missingInfo s parentFile ident absParentPath fd), None))))"

text \<open>
\<^verbatim>\<open>
private resolve(parentFile, id, forDynamicImport = false) {
  const absPath = pathJoin(this.sourceRoot, parentFile.sourcePath);
  const resolved = this.resolver.resolve(id, absPath);
  if (typeof resolved === "string") {
    return this.onMissing(parentFile, id, forDynamicImport);
  }
  if (resolved && resolved.packageJsonMap) {
    const info = parentFile.deps[id];
    info.helpers = info.helpers || {};
    each(resolved.packageJsonMap, (pkg, path) => {
      const packageJsonFile = this.addPkgJsonToOutput(path, pkg, forDynamicImport);
      if (! parentFile.absModuleId) {
        return;
      }
      const relativeId = this.getRelativeImportId(
        parentFile.absModuleId, packageJsonFile.absModuleId);
      info.helpers[relativeId] = forDynamicImport;
    });
    const file = this.getFile(resolved.path);
    if (file && file.alias) {
      setImportedStatus(file, forDynamicImport ? "dynamic" : "static");
      return file.alias;
    }
  }
  return resolved;
}
\<close>\<close>

definition packageJsonHelper ::
  "externals \<Rightarrow> scanner \<Rightarrow> nat \<Rightarrow> string \<Rightarrow> bool \<Rightarrow> string \<times> json \<Rightarrow> exn + scanner" where
  "packageJsonHelper env s parentFile ident fd entry =
     (case addPkgJsonToOutput env s (fst entry) (snd entry) fd of
        Inl e \<Rightarrow> Inl e
      | Inr (s1, packageJsonFile) \<Rightarrow>
          if \<not> truthy (absModuleId (fileAt s1 parentFile)) then Inr s1
          else
            (case getRelativeImportId env (absModuleId (fileAt s1 parentFile))
                    (absModuleId (fileAt s1 packageJsonFile)) of
               Inl e \<Rightarrow> Inl e
             | Inr relativeId \<Rightarrow> Inr (updateDep s1 parentFile ident (addHelper relativeId fd))))"

fun packageJsonHelpers ::
  "externals \<Rightarrow> scanner \<Rightarrow> nat \<Rightarrow> string \<Rightarrow> bool \<Rightarrow> (string \<times> json) list \<Rightarrow> exn + scanner" where
  "packageJsonHelpers env s parentFile ident fd [] = Inr s"
| "packageJsonHelpers env s parentFile ident fd (entry # entries) =
     (case packageJsonHelper env s parentFile ident fd entry of
        Inl e \<Rightarrow> Inl e
      | Inr s1 \<Rightarrow> packageJsonHelpers env s1 parentFile ident fd entries)"

definition followAlias ::
  "externals \<Rightarrow> scanner \<Rightarrow> resolution \<Rightarrow> bool \<Rightarrow> exn + scanner \<times> resolution option" where
  "followAlias env s res fd =
     (case resPath res of
        None \<Rightarrow> Inl (TypeError ''Cannot read property toLowerCase of undefined'')
      | Some p \<Rightarrow>
          (case getFile env s p of
             None \<Rightarrow> Inr (s, Some res)
           | Some file \<Rightarrow>
               (case fileAlias (fileAt s file) of
                  None \<Rightarrow> Inr (s, Some res)
                | Some al \<Rightarrow>
                    Inr (setFile s file (setImportedStatus (fileAt s file) (statusFor fd)),
                         Some al))))"

definition resolve1 :: "resolver \<Rightarrow> resolver" where
  "resolve1 onMissingRec env s parentFile ident fd =
     (case sourcePath (fileAt s parentFile) of
        None \<Rightarrow> Some (Inl (TypeError ''The path argument must be of type string''))
      | Some sp \<Rightarrow>
          (case resolverResolve env (knownFile env s) ident (pathJoin env [sourceRoot s, sp]) of
             Unresolved str \<Rightarrow> onMissingRec env s parentFile ident fd
           | ResolvedNull \<Rightarrow> Some (Inr (s, None))
           | Resolved res \<Rightarrow>
               (case packageJsonMap res of
                  None \<Rightarrow> Some (Inr (s, Some res))
                | Some pjm \<Rightarrow>
                    (case depInfo s parentFile ident of
                       None \<Rightarrow> Some (Inl (TypeError ''Cannot read property helpers of undefined''))
                     | Some info \<Rightarrow>
                         (case packageJsonHelpers env (updateDep s parentFile ident ensureHelpers)
                                 parentFile ident fd
                                 (map (\<lambda>k. (k, the (map_of pjm k))) (keys pjm)) of
                            Inl e \<Rightarrow> Some (Inl e)
                          | Inr s1 \<Rightarrow> Some (followAlias env s1 res fd))))))"

primrec resolve :: "nat \<Rightarrow> resolver" where
  "resolve 0 = (\<lambda>env s parentFile ident fd. None)"
| "resolve (Suc n) = resolve1 (onMissing (resolve n))"

subsection \<open>readDepFile\<close>

text \<open>
\<^verbatim>\<open>
private readDepFile(absPath) {
  const absModuleId = this.getAbsModuleId(absPath);
  if (! absModuleId) {
    return null;
  }
  const realPath = this.realPath(absPath);
  let depFile = this.getInfoByRealPath(realPath);
  if (depFile) {
  } else if (this.shouldUseNode(absModuleId)) {
    depFile = { ...useNodeStub };
    if (shouldWatch(absPath)) {
      this.watchSet.addFile(absPath, optimisticHashOrNull(absPath));
    }
  } else {
    depFile = absModuleId.endsWith("/package.json")
      ? this.readPackageJson(absPath)
      : this.readModule(absPath);
    if (! depFile) {
      return null;
    }
  }
  depFile.type = "js";
  depFile.sourcePath = pathRelative(this.sourceRoot, absPath);
  depFile.absModuleId = absModuleId;
  depFile.servePath = stripLeadingSlash(absModuleId);
  depFile.lazy = true;
  depFile.imported = false;
  this.addFileByRealPath(depFile, realPath);
  return depFile;
}
\<close>
  The new file gets its address when it is returned.\<close>

definition loadDepFile ::
  "externals \<Rightarrow> scanner \<Rightarrow> string \<Rightarrow> string \<Rightarrow> string \<Rightarrow> exn + scanner \<times> File option" where
  "loadDepFile env s absP absModId realP =
     (case getInfoByRealPath env s realP of
        Inl e \<Rightarrow> Inl e
      | Inr (s1, Some depFile) \<Rightarrow> Inr (s1, Some depFile)
      | Inr (s1, None) \<Rightarrow>
          if shouldUseNode env s1 absModId then
            Inr (if shouldWatch env absP
                 then s1\<lparr>watchSet := watchSet s1 @ [(absP, optimisticHashOrNull env absP)]\<rparr>
                 else s1,
                 Some (useNodeStub env))
          else if endsWith absModId ''/package.json'' then readPackageJson env s1 absP
          else readModule env s1 absP)"

definition readDepFile ::
  "nat \<Rightarrow> externals \<Rightarrow> scanner \<Rightarrow> string \<Rightarrow> (exn + scanner \<times> nat option) option" where
  "readDepFile n env s absP =
     (case getAbsModuleId env s absP of
        None \<Rightarrow> Some (Inr (s, None))
      | Some absModId \<Rightarrow>
          if absModId = [] then Some (Inr (s, None))
          else
            (case realPath n env s absP of
               None \<Rightarrow> None
             | Some (s1, realP) \<Rightarrow>
                 (case loadDepFile env s1 absP absModId realP of
                    Inl e \<Rightarrow> Some (Inl e)
                  | Inr (s2, None) \<Rightarrow> Some (Inr (s2, None))
                  | Inr (s2, Some depFile) \<Rightarrow>
                      (let (s3, a) = alloc s2 (depFile\<lparr>type := Some ''js'',
                                        sourcePath := Some (pathRelative env (sourceRoot s2) absP),
                                        absModuleId := Some absModId,
                                        servePath := stripLeadingSlash (Some absModId),
                                        lazy := Some True, imported := Some NotImported\<rparr>)
                       in Some (Inr (addFileByRealPath s3 a realP, Some a))))))"

subsection \<open>scanFile\<close>

text \<open>
\<^verbatim>\<open>
private scanFile(file, forDynamicImport = false) {
  if (file.imported === "static") {
    return;
  }
  if (forDynamicImport && file.imported === "dynamic") {
    return;
  }
  setImportedStatus(file, forDynamicImport ? "dynamic" : "static");
  if (file.reportPendingErrors && file.reportPendingErrors() > 0) {
    file.hasErrors = true;
    return;
  }
  try {
    file.deps = file.deps || this.findImportedModuleIdentifiers(file);
  } catch (e) {
    if (e.$ParseError) {
      buildmessage.error(e.message, {
        file: file.sourcePath, line: e.loc.line, column: e.loc.column,
      });
      return;
    }
    throw e;
  }
  each(file.deps, (info, id) => {
    const dynamic = this.isWebBrowser() &&
      (forDynamicImport || info.parentWasDynamic || info.dynamic);
    const resolved = this.resolve(file, id, dynamic);
    const absImportedPath = resolved && resolved.path;
    if (! absImportedPath) {
      return;
    }
    let depFile = this.getFile(absImportedPath);
    if (depFile) {
      assert.notStrictEqual(depFile[fakeSymbol], true);
      if (depFile.jsonData &&
          depFile.absModuleId.endsWith("/package.json") &&
          depFile.implicit === true) {
        const file = this.readPackageJson(absImportedPath);
        if (file) {
          depFile.implicit = false;
          Object.assign(depFile, file);
        }
      }
      this.scanFile(depFile, dynamic);
      return;
    }
    depFile = this.readDepFile(absImportedPath);
    if (! depFile) {
      return;
    }
    this.addFile(absImportedPath, depFile);
    this.scanFile(depFile, dynamic);
  });
}

private findImportedModuleIdentifiers(file) {
  return findImportedModuleIdentifiers(this.getDataString(file), file.hash);
}
\<close>
  \<^verbatim>\<open>file.reportPendingErrors()\<close> returns the number in the field of that name. The
  loop of \<^verbatim>\<open>each\<close> runs over the keys that \<^verbatim>\<open>file.deps\<close> has when it starts, and reads
  the value of a key when it comes to it.

  \<^verbatim>\<open>this.findImportedModuleIdentifiers\<close> is wrapped in the constructor with the cache key
  \<^verbatim>\<open>file.hash\<close>, so that in the code two files of equal hash get one and the same object as
  their \<^verbatim>\<open>deps\<close>, and a helper written to \<^verbatim>\<open>file.deps[id].helpers\<close> through one of them is
  read through the other. \<open>ensureDeps\<close> gives every file a value of its own: the heap holds
  the dependencies in the file, not behind an address. What is proved below of the
  dependencies of a file is proved of the file through which they are written.\<close>

type_synonym scan = "externals \<Rightarrow> scanner \<Rightarrow> nat \<Rightarrow> bool \<Rightarrow> (exn + scanner) option"

definition ensureDeps :: "externals \<Rightarrow> scanner \<Rightarrow> nat \<Rightarrow> exn + scanner" where
  "ensureDeps env s file =
     (case deps (fileAt s file) of
        Some ds \<Rightarrow> Inr s
      | None \<Rightarrow>
          (case getDataStringAt env s file of
             Inl e \<Rightarrow> Inl e
           | Inr (s1, dataStr) \<Rightarrow>
               (case findImportedModuleIdentifiers env dataStr (hash (fileAt s1 file)) of
                  Inl e \<Rightarrow> Inl e
                | Inr ds \<Rightarrow> Inr (setFile s1 file ((fileAt s1 file)\<lparr>deps := Some ds\<rparr>)))))"

text \<open>The flag \<^verbatim>\<open>dynamic\<close> of a dependency.\<close>

definition edgeDynamic :: "externals \<Rightarrow> scanner \<Rightarrow> bool \<Rightarrow> importInfo \<Rightarrow> bool" where
  "edgeDynamic env s fd info =
     (isWebBrowser env s \<and> (fd \<or> parentWasDynamic info \<or> dynamic info))"

definition jsonTruthy :: "json \<Rightarrow> bool" where
  "jsonTruthy j =
     (case j of JNull \<Rightarrow> False | JBool b \<Rightarrow> b | JNum k \<Rightarrow> k \<noteq> 0 | JStr str \<Rightarrow> str \<noteq> []
      | _ \<Rightarrow> True)"

text \<open>The update of an implicit \<^verbatim>\<open>package.json\<close> stub to the file on disk.\<close>

definition upgradePackageJson :: "externals \<Rightarrow> scanner \<Rightarrow> nat \<Rightarrow> string \<Rightarrow> exn + scanner" where
  "upgradePackageJson env s depFile absImportedPath =
     (if (case jsonData (fileAt s depFile) of None \<Rightarrow> False | Some j \<Rightarrow> jsonTruthy j) then
        (case absModuleId (fileAt s depFile) of
           None \<Rightarrow> Inl (TypeError ''Cannot read property endsWith of undefined'')
         | Some m \<Rightarrow>
             if endsWith m ''/package.json'' \<and> implicit (fileAt s depFile) = Some True then
               (case readPackageJson env s absImportedPath of
                  Inl e \<Rightarrow> Inl e
                | Inr (s1, None) \<Rightarrow> Inr s1
                | Inr (s1, Some f) \<Rightarrow>
                    Inr (setFile s1 depFile
                           (objectAssign ((fileAt s1 depFile)\<lparr>implicit := Some False\<rparr>) f)))
             else Inr s)
      else Inr s)"

definition scanDep :: "resolver \<Rightarrow> scan \<Rightarrow> nat \<Rightarrow> externals \<Rightarrow> scanner \<Rightarrow> nat \<Rightarrow> bool \<Rightarrow> string
     \<Rightarrow> (exn + scanner) option" where
  "scanDep resolveRec scanRec n env s file fd ident =
     (case depInfo s file ident of
        None \<Rightarrow> Some (Inl (TypeError ''Cannot read property parentWasDynamic of undefined''))
      | Some info \<Rightarrow>
          (let dyn = edgeDynamic env s fd info
           in case resolveRec env s file ident dyn of
                None \<Rightarrow> None
              | Some (Inl e) \<Rightarrow> Some (Inl e)
              | Some (Inr (s1, resolved)) \<Rightarrow>
                  (case (case resolved of None \<Rightarrow> None | Some res \<Rightarrow> resPath res) of
                     None \<Rightarrow> Some (Inr s1)
                   | Some absImportedPath \<Rightarrow>
                       if absImportedPath = [] then Some (Inr s1)
                       else
                         (case getFile env s1 absImportedPath of
                            Some depFile \<Rightarrow>
                              if fake (fileAt s1 depFile) = Some True
                              then Some (Inl (AssertionError ''notStrictEqual''))
                              else
                                (case upgradePackageJson env s1 depFile absImportedPath of
                                   Inl e \<Rightarrow> Some (Inl e)
                                 | Inr s2 \<Rightarrow> scanRec env s2 depFile dyn)
                          | None \<Rightarrow>
                              (case readDepFile n env s1 absImportedPath of
                                 None \<Rightarrow> None
                               | Some (Inl e) \<Rightarrow> Some (Inl e)
                               | Some (Inr (s2, None)) \<Rightarrow> Some (Inr s2)
                               | Some (Inr (s2, Some depFile)) \<Rightarrow>
                                   scanRec env (fst (addFile env s2 absImportedPath depFile))
                                     depFile dyn)))))"

fun scanDeps :: "resolver \<Rightarrow> scan \<Rightarrow> nat \<Rightarrow> externals \<Rightarrow> scanner \<Rightarrow> nat \<Rightarrow> bool \<Rightarrow> string list
     \<Rightarrow> (exn + scanner) option" where
  "scanDeps resolveRec scanRec n env s file fd [] = Some (Inr s)"
| "scanDeps resolveRec scanRec n env s file fd (ident # idents) =
     (case scanDep resolveRec scanRec n env s file fd ident of
        None \<Rightarrow> None
      | Some (Inl e) \<Rightarrow> Some (Inl e)
      | Some (Inr s1) \<Rightarrow> scanDeps resolveRec scanRec n env s1 file fd idents)"

definition scanFile1 :: "resolver \<Rightarrow> scan \<Rightarrow> nat \<Rightarrow> scan" where
  "scanFile1 resolveRec scanRec n env s file fd =
     (if imported (fileAt s file) = Some Static then Some (Inr s)
      else if fd \<and> imported (fileAt s file) = Some Dynamic then Some (Inr s)
      else
        (let s1 = setFile s file (setImportedStatus (fileAt s file) (statusFor fd))
         in if (case reportPendingErrors (fileAt s1 file) of None \<Rightarrow> False | Some k \<Rightarrow> k > 0)
            then Some (Inr (setFile s1 file ((fileAt s1 file)\<lparr>hasErrors := Some True\<rparr>)))
            else
              (case ensureDeps env s1 file of
                 Inl (ParseError msg line col) \<Rightarrow>
                   Some (Inr (s1\<lparr>messages := messages s1 @
                                  [(msg, sourcePath (fileAt s1 file), line, col)]\<rparr>))
               | Inl e \<Rightarrow> Some (Inl e)
               | Inr s2 \<Rightarrow>
                   scanDeps resolveRec scanRec n env s2 file fd
                     (case deps (fileAt s2 file) of None \<Rightarrow> [] | Some ds \<Rightarrow> keys ds))))"

primrec scanFile :: "nat \<Rightarrow> scan" where
  "scanFile 0 = (\<lambda>env s file fd. None)"
| "scanFile (Suc n) = scanFile1 (resolve n) (scanFile n) n"

subsection \<open>scanImports\<close>

text \<open>
\<^verbatim>\<open>
scanImports() {
  this.outputFiles.forEach(file => {
    if (! file.lazy) {
      this.scanFile(file);
    }
  });
  return this;
}
\<close>
  \<^verbatim>\<open>forEach\<close> visits the elements the array has when it starts.\<close>

fun scanEager :: "nat \<Rightarrow> externals \<Rightarrow> scanner \<Rightarrow> nat list \<Rightarrow> (exn + scanner) option" where
  "scanEager n env s [] = Some (Inr s)"
| "scanEager n env s (file # files) =
     (if lazy (fileAt s file) = Some True then scanEager n env s files
      else
        (case scanFile n env s file False of
           None \<Rightarrow> None
         | Some (Inl e) \<Rightarrow> Some (Inl e)
         | Some (Inr s1) \<Rightarrow> scanEager n env s1 files))"

definition scanImports :: "nat \<Rightarrow> externals \<Rightarrow> scanner \<Rightarrow> (exn + scanner) option" where
  "scanImports n env s = scanEager n env s (outputFiles s)"

subsection \<open>scanMissingModules\<close>

text \<open>
\<^verbatim>\<open>
scanMissingModules(missingModules) {
  const newlyMissing = Object.create(null);
  const newlyAdded = Object.create(null);
  if (! isEmpty(missingModules)) {
    const previousAllMissingModules = this.allMissingModules;
    this.allMissingModules = newlyMissing;
    Object.keys(missingModules).forEach(id => {
      let staticImportInfo = null;
      let dynamicImportInfo = null;
      missingModules[id].some(importInfo => {
        if (importInfo.parentWasDynamic || importInfo.dynamic) {
          dynamicImportInfo = dynamicImportInfo || importInfo;
        } else {
          staticImportInfo = staticImportInfo || importInfo;
        }
        return staticImportInfo && dynamicImportInfo;
      });
      if (staticImportInfo) {
        this.scanFile({
          sourcePath: "fake.js",
          [fakeSymbol]: true,
          deps: { [id]: staticImportInfo }
        }, false);
      }
      if (dynamicImportInfo) {
        this.scanFile({
          sourcePath: "fake.js",
          [fakeSymbol]: true,
          deps: { [id]: dynamicImportInfo }
        }, true);
      }
    });
    this.allMissingModules = previousAllMissingModules;
    Object.keys(missingModules).forEach(id => {
      if (! has(newlyMissing, id)) {
        newlyAdded[id] = missingModules[id];
      }
    });
    Object.keys(newlyMissing).forEach(id => {
      if (has(previousAllMissingModules, id)) {
        delete newlyMissing[id];
      } else {
        ImportScanner.mergeMissing(previousAllMissingModules, { [id]: newlyMissing[id] });
      }
    });
  }
  return { newlyAdded, newlyMissing };
}
\<close>
  The ImportInfo that a fake file gets as its dependency is an object of the list
  \<^verbatim>\<open>missingModules[id]\<close>, so what the scan writes to it (its helpers) shows in that
  list: \<open>scanFake\<close> returns the ImportInfo as the scan left it, and \<open>scanRepresentative\<close>
  puts it back in its place.\<close>

record scanResult =
  newlyAdded :: missingMap
  newlyMissing :: missingMap

definition isDynamicInfo :: "importInfo \<Rightarrow> bool" where
  "isDynamicInfo importInfo = (parentWasDynamic importInfo \<or> dynamic importInfo)"

text \<open>The index of the first ImportInfo of a list that is dynamic, or that is not.\<close>

definition firstIndex :: "bool \<Rightarrow> importInfo list \<Rightarrow> nat option" where
  "firstIndex dyn infos =
     (case filter (\<lambda>i. isDynamicInfo (infos ! i) = dyn) [0..<length infos] of
        [] \<Rightarrow> None | i # _ \<Rightarrow> Some i)"

definition fakeFile :: "string \<Rightarrow> importInfo \<Rightarrow> File" where
  "fakeFile ident importInfo =
     emptyFile\<lparr>sourcePath := Some ''fake.js'', fake := Some True,
       deps := Some [(ident, importInfo)]\<rparr>"

definition scanFake :: "nat \<Rightarrow> externals \<Rightarrow> scanner \<Rightarrow> string \<Rightarrow> importInfo \<Rightarrow> bool
     \<Rightarrow> (exn + scanner \<times> importInfo) option" where
  "scanFake n env s ident importInfo fd =
     (let (s1, a) = alloc s (fakeFile ident importInfo)
      in case scanFile n env s1 a fd of
           None \<Rightarrow> None
         | Some (Inl e) \<Rightarrow> Some (Inl e)
         | Some (Inr s2) \<Rightarrow>
             Some (Inr (s2, case depInfo s2 a ident of None \<Rightarrow> importInfo | Some i \<Rightarrow> i)))"

definition scanRepresentative :: "nat \<Rightarrow> externals \<Rightarrow> string \<Rightarrow> bool \<Rightarrow> scanner \<times> importInfo list
     \<Rightarrow> (exn + scanner \<times> importInfo list) option" where
  "scanRepresentative n env ident dyn st =
     (case firstIndex dyn (snd st) of
        None \<Rightarrow> Some (Inr st)
      | Some i \<Rightarrow>
          (case scanFake n env (fst st) ident (snd st ! i) dyn of
             None \<Rightarrow> None
           | Some (Inl e) \<Rightarrow> Some (Inl e)
           | Some (Inr (s1, importInfo)) \<Rightarrow> Some (Inr (s1, (snd st)[i := importInfo]))))"

definition scanMissingId :: "nat \<Rightarrow> externals \<Rightarrow> scanner \<Rightarrow> string \<Rightarrow> importInfo list
     \<Rightarrow> (exn + scanner \<times> importInfo list) option" where
  "scanMissingId n env s ident infos =
     (case scanRepresentative n env ident False (s, infos) of
        None \<Rightarrow> None
      | Some (Inl e) \<Rightarrow> Some (Inl e)
      | Some (Inr st) \<Rightarrow> scanRepresentative n env ident True st)"

fun scanMissingIds :: "nat \<Rightarrow> externals \<Rightarrow> scanner \<Rightarrow> missingMap \<Rightarrow> string list
     \<Rightarrow> (exn + scanner \<times> missingMap) option" where
  "scanMissingIds n env s missing [] = Some (Inr (s, missing))"
| "scanMissingIds n env s missing (ident # idents) =
     (case scanMissingId n env s ident
             (case map_of missing ident of None \<Rightarrow> [] | Some infos \<Rightarrow> infos) of
        None \<Rightarrow> None
      | Some (Inl e) \<Rightarrow> Some (Inl e)
      | Some (Inr (s1, infos)) \<Rightarrow>
          scanMissingIds n env s1 (AList.update ident infos missing) idents)"

text \<open>The last loop: \<open>fst\<close> is \<^verbatim>\<open>previousAllMissingModules\<close>, \<open>snd\<close> is
  \<^verbatim>\<open>newlyMissing\<close>.\<close>

definition settleMissing :: "missingMap \<times> missingMap \<Rightarrow> string \<Rightarrow> missingMap \<times> missingMap" where
  "settleMissing st ident =
     (if has (fst st) ident then (fst st, AList.delete ident (snd st))
      else (mergeMissing (fst st)
              [(ident, case map_of (snd st) ident of None \<Rightarrow> [] | Some infos \<Rightarrow> infos)],
            snd st))"

definition scanMissingModules :: "nat \<Rightarrow> externals \<Rightarrow> scanner \<Rightarrow> missingMap
     \<Rightarrow> (exn + scanner \<times> scanResult) option" where
  "scanMissingModules n env s missing =
     (if missing = [] then Some (Inr (s, \<lparr>newlyAdded = [], newlyMissing = []\<rparr>))
      else
        (let previousAllMissingModules = allMissingModules s
         in case scanMissingIds n env (s\<lparr>allMissingModules := []\<rparr>) missing (keys missing) of
              None \<Rightarrow> None
            | Some (Inl e) \<Rightarrow> Some (Inl e)
            | Some (Inr (s1, scanned)) \<Rightarrow>
                (let found = allMissingModules s1;
                     added = filter (\<lambda>(ident, infos). \<not> has found ident)
                               (map (\<lambda>k. (k, case map_of scanned k of None \<Rightarrow> []
                                              | Some infos \<Rightarrow> infos)) (keys scanned));
                     settled = foldl settleMissing (previousAllMissingModules, found) (keys found)
                 in Some (Inr (s1\<lparr>allMissingModules := fst settled\<rparr>,
                               \<lparr>newlyAdded = added, newlyMissing = snd settled\<rparr>)))))"

subsection \<open>mergeFilesWithSameRealPath and getOutputFiles\<close>

text \<open>
\<^verbatim>\<open>
private mergeFilesWithSameRealPath() {
  Object.keys(this.realPathToFiles).forEach(realPath => {
    const files = this.realPathToFiles[realPath];
    if (! files || files.length < 2) {
      return;
    }
    let container = files[0];
    alignImportedStatuses(...files);
    files.some(file => {
      if (file.absModuleId && file.absModuleId.startsWith("/node_modules/")) {
        container = file;
        return true;
      }
    });
    files.forEach(file => {
      if (file !== container) {
        file.alias = file.alias || {};
        file.alias.absModuleId = container.absModuleId;
      }
    });
  });
}
\<close>\<close>

definition inNodeModules :: "File \<Rightarrow> bool" where
  "inNodeModules f =
     (case absModuleId f of None \<Rightarrow> False | Some m \<Rightarrow> m \<noteq> [] \<and> startsWith m ''/node_modules/'')"

definition chooseContainer :: "File list \<Rightarrow> nat list \<Rightarrow> nat" where
  "chooseContainer h files =
     (case filter (\<lambda>a. inNodeModules (h ! a)) files of [] \<Rightarrow> files ! 0 | c # _ \<Rightarrow> c)"

definition aliasTo :: "string option \<Rightarrow> File \<Rightarrow> File" where
  "aliasTo containerId f =
     f\<lparr>fileAlias := Some ((case fileAlias f of None \<Rightarrow> emptyResolution | Some al \<Rightarrow> al)
                           \<lparr>resAbsModuleId := idOf containerId\<rparr>)\<rparr>"

definition aliasFiles :: "File list \<Rightarrow> nat \<Rightarrow> nat list \<Rightarrow> File list" where
  "aliasFiles h container files =
     foldl (\<lambda>h' a. if a \<noteq> container then h'[a := aliasTo (absModuleId (h' ! container)) (h' ! a)]
                    else h') h files"

definition mergeGroup :: "File list \<Rightarrow> nat list \<Rightarrow> File list" where
  "mergeGroup h files =
     (if length files < 2 then h
      else
        (let aligned = alignImportedStatuses h files
         in aliasFiles aligned (chooseContainer aligned files) files))"

definition mergeFilesWithSameRealPath :: "scanner \<Rightarrow> scanner" where
  "mergeFilesWithSameRealPath s =
     s\<lparr>heap := foldl (\<lambda>h realP. case map_of (realPathToFiles s) realP of
                                   None \<Rightarrow> h | Some files \<Rightarrow> mergeGroup h files)
                 (heap s) (keys (realPathToFiles s))\<rparr>"




subsection \<open>A world to run the scanner in\<close>

text \<open>The theorems are about every \<open>externals\<close>. To run the scanner at a concrete input
  one is needed: \<open>world\<close> is a POSIX system whose files, import tables and resolutions are
  given as tables. Its path functions are those of \<^verbatim>\<open>path.posix\<close> of Node (the current
  directory being the root), its UTF-8 decoder is the decoder of the Encoding Standard
  (an ill-formed sequence becomes U+FFFD), its \<^verbatim>\<open>archMatches\<close> is
  \<^verbatim>\<open>host === program || host.startsWith(program + ".")\<close>. Its \<open>sha1\<close> is not SHA-1 but
  the hexadecimal text of the bytes, which like SHA-1 gives equal digests to equal
  bytes only; its compiler strips the hashbang and changes nothing else; its JSON
  functions know the empty object only.\<close>

definition segments :: "string \<Rightarrow> string list" where
  "segments p = filter (\<lambda>seg. seg \<noteq> []) (splitSlash p)"

fun normalizeSegments :: "bool \<Rightarrow> string list \<Rightarrow> string list \<Rightarrow> string list" where
  "normalizeSegments ab [] acc = rev acc"
| "normalizeSegments ab (seg # segs) acc =
     (if seg = ''.'' then normalizeSegments ab segs acc
      else if seg = ''..'' then
        (case acc of
           [] \<Rightarrow> if ab then normalizeSegments ab segs [] else normalizeSegments ab segs [''..'']
         | a # rest \<Rightarrow>
             if a = ''..'' then normalizeSegments ab segs (''..'' # acc)
             else normalizeSegments ab segs rest)
      else normalizeSegments ab segs (seg # acc))"

definition posixNormalize :: "string \<Rightarrow> string" where
  "posixNormalize p =
     (let ab = startsWith p ''/'';
          segs = normalizeSegments ab (segments p) [];
          trail = (if endsWith p ''/'' \<and> segs \<noteq> [] then ''/'' else [])
      in if ab then ''/'' @ joinSlash segs @ trail
         else if segs = [] then (if endsWith p ''/'' then ''./'' else ''.'')
         else joinSlash segs @ trail)"

definition posixJoin :: "string list \<Rightarrow> string" where
  "posixJoin parts =
     (let ps = filter (\<lambda>p. p \<noteq> []) parts
      in if ps = [] then ''.'' else posixNormalize (joinSlash ps))"

fun dropCommon :: "string list \<Rightarrow> string list \<Rightarrow> string list \<times> string list" where
  "dropCommon (a # as) (b # bs) = (if a = b then dropCommon as bs else (a # as, b # bs))"
| "dropCommon as bs = (as, bs)"

definition posixRelativeTo :: "string \<Rightarrow> string \<Rightarrow> string" where
  "posixRelativeTo from to =
     (let (f, t) = dropCommon (normalizeSegments True (segments from) [])
                              (normalizeSegments True (segments to) [])
      in joinSlash (replicate (length f) ''..'' @ t))"

definition stripTrailingSlashes :: "string \<Rightarrow> string" where
  "stripTrailingSlashes p = rev (dropWhile (\<lambda>c. c = CHR ''/'') (rev p))"

definition posixDirnameOf :: "string \<Rightarrow> string" where
  "posixDirnameOf p =
     (if p = [] then ''.''
      else
        (let q = stripTrailingSlashes p
         in if q = [] then ''/''
            else if CHR ''/'' \<notin> set q then ''.''
            else
              (let d = stripTrailingSlashes (rev (drop 1 (dropWhile (\<lambda>c. c \<noteq> CHR ''/'') (rev q))))
               in if d = [] then ''/'' else d)))"

definition posixExtname :: "string \<Rightarrow> string" where
  "posixExtname p =
     (let base = rev (takeWhile (\<lambda>c. c \<noteq> CHR ''/'') (rev (stripTrailingSlashes p)));
          ext = rev (takeWhile (\<lambda>c. c \<noteq> CHR ''.'') (rev base))
      in if CHR ''.'' \<notin> set base \<or> length ext + 1 = length base then []
         else CHR ''.'' # ext)"

definition asciiLower :: "string \<Rightarrow> string" where
  "asciiLower str =
     map (\<lambda>c. case map_of (zip ''ABCDEFGHIJKLMNOPQRSTUVWXYZ'' ''abcdefghijklmnopqrstuvwxyz'') c of
                  None \<Rightarrow> c | Some l \<Rightarrow> l) str"

definition archMatchesPrefix :: "string \<Rightarrow> string \<Rightarrow> bool" where
  "archMatchesPrefix host program = (host = program \<or> startsWith host (program @ ''.''))"

text \<open>The UTF-8 decoder of the Encoding Standard: the state is the code point so far,
  the number of bytes still needed and the bounds of the next byte.\<close>

datatype decoding = Decoding nat nat nat nat

definition codeUnits :: "nat \<Rightarrow> ustring" where
  "codeUnits cp =
     (if cp < 0x10000 then [of_nat cp]
      else [of_nat (0xD800 + (cp - 0x10000) div 0x400),
            of_nat (0xDC00 + (cp - 0x10000) mod 0x400)])"

definition startByte :: "nat \<Rightarrow> ustring \<times> decoding option" where
  "startByte b =
     (if b < 0x80 then ([of_nat b], None)
      else if 0xC2 \<le> b \<and> b \<le> 0xDF then ([], Some (Decoding (b - 0xC0) 1 0x80 0xBF))
      else if 0xE0 \<le> b \<and> b \<le> 0xEF then
        ([], Some (Decoding (b - 0xE0) 2 (if b = 0xE0 then 0xA0 else 0x80)
                     (if b = 0xED then 0x9F else 0xBF)))
      else if 0xF0 \<le> b \<and> b \<le> 0xF4 then
        ([], Some (Decoding (b - 0xF0) 3 (if b = 0xF0 then 0x90 else 0x80)
                     (if b = 0xF4 then 0x8F else 0xBF)))
      else ([0xFFFD], None))"

fun utf8Decode :: "decoding option \<Rightarrow> bytes \<Rightarrow> ustring" where
  "utf8Decode None [] = []"
| "utf8Decode (Some st) [] = [0xFFFD]"
| "utf8Decode None (b # bs) = fst (startByte (unat b)) @ utf8Decode (snd (startByte (unat b))) bs"
| "utf8Decode (Some (Decoding cp need lo hi)) (b # bs) =
     (if unat b < lo \<or> hi < unat b
      then 0xFFFD # fst (startByte (unat b)) @ utf8Decode (snd (startByte (unat b))) bs
      else if need = 1 then codeUnits (cp * 64 + (unat b - 0x80)) @ utf8Decode None bs
      else utf8Decode (Some (Decoding (cp * 64 + (unat b - 0x80)) (need - 1) 0x80 0xBF)) bs)"

definition encodeCodePoint :: "nat \<Rightarrow> bytes" where
  "encodeCodePoint cp =
     (if cp < 0x80 then [of_nat cp]
      else if cp < 0x800 then [of_nat (0xC0 + cp div 64), of_nat (0x80 + cp mod 64)]
      else if cp < 0x10000 then
        [of_nat (0xE0 + cp div 4096), of_nat (0x80 + cp div 64 mod 64), of_nat (0x80 + cp mod 64)]
      else [of_nat (0xF0 + cp div 262144), of_nat (0x80 + cp div 4096 mod 64),
            of_nat (0x80 + cp div 64 mod 64), of_nat (0x80 + cp mod 64)])"

definition isHighSurrogate :: "nat \<Rightarrow> bool" where
  "isHighSurrogate u = (0xD800 \<le> u \<and> u \<le> 0xDBFF)"

definition isLowSurrogate :: "nat \<Rightarrow> bool" where
  "isLowSurrogate u = (0xDC00 \<le> u \<and> u \<le> 0xDFFF)"

fun utf8Encode :: "nat option \<Rightarrow> ustring \<Rightarrow> bytes" where
  "utf8Encode None [] = []"
| "utf8Encode (Some h) [] = [0xEF, 0xBF, 0xBD]"
| "utf8Encode None (u # us) =
     (if isHighSurrogate (unat u) then utf8Encode (Some (unat u)) us
      else if isLowSurrogate (unat u) then [0xEF, 0xBF, 0xBD] @ utf8Encode None us
      else encodeCodePoint (unat u) @ utf8Encode None us)"
| "utf8Encode (Some h) (u # us) =
     (if isLowSurrogate (unat u)
      then encodeCodePoint (0x10000 + (h - 0xD800) * 0x400 + (unat u - 0xDC00))
           @ utf8Encode None us
      else [0xEF, 0xBF, 0xBD] @
           (if isHighSurrogate (unat u) then utf8Encode (Some (unat u)) us
            else encodeCodePoint (unat u) @ utf8Encode None us))"

definition hexDigit :: "nat \<Rightarrow> char" where
  "hexDigit d = ''0123456789abcdef'' ! d"

definition hexText :: "bytes \<Rightarrow> string" where
  "hexText bs = concat (map (\<lambda>b. [hexDigit (unat b div 16), hexDigit (unat b mod 16)]) bs)"

definition quoted :: "string \<Rightarrow> ustring" where
  "quoted str = ustr ([CHR 0x22] @ str @ [CHR 0x22])"

definition world ::
  "(string \<times> bytes) list \<Rightarrow> (ustring \<times> (string \<times> importInfo) list) list
     \<Rightarrow> ((string \<times> string) \<times> resolved) list \<Rightarrow> (string \<times> string) list \<Rightarrow> externals" where
  "world files imports resolutions natives =
     \<lparr>sha1 = hexText,
      bufferFrom = utf8Encode None,
      toStringUtf8 = utf8Decode None,
      toLowerCase = asciiLower,
      jsonParse = (\<lambda>src. if src = ustr ''{}'' then Inr (JObj [])
                          else Inl (OtherError ''SyntaxError'')),
      jsonStringify = (\<lambda>j. ustr ''{}''),
      jsonQuote = quoted,
      pathJoin = posixJoin,
      pathRelative = posixRelativeTo,
      pathNormalize = posixNormalize,
      pathExtname = posixExtname,
      pathDirname = posixDirnameOf,
      pathIsAbsolute = (\<lambda>p. startsWith p ''/''),
      convertToOSPath = (\<lambda>p. p),
      convertToPosixPath = (\<lambda>p. p),
      posixRelative = posixRelativeTo,
      posixDirname = posixDirnameOf,
      optimisticReadFile = (\<lambda>p. case map_of files p of None \<Rightarrow> Inl ENOENT | Some b \<Rightarrow> Inr b),
      optimisticReadFileUtf8 = (\<lambda>p. case map_of files p of None \<Rightarrow> Inl ENOENT
                                       | Some b \<Rightarrow> Inr (utf8Decode None b)),
      optimisticHashOrNull = (\<lambda>p. case map_of files p of None \<Rightarrow> None
                                     | Some b \<Rightarrow> Some (hexText b)),
      lstatIsSymbolicLink = (\<lambda>p. False),
      realpathOrNull = (\<lambda>p. Some p),
      shouldWatch = (\<lambda>p. False),
      archMatches = archMatchesPrefix,
      reifyCompileWithCache = (\<lambda>src h arch. Inr (stripHashBang src)),
      cssToCommonJS = (\<lambda>src h. src),
      findImportedModuleIdentifiers =
        (\<lambda>src h. Inr (case map_of imports src of None \<Rightarrow> [] | Some ds \<Rightarrow> ds)),
      scriptParses = (\<lambda>src. True),
      resolverResolve = (\<lambda>known ident referrer.
         case map_of resolutions (ident, referrer) of
           None \<Rightarrow> Unresolved ''missing'' | Some r \<Rightarrow> r),
      resolverJoinAndStat = (\<lambda>known root p. False),
      isNative = (\<lambda>ident. map_of natives ident \<noteq> None),
      getNativeStubId = map_of natives,
      combinedSourceMap = (\<lambda>old new nm. SourceMap [] [])\<rparr>"

subsection \<open>Concrete inputs\<close>

text \<open>An application scanned for the browser and for a server, and a package scanned for
  the browser, all rooted at \<^verbatim>\<open>/app\<close>.\<close>

definition webApp :: "externals \<Rightarrow> scanner" where
  "webApp env = newScanner env [] ''web.browser'' ''/app'' [''/app/node_modules''] None"

definition serverApp :: "externals \<Rightarrow> scanner" where
  "serverApp env = newScanner env [] ''os.linux.x86_64'' ''/app'' [''/app/node_modules''] None"

definition webPackage :: "externals \<Rightarrow> scanner" where
  "webPackage env = newScanner env ''my-package'' ''web.browser'' ''/app'' [''/app/node_modules''] None"

text \<open>Files that start with one and with two byte order marks, and a script of
  \<^verbatim>\<open>core-js\<close> that starts with a hashbang line.\<close>

definition bomWorld :: externals where
  "bomWorld = world [(''/app/bom.js'', [0xEF, 0xBB, 0xBF, 0xEF, 0xBB, 0xBF, 0x41]),
                     (''/app/one.js'', [0xEF, 0xBB, 0xBF, 0x41]),
                     (''/app/node_modules/core-js/bin.js'', [0x23, 0x21, 0x78, 0x0A, 0x41])]
                [] [] []"

text \<open>A world without files, and an input file of the application.\<close>

definition plainWorld :: externals where
  "plainWorld = world [] [] [] []"

definition plainInput :: File where
  "plainInput = emptyFile\<lparr>sourcePath := Some ''a.js'', data := Some [0x41], type := Some ''js''\<rparr>"




text \<open>Two files of one real path, the second inside \<^verbatim>\<open>node_modules\<close>, and a third file
  alone on its real path.\<close>

definition mergeInput :: scanner where
  "mergeInput = (webApp plainWorld)\<lparr>
     heap := [emptyFile\<lparr>absModuleId := Some ''/imports/a.js'', imported := Some Dynamic\<rparr>,
              emptyFile\<lparr>absModuleId := Some ''/node_modules/pkg/a.js'',
                imported := Some NotImported\<rparr>,
              emptyFile\<lparr>absModuleId := Some ''/other.js'', imported := Some Static\<rparr>],
     realPathToFiles := [(''/real/a.js'', [0, 1]), (''/real/other.js'', [2])]\<rparr>"

text \<open>A world where \<^verbatim>\<open>fs\<close> is a native module with a stub that resolves from
  \<^verbatim>\<open>/app/main.js\<close>, and a scanner that holds the file \<^verbatim>\<open>main.js\<close>, which imports
  \<^verbatim>\<open>fs\<close>.\<close>

definition nativeWorld :: externals where
  "nativeWorld = world [] []
     [((''meteor-node-stubs/deps/fs.js'', ''/app/main.js''),
       Resolved \<lparr>resPath = Some ''/app/node_modules/meteor-node-stubs/deps/fs.js'',
                 resId = Some ''meteor-node-stubs/deps/fs.js'', packageJsonMap = None,
                 resAbsModuleId = IdUndefined\<rparr>)]
     [(''fs'', ''meteor-node-stubs/deps/fs.js'')]"

definition importsFs :: "scanner \<Rightarrow> scanner" where
  "importsFs s = s\<lparr>heap := [emptyFile\<lparr>sourcePath := Some ''main.js'',
                                       deps := Some [(''fs'', emptyInfo)]\<rparr>]\<rparr>"

subsection \<open>Notions used to state the properties of mergeMissing\<close>

text \<open>An entry of the source list is written to slot \<open>i\<close> of \<^verbatim>\<open>target[id]\<close> when its
  \<^verbatim>\<open>parentPath\<close> is a string, the entry that slot \<open>i\<close> held when \<^verbatim>\<open>mergeMissing\<close> was
  called has this string as the property key of its \<^verbatim>\<open>parentPath\<close> (the key of
  \<^verbatim>\<open>undefined\<close> is the string \<^verbatim>\<open>undefined\<close>), and no later slot has; \<open>slotVal\<close> is what
  slot \<open>i\<close> holds after all entries of the source list have been handled (the last
  entry written to it, or the old entry), and \<open>mergedList\<close> the whole list.\<close>

definition hits :: "importInfo list \<Rightarrow> nat \<Rightarrow> importInfo \<Rightarrow> bool" where
  "hits old i e =
     (case parentPath e of
        None \<Rightarrow> False
      | Some p \<Rightarrow>
          i < length old \<and> propertyKey (parentPath (old ! i)) = p \<and>
          (\<forall>j<length old. i < j \<longrightarrow> propertyKey (parentPath (old ! j)) \<noteq> p))"

definition slotVal :: "importInfo list \<Rightarrow> importInfo list \<Rightarrow> nat \<Rightarrow> importInfo" where
  "slotVal old new i =
     (if filter (hits old i) new = [] then old ! i else last (filter (hits old i) new))"

definition mergedList :: "importInfo list \<Rightarrow> importInfo list \<Rightarrow> importInfo list" where
  "mergedList old new =
     map (slotVal old new) [0..<length old]
     @ filter (\<lambda>e. \<not> (\<exists>i<length old. hits old i e)) new"

definition infoFrom :: "string option \<Rightarrow> bool \<Rightarrow> importInfo" where
  "infoFrom p d = emptyInfo\<lparr>parentPath := p, dynamic := d\<rparr>"

subsection \<open>Notions used to state the properties of combineFiles\<close>



text \<open>The body of a file: its \<^verbatim>\<open>dataString\<close> when it has one; otherwise its \<^verbatim>\<open>data\<close>
  decoded as UTF-8, without the hashbang line for a file of type \<^verbatim>\<open>js\<close>, and as the
  handler of its type compiles it for a file of another type.\<close>

definition body :: "externals \<Rightarrow> scanner \<Rightarrow> File \<Rightarrow> exn + ustring" where
  "body env s f =
     (case dataString f of
        Some str \<Rightarrow> Inr str
      | None \<Rightarrow>
          (case data f of
             None \<Rightarrow> Inl (TypeError ''file.data is undefined'')
           | Some d \<Rightarrow>
               if type f = Some ''js'' then Inr (stripHashBang (toStringUtf8 env d))
               else (case runHandler env s (type f) (f\<lparr>dataString := Some (toStringUtf8 env d)\<rparr>) of
                       Inl e \<Rightarrow> Inl e
                     | Inr compiled \<Rightarrow> Inr (snd compiled))))"

subsection \<open>Notions used to state the properties of mergeFilesWithSameRealPath\<close>

text \<open>The files of a real path (none when the scanner has no entry for the path), a module
  identifier inside \<^verbatim>\<open>/node_modules/\<close>, and the first element of a list with a property,
  or the first element of the list when no element has it.\<close>

definition groupOf :: "scanner \<Rightarrow> string \<Rightarrow> nat list" where
  "groupOf s realP = (case map_of (realPathToFiles s) realP of None \<Rightarrow> [] | Some files \<Rightarrow> files)"

definition nodeModulesId :: "File \<Rightarrow> bool" where
  "nodeModulesId f = (case absModuleId f of None \<Rightarrow> False | Some m \<Rightarrow> startsWith m ''/node_modules/'')"

definition firstOr :: "('a \<Rightarrow> bool) \<Rightarrow> 'a list \<Rightarrow> 'a" where
  "firstOr P xs = (case List.find P xs of None \<Rightarrow> xs ! 0 | Some x \<Rightarrow> x)"

subsection \<open>Notions used to state the properties of resolve and onMissing\<close>

text \<open>Every entry of \<^verbatim>\<open>absPathToOutputIndex\<close> is a position of \<^verbatim>\<open>outputFiles\<close>: \<^verbatim>\<open>addFile\<close>, the
  only code that writes the index, writes the length of the list and pushes the file.\<close>

definition wfIndex :: "scanner \<Rightarrow> bool" where
  "wfIndex s = (\<forall>k i. map_of (absPathToOutputIndex s) k = Some i \<longrightarrow> i < length (outputFiles s))"

text \<open>\<^verbatim>\<open>file.deps[id].helpers[helperId] === forDynamicImport\<close>.\<close>

definition helperAt :: "File \<Rightarrow> string \<Rightarrow> string \<Rightarrow> bool \<Rightarrow> bool" where
  "helperAt f ident h fd =
     (\<exists>ds info hs. deps f = Some ds \<and> map_of ds ident = Some info \<and>
        helpers info = Some hs \<and> map_of hs h = Some fd)"

text \<open>What a chain of calls of \<^verbatim>\<open>resolve\<close> that started in the state \<open>s0\<close> keeps: the index is
  well formed, the name and the architecture are those of \<open>s0\<close>, the file \<open>p\<close> has the helper
  \<open>h\<close> on its dependency \<open>ident\<close>, and an identifier of \<^verbatim>\<open>allMissingModules\<close> was there in
  \<open>s0\<close> or has no stub to be resolved in its place.\<close>

definition keeps :: "externals \<Rightarrow> nat \<Rightarrow> string \<Rightarrow> string \<Rightarrow> bool \<Rightarrow> scanner \<Rightarrow> scanner \<Rightarrow> bool" where
  "keeps env p ident h fd s0 s =
     (wfIndex s \<and> name s = name s0 \<and> bundleArch s = bundleArch s0 \<and> p < length (heap s) \<and>
      helperAt (fileAt s p) ident h fd \<and>
      (\<forall>x. has (allMissingModules s) x \<longrightarrow>
         has (allMissingModules s0) x \<or> nativeStub env s0 x = None))"

definition resolverKeeps :: "externals \<Rightarrow> bool \<Rightarrow> resolver \<Rightarrow> bool" where
  "resolverKeeps env fd res =
     (\<forall>s q i s' r p ident h s0. keeps env p ident h fd s0 s \<longrightarrow>
        res env s q i fd = Some (Inr (s', r)) \<longrightarrow> keeps env p ident h fd s0 s')"

section \<open>Properties\<close>

subsection \<open>The keys of an object\<close>

lemma set_keys [simp]: "set (keys obj) = fst ` set obj"
  by (auto simp: keys_def Let_def)

lemma distinct_keys [simp]: "distinct (keys obj)"
  by (auto simp: keys_def Let_def)

lemma keys_plain:
  "\<forall>k\<in>fst ` set obj. arrayIndex k = None \<Longrightarrow> keys obj = remdups (map fst obj)"
proof -
  assume a: "\<forall>k\<in>fst ` set obj. arrayIndex k = None"
  hence 1: "filter (\<lambda>k. arrayIndex k \<noteq> None) (remdups (map fst obj)) = []"
    by (auto simp: filter_empty_conv)
  from a have 2: "filter (\<lambda>k. arrayIndex k = None) (remdups (map fst obj)) = remdups (map fst obj)"
    by (intro filter_True) auto
  show ?thesis unfolding keys_def Let_def 1 2 by simp
qed

lemma arrayIndex_path [simp]: "arrayIndex (CHR ''/'' # p) = None"
  by (simp add: arrayIndex_def digitTable_def)

lemma keys_Nil [simp]: "keys [] = []"
  by (simp add: keys_def)

subsection \<open>mergeMissing\<close>

lemma buildPathToIndex_Some:
  "buildPathToIndex xs k m p = Some i \<Longrightarrow>
     (m p = Some i \<and> (\<forall>x\<in>set xs. propertyKey (parentPath x) \<noteq> p)) \<or>
     (k \<le> i \<and> i - k < length xs \<and> propertyKey (parentPath (xs ! (i - k))) = p)"
proof (induction xs arbitrary: k m)
  case Nil
  then show ?case by simp
next
  case (Cons x xs)
  from Cons.prems have
    "buildPathToIndex xs (Suc k) (m(propertyKey (parentPath x) \<mapsto> k)) p = Some i" by simp
  from Cons.IH[OF this] show ?case
  proof
    assume a: "(m(propertyKey (parentPath x) \<mapsto> k)) p = Some i \<and>
       (\<forall>x\<in>set xs. propertyKey (parentPath x) \<noteq> p)"
    show ?thesis
    proof (cases "propertyKey (parentPath x) = p")
      case True
      with a have "i = k" by simp
      with True show ?thesis by simp
    next
      case False
      with a show ?thesis by simp
    qed
  next
    assume "Suc k \<le> i \<and> i - Suc k < length xs \<and>
       propertyKey (parentPath (xs ! (i - Suc k))) = p"
    then have c: "Suc k \<le> i" "i - Suc k < length xs"
       "propertyKey (parentPath (xs ! (i - Suc k))) = p" by simp_all
    from c(1) have d: "i - k = Suc (i - Suc k)" by arith
    have "(x # xs) ! (i - k) = xs ! (i - Suc k)" by (simp add: d)
    moreover have "k \<le> i" "i - k < length (x # xs)" using c d by simp_all
    ultimately show ?thesis using c(3) by simp
  qed
qed

lemma buildPathToIndex_found:
  "\<exists>x\<in>set xs. propertyKey (parentPath x) = p \<Longrightarrow> \<exists>i. buildPathToIndex xs k m p = Some i"
proof (induction xs arbitrary: k m)
  case Nil
  then show ?case by simp
next
  case (Cons x xs)
  show ?case
  proof (cases "\<exists>y\<in>set xs. propertyKey (parentPath y) = p")
    case True
    from Cons.IH[OF this] show ?thesis by simp
  next
    case False
    with Cons.prems have kx: "propertyKey (parentPath x) = p" by auto
    have "buildPathToIndex xs (Suc k) (m(p \<mapsto> k)) p = Some k \<or>
          (\<exists>i. buildPathToIndex xs (Suc k) (m(p \<mapsto> k)) p = Some i)"
    proof (cases "buildPathToIndex xs (Suc k) (m(p \<mapsto> k)) p")
      case None
      have "\<forall>xs k m. (\<forall>y\<in>set xs. propertyKey (parentPath y) \<noteq> p) \<longrightarrow>
              buildPathToIndex xs k m p = m p"
      proof (intro allI)
        fix ys :: "importInfo list" and k' m'
        show "(\<forall>y\<in>set ys. propertyKey (parentPath y) \<noteq> p) \<longrightarrow>
              buildPathToIndex ys k' m' p = m' p"
          by (induction ys arbitrary: k' m') auto
      qed
      with False None show ?thesis by (metis fun_upd_same option.distinct(1))
    next
      case (Some a)
      then show ?thesis by blast
    qed
    with kx show ?thesis by auto
  qed
qed

lemma buildPathToIndex_snoc:
  "buildPathToIndex (xs @ [x]) k m =
     (buildPathToIndex xs k m)(propertyKey (parentPath x) \<mapsto> k + length xs)"
  by (induction xs arbitrary: k m) simp_all

lemma buildPathToIndex_last:
  "buildPathToIndex xs 0 Map.empty p = Some i \<longleftrightarrow>
     i < length xs \<and> propertyKey (parentPath (xs ! i)) = p \<and>
     (\<forall>j<length xs. i < j \<longrightarrow> propertyKey (parentPath (xs ! j)) \<noteq> p)"
proof (induction xs rule: rev_induct)
  case Nil
  show ?case by simp
next
  case (snoc x xs)
  show ?case
  proof (cases "propertyKey (parentPath x) = p")
    case True
    have l: "buildPathToIndex (xs @ [x]) 0 Map.empty p = Some (length xs)"
      by (simp add: buildPathToIndex_snoc True)
    show ?thesis
    proof (cases "i = length xs")
      case True
      with l \<open>propertyKey (parentPath x) = p\<close> show ?thesis by simp
    next
      case False
      have "\<not> (\<forall>j<length (xs @ [x]). i < j \<longrightarrow> propertyKey (parentPath ((xs @ [x]) ! j)) \<noteq> p)"
        if "i < length (xs @ [x])"
      proof -
        from that False have "i < length xs" by simp
        moreover have "propertyKey (parentPath ((xs @ [x]) ! length xs)) = p" using True by simp
        ultimately show ?thesis by (intro notI) (auto dest: spec[of _ "length xs"])
      qed
      with l False show ?thesis by auto
    qed
  next
    case False
    have l: "buildPathToIndex (xs @ [x]) 0 Map.empty p = buildPathToIndex xs 0 Map.empty p"
      using False by (auto simp: buildPathToIndex_snoc)
    show ?thesis
    proof (cases "i < length xs")
      case True
      have "(\<forall>j<length (xs @ [x]). i < j \<longrightarrow> propertyKey (parentPath ((xs @ [x]) ! j)) \<noteq> p) =
            (\<forall>j<length xs. i < j \<longrightarrow> propertyKey (parentPath (xs ! j)) \<noteq> p)"
        using False by (auto simp: nth_append less_Suc_eq)
      with True show ?thesis unfolding l snoc.IH by (simp add: nth_append)
    next
      case n: False
      from snoc.IH n have "buildPathToIndex xs 0 Map.empty p \<noteq> Some i" by simp
      moreover have "\<not> (i < length (xs @ [x]) \<and> propertyKey (parentPath ((xs @ [x]) ! i)) = p)"
        using n False by (auto simp: nth_append less_Suc_eq)
      ultimately show ?thesis unfolding l by blast
    qed
  qed
qed

lemma hits_table:
  "hits old i e = (case parentPath e of None \<Rightarrow> False
                   | Some p \<Rightarrow> buildPathToIndex old 0 Map.empty p = Some i)"
  by (simp add: hits_def buildPathToIndex_last split: option.splits)

lemma slot_bound: "hits old i e \<Longrightarrow> i < length old"
  unfolding hits_table
  by (auto split: option.splits dest!: buildPathToIndex_Some)

lemma slot_unique: "hits old i e \<Longrightarrow> hits old j e \<Longrightarrow> i = j"
  unfolding hits_table by (auto split: option.splits)

lemma slotVal_hit: "hits old i e \<Longrightarrow> slotVal old (new @ [e]) i = e"
  by (simp add: slotVal_def)

lemma slotVal_miss: "\<not> hits old j e \<Longrightarrow> slotVal old (new @ [e]) j = slotVal old new j"
  by (simp add: slotVal_def)

lemma map_slotVal_update:
  assumes h: "hits old i e"
  shows "(map (slotVal old new) [0..<length old])[i := e] = map (slotVal old (new @ [e])) [0..<length old]"
proof (rule nth_equalityI)
  show "length ((map (slotVal old new) [0..<length old])[i := e]) =
        length (map (slotVal old (new @ [e])) [0..<length old])" by simp
next
  fix j assume "j < length ((map (slotVal old new) [0..<length old])[i := e])"
  then have j: "j < length old" by simp
  show "(map (slotVal old new) [0..<length old])[i := e] ! j =
        map (slotVal old (new @ [e])) [0..<length old] ! j"
  proof (cases "j = i")
    case True
    with j h show ?thesis by (simp add: slotVal_hit)
  next
    case False
    with h have "\<not> hits old j e" using slot_unique by blast
    with j False show ?thesis by (simp add: slotVal_miss)
  qed
qed

lemma mergeEntry_mergedList:
  "mergeEntry (buildPathToIndex old 0 Map.empty) (mergedList old new) e = mergedList old (new @ [e])"
proof (cases "\<exists>i. hits old i e")
  case True
  then obtain i where h: "hits old i e" by blast
  then have ib: "i < length old" by (rule slot_bound)
  from h obtain p where p: "parentPath e = Some p" "buildPathToIndex old 0 Map.empty p = Some i"
    by (auto simp: hits_table split: option.splits)
  have "mergeEntry (buildPathToIndex old 0 Map.empty) (mergedList old new) e = (mergedList old new)[i := e]"
    by (simp add: mergeEntry_def p)
  also have "\<dots> = (map (slotVal old new) [0..<length old])[i := e]
       @ filter (\<lambda>e. \<not> (\<exists>i<length old. hits old i e)) new"
    using ib by (simp add: mergedList_def list_update_append1)
  also have "\<dots> = mergedList old (new @ [e])"
    using h ib by (simp add: map_slotVal_update mergedList_def) blast
  finally show ?thesis .
next
  case False
  then have a: "parentPath e = None \<or> (\<exists>p. parentPath e = Some p \<and> buildPathToIndex old 0 Map.empty p = None)"
    by (cases "parentPath e") (auto simp: hits_table)
  then have "mergeEntry (buildPathToIndex old 0 Map.empty) (mergedList old new) e = mergedList old new @ [e]"
    by (auto simp: mergeEntry_def)
  also have "\<dots> = mergedList old (new @ [e])"
    using False by (simp add: mergedList_def slotVal_miss)
  finally show ?thesis .
qed

lemma foldl_mergeEntry:
  "foldl (mergeEntry (buildPathToIndex old 0 Map.empty)) old new = mergedList old new"
proof (induction new rule: rev_induct)
  case Nil
  have "map (slotVal old []) [0..<length old] = map ((!) old) [0..<length old]"
    by (simp add: slotVal_def)
  then show ?case by (simp add: mergedList_def map_nth)
next
  case (snoc e new)
  then show ?case by (simp add: mergeEntry_mergedList)
qed

lemma foldl_mergeEntry_empty: "foldl (mergeEntry Map.empty) acc new = acc @ new"
  by (induction new arbitrary: acc) (auto simp: mergeEntry_def split: option.splits)

lemma map_of_mergeMissingId:
  "map_of (mergeMissingId t k l) ident =
     (if ident = k then Some (case map_of t k of None \<Rightarrow> l | Some old \<Rightarrow> mergedList old l)
      else map_of t ident)"
  by (simp add: mergeMissingId_def update_conv' foldl_mergeEntry foldl_mergeEntry_empty
      split: option.splits)

lemma map_of_foldl_mergeMissingId:
  "distinct ks \<Longrightarrow>
   map_of (foldl (\<lambda>t k. case map_of source k of None \<Rightarrow> t
                  | Some importInfoList \<Rightarrow> mergeMissingId t k importInfoList) t ks) ident =
     (if ident \<in> set ks then
        (case map_of source ident of None \<Rightarrow> map_of t ident
         | Some l \<Rightarrow> Some (case map_of t ident of None \<Rightarrow> l | Some old \<Rightarrow> mergedList old l))
      else map_of t ident)"
proof (induction ks arbitrary: t)
  case Nil
  show ?case by simp
next
  case (Cons k ks)
  then have d: "distinct ks" "k \<notin> set ks" by simp_all
  show ?case
  proof (cases "map_of source k")
    case None
    with Cons.IH[OF d(1)] d(2) show ?thesis by auto
  next
    case (Some l)
    show ?thesis
    proof (cases "ident = k")
      case True
      with Cons.IH[OF d(1), of "mergeMissingId t k l"] d(2) Some show ?thesis
        by (simp add: map_of_mergeMissingId)
    next
      case False
      with Cons.IH[OF d(1), of "mergeMissingId t k l"] d(2) Some show ?thesis
        by (simp add: map_of_mergeMissingId split: option.splits)
    qed
  qed
qed

lemma map_of_mergeMissing:
  assumes "map_of source ident = Some l"
  shows "map_of (mergeMissing target source) ident =
     Some (case map_of target ident of None \<Rightarrow> l | Some old \<Rightarrow> mergedList old l)"
proof -
  from assms have "ident \<in> set (keys source)"
    by (auto dest: map_of_SomeD intro: rev_image_eqI)
  then show ?thesis
    unfolding mergeMissing_def
    by (simp add: map_of_foldl_mergeMissingId assms del: set_keys)
qed

lemma hits_of_old:
  assumes "parentPath e = Some p" "t \<in> set old" "parentPath t = Some p"
  shows "\<exists>i<length old. hits old i e \<and> propertyKey (parentPath (old ! i)) = p"
proof -
  from assms have "\<exists>x\<in>set old. propertyKey (parentPath x) = p"
    by (intro bexI[of _ t]) (simp_all add: propertyKey_def)
  from buildPathToIndex_found[OF this, of 0 Map.empty]
  obtain i where i: "buildPathToIndex old 0 Map.empty p = Some i" by blast
  from buildPathToIndex_Some[OF i] have "i < length old \<and> propertyKey (parentPath (old ! i)) = p"
    by auto
  with i assms(1) show ?thesis by (auto simp: hits_table)
qed

text \<open>Claim C9. \<^verbatim>\<open>mergeMissing(target, source)\<close>, for a specifier \<open>ident\<close> of
  \<open>source\<close>: when \<open>target\<close> has no list for \<open>ident\<close>, the merged list is a fresh list
  holding the entries of \<open>source[ident]\<close>. Otherwise, with \<open>old\<close> the list that
  \<open>target[ident]\<close> holds when \<^verbatim>\<open>mergeMissing\<close> is called: the first \<open>length old\<close>
  slots of the merged list hold, each, the last source entry written to that slot, or
  the old entry when none is (replacement in place, later wins); the entries written to
  no slot follow in their order, none dropped; an entry whose \<^verbatim>\<open>parentPath\<close> is not a
  string is written to no slot, so it is appended; an entry whose \<^verbatim>\<open>parentPath\<close> is a
  string equal to the \<^verbatim>\<open>parentPath\<close> of an entry of \<open>old\<close> is written to a slot of
  \<open>old\<close>, and the old entry of that slot has this \<^verbatim>\<open>parentPath\<close> as its property key;
  and an entry is written to a slot only if its \<^verbatim>\<open>parentPath\<close> is a string, the property
  key of the \<^verbatim>\<open>parentPath\<close> of the old entry of that slot and of no later slot.\<close>

theorem mergeMissing_dedup_by_parentPath:
  assumes "map_of source ident = Some importInfoList"
  shows "\<exists>merged. map_of (mergeMissing target source) ident = Some merged \<and>
    (case map_of target ident of
       None \<Rightarrow> merged = importInfoList
     | Some old \<Rightarrow>
         take (length old) merged = map (slotVal old importInfoList) [0..<length old] \<and>
         drop (length old) merged =
           filter (\<lambda>e. \<not> (\<exists>i<length old. hits old i e)) importInfoList \<and>
         (\<forall>e\<in>set importInfoList. parentPath e = None \<longrightarrow> (\<forall>i. \<not> hits old i e)) \<and>
         (\<forall>e\<in>set importInfoList. \<forall>p.
            parentPath e = Some p \<and> (\<exists>t\<in>set old. parentPath t = Some p) \<longrightarrow>
            (\<exists>i<length old. hits old i e \<and> propertyKey (parentPath (old ! i)) = p)) \<and>
         (\<forall>e\<in>set importInfoList. \<forall>i. hits old i e \<longrightarrow>
            i < length old \<and> parentPath e = Some (propertyKey (parentPath (old ! i))) \<and>
            (\<forall>j<length old. i < j \<longrightarrow>
               parentPath e \<noteq> Some (propertyKey (parentPath (old ! j))))))"
proof (cases "map_of target ident")
  case None
  with map_of_mergeMissing[OF assms, of target] show ?thesis by simp
next
  case (Some old)
  have m: "map_of (mergeMissing target source) ident = Some (mergedList old importInfoList)"
    using map_of_mergeMissing[OF assms, of target] Some by simp
  have a: "take (length old) (mergedList old importInfoList) =
           map (slotVal old importInfoList) [0..<length old]"
    by (simp add: mergedList_def)
  have b: "drop (length old) (mergedList old importInfoList) =
           filter (\<lambda>e. \<not> (\<exists>i<length old. hits old i e)) importInfoList"
    by (simp add: mergedList_def)
  have c: "\<forall>e\<in>set importInfoList. parentPath e = None \<longrightarrow> (\<forall>i. \<not> hits old i e)"
    by (simp add: hits_def)
  have d: "\<forall>e\<in>set importInfoList. \<forall>p.
            parentPath e = Some p \<and> (\<exists>t\<in>set old. parentPath t = Some p) \<longrightarrow>
            (\<exists>i<length old. hits old i e \<and> propertyKey (parentPath (old ! i)) = p)"
    using hits_of_old by blast
  have e: "\<forall>e\<in>set importInfoList. \<forall>i. hits old i e \<longrightarrow>
            i < length old \<and> parentPath e = Some (propertyKey (parentPath (old ! i))) \<and>
            (\<forall>j<length old. i < j \<longrightarrow>
               parentPath e \<noteq> Some (propertyKey (parentPath (old ! j))))"
    by (auto simp: hits_def split: option.splits)
  show ?thesis
    unfolding Some option.case
    by (intro exI[of _ "mergedList old importInfoList"] conjI m a b c d e)
qed

text \<open>The theorem at a concrete merge: the entry of \<^verbatim>\<open>/app/a.js\<close> is replaced in
  place, the two entries without a parent and the entry of \<^verbatim>\<open>/app/c.js\<close> are
  appended.\<close>

theorem mergeMissing_dedup_by_parentPath_witness:
  "map_of [(''react'', [infoFrom (Some ''/app/a.js'') True, infoFrom None False,
                        infoFrom (Some ''/app/c.js'') False, infoFrom None False])] ''react''
     = Some [infoFrom (Some ''/app/a.js'') True, infoFrom None False,
             infoFrom (Some ''/app/c.js'') False, infoFrom None False] \<and>
   map_of (mergeMissing
      [(''react'', [infoFrom (Some ''/app/a.js'') False, infoFrom (Some ''/app/b.js'') False])]
      [(''react'', [infoFrom (Some ''/app/a.js'') True, infoFrom None False,
                    infoFrom (Some ''/app/c.js'') False, infoFrom None False])]) ''react''
     = Some [infoFrom (Some ''/app/a.js'') True, infoFrom (Some ''/app/b.js'') False,
             infoFrom None False, infoFrom (Some ''/app/c.js'') False, infoFrom None False]"
  using mergeMissing_dedup_by_parentPath
    [of "[(''react'', [infoFrom (Some ''/app/a.js'') True, infoFrom None False,
                        infoFrom (Some ''/app/c.js'') False, infoFrom None False])]" "''react''"
        "[infoFrom (Some ''/app/a.js'') True, infoFrom None False,
                        infoFrom (Some ''/app/c.js'') False, infoFrom None False]"
        "[(''react'', [infoFrom (Some ''/app/a.js'') False, infoFrom (Some ''/app/b.js'') False])]"]
  by (simp add: mergeMissing_def keys_def mergeMissingId_def mergeEntry_def infoFrom_def
      emptyInfo_def propertyKey_def)

subsection \<open>Files in the heap, bodies and aligned statuses\<close>

lemma fileAt_setFile:
  "fileAt (setFile s a f) b = (if a = b \<and> a < length (heap s) then f else fileAt s b)"
  by (cases "a < length (heap s)")
    (simp_all add: fileAt_def setFile_def nth_list_update list_update_beyond)

lemma heap_setFile_length [simp]: "length (heap (setFile s a f)) = length (heap s)"
  by (simp add: setFile_def)

lemma setFile_fields [simp]:
  "cacheDir (setFile s a f) = cacheDir s" "bundleArch (setFile s a f) = bundleArch s"
  by (simp_all add: setFile_def)









lemma statusAt_index [simp]: "statusAt (indexOfStatus x) = x"
  by (cases x rule: indexOfStatus.cases) (simp_all add: statusAt_def importedStatusOrder_def)

lemma indexOfStatus_range: "- 1 \<le> indexOfStatus x \<and> indexOfStatus x \<le> 2"
  by (cases x rule: indexOfStatus.cases) simp_all

lemma maxIndex_Nil [simp]: "maxIndex h [] = - 1"
  by (simp add: maxIndex_def)

lemma maxIndex_Cons [simp]:
  "maxIndex h (a # files) = max (indexOfStatus (imported (h ! a))) (maxIndex h files)"
  by (simp add: maxIndex_def)

lemma maxIndex_ge: "a \<in> set files \<Longrightarrow> indexOfStatus (imported (h ! a)) \<le> maxIndex h files"
  by (induction files) auto

lemma maxIndex_attained:
  "files \<noteq> [] \<Longrightarrow> \<exists>a\<in>set files. maxIndex h files = indexOfStatus (imported (h ! a))"
proof (induction files)
  case Nil
  then show ?case by simp
next
  case (Cons a files)
  show ?case
  proof (cases "files = []")
    case True
    have "- 1 \<le> indexOfStatus (imported (h ! a))" using indexOfStatus_range by blast
    with True show ?thesis by (simp add: max_def)
  next
    case False
    from Cons.IH[OF this] obtain b where b: "b \<in> set files"
      "maxIndex h files = indexOfStatus (imported (h ! b))" by blast
    show ?thesis
    proof (cases "indexOfStatus (imported (h ! a)) \<le> maxIndex h files")
      case True
      with b show ?thesis by (auto simp: max_def)
    next
      case False
      then show ?thesis by (auto simp: max_def)
    qed
  qed
qed

lemma index_statusAt_maxIndex:
  "indexOfStatus (statusAt (maxIndex h files)) = maxIndex h files"
proof (cases "files = []")
  case True
  then show ?thesis by (simp add: statusAt_def)
next
  case False
  from maxIndex_attained[OF this, of h] obtain a where
    "maxIndex h files = indexOfStatus (imported (h ! a))" by blast
  then show ?thesis by simp
qed

lemma foldl_setImported_length [simp]:
  "length (foldl (\<lambda>h a. h[a := (h ! a)\<lparr>imported := m\<rparr>]) h files) = length h"
  by (induction files arbitrary: h) simp_all

lemma foldl_setImported_nth:
  "a < length h \<Longrightarrow>
   foldl (\<lambda>h a. h[a := (h ! a)\<lparr>imported := m\<rparr>]) h files ! a =
     (if a \<in> set files then (h ! a)\<lparr>imported := m\<rparr> else h ! a)"
proof (induction files arbitrary: h)
  case Nil
  then show ?case by simp
next
  case (Cons b files)
  let ?h = "h[b := (h ! b)\<lparr>imported := m\<rparr>]"
  have l: "a < length ?h" using Cons.prems by simp
  have "foldl (\<lambda>h a. h[a := (h ! a)\<lparr>imported := m\<rparr>]) ?h files ! a =
     (if a \<in> set files then (?h ! a)\<lparr>imported := m\<rparr> else ?h ! a)"
    by (rule Cons.IH[OF l])
  moreover have "?h ! a = (if a = b then (h ! a)\<lparr>imported := m\<rparr> else h ! a)"
    using Cons.prems by (simp add: nth_list_update)
  ultimately show ?case by auto
qed

lemma alignImportedStatuses_length [simp]:
  "length (alignImportedStatuses h files) = length h"
  by (simp add: alignImportedStatuses_def Let_def)

lemma alignImportedStatuses_nth:
  "a < length h \<Longrightarrow>
   alignImportedStatuses h files ! a =
     (if a \<in> set files then (h ! a)\<lparr>imported := statusAt (maxIndex h files)\<rparr> else h ! a)"
  by (simp add: alignImportedStatuses_def Let_def foldl_setImported_nth)

subsection \<open>scanMissingModules\<close>

text \<open>Claim C7. \<^verbatim>\<open>scanMissingModules\<close> of the empty map returns, whatever the fuel,
  without an exception, an object whose \<^verbatim>\<open>newlyAdded\<close> and \<^verbatim>\<open>newlyMissing\<close> are empty,
  and leaves the scanner as it was: \<^verbatim>\<open>allMissingModules\<close>, \<^verbatim>\<open>outputFiles\<close>, the heap
  of files with their imported statuses, and every other field.\<close>

theorem scanMissingModules_empty:
  "scanMissingModules n env s [] = Some (Inr (s, \<lparr>newlyAdded = [], newlyMissing = []\<rparr>))"
  by (simp add: scanMissingModules_def)

subsection \<open>readFile, getDataString and readModule\<close>

lemma readFile_result:
  assumes "optimisticReadFile env absP = Inr raw"
  shows "readFile env s absP =
     Inr (s\<lparr>watchSet := watchSet s @ [(absP, optimisticHashOrNull env absP)]\<rparr>,
          if toStringUtf8 env raw \<noteq> [] \<and> hd (toStringUtf8 env raw) = 0xFEFF
          then emptyFile\<lparr>absPath := Some absP,
                 data := Some (bufferFrom env (drop 1 (toStringUtf8 env raw))),
                 hash := Some (sha1 env (bufferFrom env (drop 1 (toStringUtf8 env raw)))),
                 dataString := Some (drop 1 (toStringUtf8 env raw))\<rparr>
          else emptyFile\<lparr>absPath := Some absP, data := Some raw,
                 hash := optimisticHashOrNull env absP,
                 dataString := Some (toStringUtf8 env raw)\<rparr>)"
  using assms by (simp add: readFile_def Let_def emptyFile_def)

text \<open>Claim C10, as amended. For a file that \<^verbatim>\<open>optimisticReadFile\<close> reads, \<^verbatim>\<open>readFile\<close>
  returns. If the decoded contents begin with U+FEFF, \<^verbatim>\<open>dataString\<close> is the decoded
  contents without that one code unit, so it begins with U+FEFF only when the second code
  unit of the contents is U+FEFF too; \<^verbatim>\<open>data\<close> is the UTF-8 encoding of that string and
  \<^verbatim>\<open>hash\<close> is the SHA-1 of that encoding. That hash differs from the hash that the file
  system layer gives, when that hash is the SHA-1 of the raw bytes (or there is none), the
  encoding of the stripped string is not the raw bytes, and SHA-1 does not give these two
  byte strings one digest. Otherwise \<^verbatim>\<open>dataString\<close> is the decoded contents, \<^verbatim>\<open>data\<close> the
  raw bytes and \<^verbatim>\<open>hash\<close> the hash of the file system layer.\<close>

theorem readFile_strips_one_bom:
  assumes "optimisticReadFile env absP = Inr raw"
  shows "\<exists>s' info. readFile env s absP = Inr (s', info) \<and>
     (if toStringUtf8 env raw \<noteq> [] \<and> hd (toStringUtf8 env raw) = 0xFEFF
      then dataString info = Some (tl (toStringUtf8 env raw)) \<and>
           data info = Some (bufferFrom env (tl (toStringUtf8 env raw))) \<and>
           hash info = Some (sha1 env (bufferFrom env (tl (toStringUtf8 env raw)))) \<and>
           ((\<exists>b. dataString info = Some b \<and> b \<noteq> [] \<and> hd b = 0xFEFF) \<longleftrightarrow>
              2 \<le> length (toStringUtf8 env raw) \<and> toStringUtf8 env raw ! 1 = 0xFEFF) \<and>
           ((optimisticHashOrNull env absP = None \<or>
             optimisticHashOrNull env absP = Some (sha1 env raw)) \<and>
            bufferFrom env (tl (toStringUtf8 env raw)) \<noteq> raw \<and>
            (sha1 env (bufferFrom env (tl (toStringUtf8 env raw))) = sha1 env raw \<longrightarrow>
               bufferFrom env (tl (toStringUtf8 env raw)) = raw) \<longrightarrow>
            hash info \<noteq> optimisticHashOrNull env absP)
      else dataString info = Some (toStringUtf8 env raw) \<and> data info = Some raw \<and>
           hash info = optimisticHashOrNull env absP)"
proof (cases "toStringUtf8 env raw \<noteq> [] \<and> hd (toStringUtf8 env raw) = 0xFEFF")
  case False
  thus ?thesis unfolding readFile_result[OF assms] by auto
next
  case True
  then obtain c cs where c: "toStringUtf8 env raw = c # cs" by (cases "toStringUtf8 env raw") auto
  have 2: "(cs \<noteq> [] \<and> hd cs = 0xFEFF) \<longleftrightarrow> (2 \<le> length (c # cs) \<and> (c # cs) ! 1 = 0xFEFF)"
    by (cases cs) auto
  show ?thesis
    unfolding readFile_result[OF assms] using True 2 by (auto simp: c)
qed

text \<open>The theorem at a file with one byte order mark: the body is \<^verbatim>\<open>A\<close>, and the hash
  is that of the one byte left, where the file system layer has that of the four raw
  bytes.\<close>

theorem readFile_strips_one_bom_witness:
  "optimisticReadFile bomWorld ''/app/one.js'' = Inr [0xEF, 0xBB, 0xBF, 0x41] \<and>
   (\<exists>s' info. readFile bomWorld (webApp bomWorld) ''/app/one.js'' = Inr (s', info) \<and>
      dataString info = Some [0x41] \<and> data info = Some [0x41] \<and> hash info = Some ''41'' \<and>
      optimisticHashOrNull bomWorld ''/app/one.js'' = Some ''efbbbf41'' \<and>
      optimisticHashOrNull bomWorld ''/app/one.js'' =
        Some (sha1 bomWorld [0xEF, 0xBB, 0xBF, 0x41]) \<and>
      hash info \<noteq> optimisticHashOrNull bomWorld ''/app/one.js'')"
proof -
  have r: "optimisticReadFile bomWorld ''/app/one.js'' = Inr [0xEF, 0xBB, 0xBF, 0x41]"
    by (simp add: bomWorld_def world_def)
  have d: "toStringUtf8 bomWorld [0xEF, 0xBB, 0xBF, 0x41] = [0xFEFF, 0x41]"
    by (simp add: bomWorld_def world_def startByte_def codeUnits_def)
  have e: "bufferFrom bomWorld [0x41] = [0x41]"
    by (simp add: bomWorld_def world_def encodeCodePoint_def isHighSurrogate_def
        isLowSurrogate_def)
  have h: "sha1 bomWorld [0x41] = ''41''" "sha1 bomWorld [0xEF, 0xBB, 0xBF, 0x41] = ''efbbbf41''"
    by (simp_all add: bomWorld_def world_def hexText_def hexDigit_def)
  have f: "optimisticHashOrNull bomWorld ''/app/one.js'' = Some ''efbbbf41''"
    by (simp add: bomWorld_def world_def hexText_def hexDigit_def)
  from readFile_strips_one_bom[OF r, of "webApp bomWorld"] r d e h f show ?thesis
    by auto
qed

text \<open>Claim C10 as stated fails: the contents of \<^verbatim>\<open>/app/bom.js\<close> begin with two byte
  order marks, the decoded contents begin with U+FEFF, and the body that \<^verbatim>\<open>readFile\<close>
  produces still begins with U+FEFF.\<close>

theorem readFile_double_bom_counterexample:
  "hd (toStringUtf8 bomWorld [0xEF, 0xBB, 0xBF, 0xEF, 0xBB, 0xBF, 0x41]) = 0xFEFF \<and>
   (case readFile bomWorld (webApp bomWorld) ''/app/bom.js'' of
      Inl e \<Rightarrow> None | Inr r \<Rightarrow> dataString (snd r)) = Some [0xFEFF, 0x41]"
proof -
  have d: "toStringUtf8 bomWorld [0xEF, 0xBB, 0xBF, 0xEF, 0xBB, 0xBF, 0x41] = [0xFEFF, 0xFEFF, 0x41]"
    by (simp add: bomWorld_def world_def startByte_def codeUnits_def)
  have r: "optimisticReadFile bomWorld ''/app/bom.js'' = Inr [0xEF, 0xBB, 0xBF, 0xEF, 0xBB, 0xBF, 0x41]"
    by (simp add: bomWorld_def world_def)
  show ?thesis
    by (simp add: readFile_result[OF r] d)
qed

lemma runHandler_hash: "runHandler env s ty f = Inr (f', str) \<Longrightarrow> hash f' = hash f"
  by (auto simp: runHandler_def handlerJson_def split: if_splits sum.splits option.splits)

lemma getDataString_hash: "getDataString env s f = Inr (f', str) \<Longrightarrow> hash f' = hash f"
  by (auto simp: getDataString_def Let_def split: option.splits if_splits sum.splits prod.splits
      dest: runHandler_hash)

lemma readModule_hash:
  assumes "readFile env s absP = Inr (s1, info0)"
    and "toLowerCase env (pathExtname env absP) \<noteq> ''.node''"
    and "readModule env s absP = Inr (s', Some info)"
  shows "hash info = hash info0"
  using assms
  by (auto simp: readModule_def Let_def split: option.splits if_splits sum.splits prod.splits
      dest: runHandler_hash)

text \<open>Claim C2 fails on the code. \<^verbatim>\<open>getDataString\<close> never writes \<^verbatim>\<open>file.hash\<close>: the file
  it returns has the hash it was given, whatever it did to \<^verbatim>\<open>dataString\<close> and \<^verbatim>\<open>data\<close>.
  \<^verbatim>\<open>readModule\<close>, for a file that is not a \<^verbatim>\<open>.node\<close> module, returns the hash that
  \<^verbatim>\<open>readFile\<close> gave, whatever the handler did to the body.\<close>

theorem getDataString_readModule_keep_hash:
  "(\<forall>f' str. getDataString env s f = Inr (f', str) \<longrightarrow> hash f' = hash f) \<and>
   (\<forall>s1 info0 s' info.
      readFile env s absP = Inr (s1, info0) \<and>
      toLowerCase env (pathExtname env absP) \<noteq> ''.node'' \<and>
      readModule env s absP = Inr (s', Some info) \<longrightarrow> hash info = hash info0)"
  using getDataString_hash readModule_hash by blast

text \<open>The failing input: \<^verbatim>\<open>/app/node_modules/core-js/bin.js\<close> holds \<^verbatim>\<open>#!x\<close>, a line
  feed and \<^verbatim>\<open>A\<close>. The \<^verbatim>\<open>js\<close> handler strips the hashbang, so \<^verbatim>\<open>readModule\<close> sets
  \<^verbatim>\<open>data\<close> to the two bytes left, and \<^verbatim>\<open>hash\<close> stays the hash of the five raw bytes,
  which is not the hash of \<^verbatim>\<open>data\<close>.\<close>

theorem getDataString_readModule_keep_hash_witness:
  "\<exists>s1 info0 s' info.
     readFile bomWorld (webApp bomWorld) ''/app/node_modules/core-js/bin.js'' = Inr (s1, info0) \<and>
     toLowerCase bomWorld (pathExtname bomWorld ''/app/node_modules/core-js/bin.js'') \<noteq> ''.node'' \<and>
     readModule bomWorld (webApp bomWorld) ''/app/node_modules/core-js/bin.js''
       = Inr (s', Some info) \<and>
     hash info = hash info0 \<and> hash info = Some ''2321780a41'' \<and>
     dataString info = Some [0x0A, 0x41] \<and> data info = Some [0x0A, 0x41] \<and>
     sha1 bomWorld [0x0A, 0x41] = ''0a41''"
proof -
  have r: "optimisticReadFile bomWorld ''/app/node_modules/core-js/bin.js''
             = Inr [0x23, 0x21, 0x78, 0x0A, 0x41]"
    by (simp add: bomWorld_def world_def)
  have d: "toStringUtf8 bomWorld [0x23, 0x21, 0x78, 0x0A, 0x41] = [0x23, 0x21, 0x78, 0x0A, 0x41]"
    by (simp add: bomWorld_def world_def startByte_def)
  have t1: "toLowerCase bomWorld (pathExtname bomWorld ''/app/node_modules/core-js/bin.js'') = ''.js''"
    by (simp add: bomWorld_def world_def posixExtname_def stripTrailingSlashes_def asciiLower_def)
  have t2: "inCoreJs ''/app/node_modules/core-js/bin.js''"
    by (simp add: inCoreJs_def lastIndexOf_def)
  have t3: "stripHashBang [0x23, 0x21, 0x78, 0x0A, 0x41] = [0x0A, 0x41]"
    by (simp add: stripHashBang_def startsWith_def)
  have t4: "bufferFrom bomWorld [0x0A, 0x41] = [0x0A, 0x41]"
    by (simp add: bomWorld_def world_def encodeCodePoint_def isHighSurrogate_def
        isLowSurrogate_def)
  have t5: "optimisticHashOrNull bomWorld ''/app/node_modules/core-js/bin.js'' = Some ''2321780a41''"
    by (simp add: bomWorld_def world_def hexText_def hexDigit_def)
  have t6: "sha1 bomWorld [0x0A, 0x41] = ''0a41''"
    by (simp add: bomWorld_def world_def hexText_def hexDigit_def)
  obtain s1 info0 where f: "readFile bomWorld (webApp bomWorld)
       ''/app/node_modules/core-js/bin.js'' = Inr (s1, info0)" "hash info0 = Some ''2321780a41''"
    by (simp add: readFile_result[OF r] d t5 emptyFile_def)
  obtain s' info where m: "readModule bomWorld (webApp bomWorld)
       ''/app/node_modules/core-js/bin.js'' = Inr (s', Some info)"
     "dataString info = Some [0x0A, 0x41]" "data info = Some [0x0A, 0x41]"
    by (simp add: readModule_def t1 readFile_result[OF r] d hasHandler_def
        runHandler_def handlerJs_def t2 t3 t4 emptyFile_def Let_def)
  have ne: "toLowerCase bomWorld (pathExtname bomWorld ''/app/node_modules/core-js/bin.js'') \<noteq> ''.node''"
    by (simp add: t1)
  from getDataString_readModule_keep_hash[of bomWorld "webApp bomWorld" _ "''/app/node_modules/core-js/bin.js''"]
    f(1) ne m(1)
  have "hash info = hash info0" by blast
  with f m ne t6 show ?thesis by auto
qed

subsection \<open>combineFiles\<close>

lemma setFile_same [simp]: "setFile s a (fileAt s a) = s"
  by (simp add: setFile_def fileAt_def)


















subsection \<open>mergeFilesWithSameRealPath\<close>

lemma aliasTo_idem [simp]: "aliasTo m (aliasTo m f) = aliasTo m f"
  by (simp add: aliasTo_def)

lemma aliasTo_fields [simp]:
  "absModuleId (aliasTo m f) = absModuleId f" "imported (aliasTo m f) = imported f"
  by (simp_all add: aliasTo_def)

lemma aliasFiles_length [simp]: "length (aliasFiles h c files) = length h"
  unfolding aliasFiles_def by (induction files arbitrary: h) simp_all

lemma aliasFiles_Nil [simp]: "aliasFiles h c [] = h"
  by (simp add: aliasFiles_def)

lemma aliasFiles_Cons:
  "aliasFiles h c (x # xs) =
     aliasFiles (if x \<noteq> c then h[x := aliasTo (absModuleId (h ! c)) (h ! x)] else h) c xs"
  by (simp add: aliasFiles_def)

lemma aliasFiles_nth:
  "a < length h \<Longrightarrow>
   aliasFiles h c files ! a =
     (if a \<in> set files \<and> a \<noteq> c then aliasTo (absModuleId (h ! c)) (h ! a) else h ! a)"
proof (induction files arbitrary: h)
  case Nil
  then show ?case by simp
next
  case (Cons x xs)
  show ?case
  proof (cases "x = c")
    case True
    have "aliasFiles h c (x # xs) ! a = aliasFiles h c xs ! a"
      using True by (simp add: aliasFiles_Cons)
    thus ?thesis using Cons.IH[OF Cons.prems] True by auto
  next
    case False
    let ?h = "h[x := aliasTo (absModuleId (h ! c)) (h ! x)]"
    have l: "a < length ?h" using Cons.prems by simp
    have c: "?h ! c = h ! c" using False by simp
    have n: "?h ! a = (if a = x then aliasTo (absModuleId (h ! c)) (h ! a) else h ! a)"
      using Cons.prems by (simp add: nth_list_update)
    have "aliasFiles h c (x # xs) ! a = aliasFiles ?h c xs ! a"
      using False by (simp add: aliasFiles_Cons)
    also have "\<dots> = (if a \<in> set xs \<and> a \<noteq> c then aliasTo (absModuleId (?h ! c)) (?h ! a) else ?h ! a)"
      by (rule Cons.IH[OF l])
    also have "\<dots> = (if a \<in> set (x # xs) \<and> a \<noteq> c then aliasTo (absModuleId (h ! c)) (h ! a) else h ! a)"
      unfolding c n using False by auto
    finally show ?thesis .
  qed
qed

lemma inNodeModules_iff:
  "inNodeModules f = (\<exists>m. absModuleId f = Some m \<and> startsWith m ''/node_modules/'')"
  by (auto simp: inNodeModules_def startsWith_def split: option.splits)

lemma chooseContainer_cong:
  "(\<And>b. b \<in> set files \<Longrightarrow> absModuleId (h1 ! b) = absModuleId (h2 ! b)) \<Longrightarrow>
   chooseContainer h1 files = chooseContainer h2 files"
proof -
  assume a: "\<And>b. b \<in> set files \<Longrightarrow> absModuleId (h1 ! b) = absModuleId (h2 ! b)"
  have "filter (\<lambda>a. inNodeModules (h1 ! a)) files = filter (\<lambda>a. inNodeModules (h2 ! a)) files"
    by (rule filter_cong[OF refl]) (simp add: inNodeModules_def a)
  thus ?thesis by (simp add: chooseContainer_def)
qed

lemma chooseContainer_mem: "files \<noteq> [] \<Longrightarrow> chooseContainer h files \<in> set files"
proof -
  assume ne: "files \<noteq> []"
  show ?thesis
  proof (cases "filter (\<lambda>a. inNodeModules (h ! a)) files")
    case Nil
    thus ?thesis using ne by (simp add: chooseContainer_def)
  next
    case (Cons c cs)
    have "c \<in> set (filter (\<lambda>a. inNodeModules (h ! a)) files)" unfolding Cons by simp
    hence "c \<in> set files" by simp
    moreover have "chooseContainer h files = c" using Cons by (simp add: chooseContainer_def)
    ultimately show ?thesis by simp
  qed
qed

lemma filter_find:
  "(case filter P xs of [] \<Rightarrow> d | c # cs \<Rightarrow> c) = (case List.find P xs of None \<Rightarrow> d | Some c \<Rightarrow> c)"
  by (induction xs) simp_all

lemma chooseContainer_first:
  "chooseContainer h files =
     (case List.find (\<lambda>a. inNodeModules (h ! a)) files of None \<Rightarrow> files ! 0 | Some c \<Rightarrow> c)"
  unfolding chooseContainer_def by (rule filter_find)

lemma maxIndex_cong:
  "(\<And>b. b \<in> set files \<Longrightarrow> imported (h1 ! b) = imported (h2 ! b)) \<Longrightarrow>
   maxIndex h1 files = maxIndex h2 files"
  by (induction files) simp_all

lemma mergeGroup_length [simp]: "length (mergeGroup h files) = length h"
  by (simp add: mergeGroup_def Let_def)

lemma mergeGroup_nth:
  assumes "a < length h" and "2 \<le> length files" and "\<forall>b\<in>set files. b < length h"
  shows "mergeGroup h files ! a =
     (if a \<in> set files then
        (if a \<noteq> chooseContainer h files
         then aliasTo (absModuleId (h ! chooseContainer h files))
                ((h ! a)\<lparr>imported := statusAt (maxIndex h files)\<rparr>)
         else (h ! a)\<lparr>imported := statusAt (maxIndex h files)\<rparr>)
      else h ! a)"
proof -
  let ?al = "alignImportedStatuses h files"
  have ne: "files \<noteq> []" using assms(2) by auto
  have cc: "chooseContainer ?al files = chooseContainer h files"
    by (rule chooseContainer_cong) (use assms(3) in \<open>simp add: alignImportedStatuses_nth\<close>)
  have cm: "chooseContainer h files \<in> set files" by (rule chooseContainer_mem[OF ne])
  hence cl: "chooseContainer h files < length h" using assms(3) by blast
  have m: "mergeGroup h files = aliasFiles ?al (chooseContainer h files) files"
    using assms(2) by (simp add: mergeGroup_def Let_def cc)
  show ?thesis
    unfolding m using assms(1) cl cm
    by (simp add: aliasFiles_nth alignImportedStatuses_nth)
qed

lemma mergeGroup_frame: "a \<notin> set files \<Longrightarrow> a < length h \<Longrightarrow> mergeGroup h files ! a = h ! a"
  by (simp add: mergeGroup_def Let_def aliasFiles_nth alignImportedStatuses_nth)

lemma mergeGroup_cong:
  assumes "length h1 = length h2" and "\<forall>b\<in>set files. b < length h1"
    and "\<And>b. b \<in> set files \<Longrightarrow> h1 ! b = h2 ! b" and "a \<in> set files"
  shows "mergeGroup h1 files ! a = mergeGroup h2 files ! a"
proof (cases "2 \<le> length files")
  case True
  have c: "chooseContainer h1 files = chooseContainer h2 files"
    by (rule chooseContainer_cong) (simp add: assms(3))
  have m: "maxIndex h1 files = maxIndex h2 files"
    by (rule maxIndex_cong) (simp add: assms(3))
  have ne: "files \<noteq> []" using True by auto
  have cm: "chooseContainer h2 files \<in> set files" by (rule chooseContainer_mem[OF ne])
  have a: "a < length h1" "a < length h2" using assms by auto
  have v2: "\<forall>b\<in>set files. b < length h2" using assms by simp
  show ?thesis
    unfolding mergeGroup_nth[OF a(1) True assms(2)] mergeGroup_nth[OF a(2) True v2] c m
    using assms(3)[OF cm] assms(3)[OF assms(4)] by simp
next
  case False
  thus ?thesis using assms by (simp add: mergeGroup_def)
qed

lemma merge_step: 
  "(case map_of (realPathToFiles s) realP of None \<Rightarrow> h | Some files \<Rightarrow> mergeGroup h files) =
   mergeGroup h (groupOf s realP)"
  by (simp add: groupOf_def mergeGroup_def split: option.splits)

lemma mergeFiles_fold:
  "heap (mergeFilesWithSameRealPath s) =
     foldl (\<lambda>h realP. mergeGroup h (groupOf s realP)) (heap s) (keys (realPathToFiles s))"
  by (simp add: mergeFilesWithSameRealPath_def merge_step)

lemma fold_merge_length [simp]:
  "length (foldl (\<lambda>h realP. mergeGroup h (G realP)) h ks) = length h"
  by (induction ks arbitrary: h) simp_all

lemma fold_merge_frame:
  "a < length h \<Longrightarrow> \<forall>k\<in>set ks. a \<notin> set (G k) \<Longrightarrow>
   foldl (\<lambda>h realP. mergeGroup h (G realP)) h ks ! a = h ! a"
  by (induction ks arbitrary: h) (simp_all add: mergeGroup_frame)

lemma fold_merge_group:
  assumes "distinct ks" and "k \<in> set ks"
    and "\<forall>k'\<in>set ks. \<forall>b\<in>set (G k'). b < length h"
    and "\<forall>k'\<in>set ks. k' \<noteq> k \<longrightarrow> set (G k') \<inter> set (G k) = {}"
    and "a \<in> set (G k)"
  shows "foldl (\<lambda>h realP. mergeGroup h (G realP)) h ks ! a = mergeGroup h (G k) ! a"
  using assms
proof (induction ks arbitrary: h)
  case Nil
  then show ?case by simp
next
  case (Cons x xs)
  have al: "a < length h" using Cons.prems by auto
  show ?case
  proof (cases "x = k")
    case True
    have "\<forall>k'\<in>set xs. a \<notin> set (G k')" using Cons.prems True by auto
    thus ?thesis using True al by (simp add: fold_merge_frame)
  next
    case False
    let ?h = "mergeGroup h (G x)"
    have kx: "k \<in> set xs" using Cons.prems False by simp
    have dj: "set (G x) \<inter> set (G k) = {}" using Cons.prems False by auto
    have "foldl (\<lambda>h realP. mergeGroup h (G realP)) ?h xs ! a = mergeGroup ?h (G k) ! a"
      by (rule Cons.IH) (use Cons.prems kx in auto)
    also have "\<dots> = mergeGroup h (G k) ! a"
    proof (rule mergeGroup_cong)
      show "length ?h = length h" by simp
      show "\<forall>b\<in>set (G k). b < length ?h" using Cons.prems kx by auto
      show "?h ! b = h ! b" if "b \<in> set (G k)" for b
      proof (rule mergeGroup_frame)
        show "b \<notin> set (G x)" using dj that by auto
        show "b < length h" using Cons.prems kx that by auto
      qed
      show "a \<in> set (G k)" by fact
    qed
    finally show ?thesis by simp
  qed
qed


lemma maxIndex_Max:
  "files \<noteq> [] \<Longrightarrow> maxIndex h files = Max ((\<lambda>b. indexOfStatus (imported (h ! b))) ` set files)"
proof (induction files)
  case Nil
  then show ?case by simp
next
  case (Cons a files)
  show ?case
  proof (cases "files = []")
    case True
    have "- 1 \<le> indexOfStatus (imported (h ! a))" using indexOfStatus_range by blast
    thus ?thesis using True by (simp add: max_def)
  next
    case False
    thus ?thesis using Cons.IH by simp
  qed
qed

lemma nodeModulesId_inNodeModules: "inNodeModules = nodeModulesId"
  by (rule ext) (auto simp: inNodeModules_def nodeModulesId_def startsWith_def split: option.splits)

text \<open>Claim C5. \<^verbatim>\<open>mergeFilesWithSameRealPath\<close>, in a scanner where the files of every real
  path are files of the heap and no file is listed under two real paths. For every real
  path with two or more files, the container being the first file of the group whose
  \<^verbatim>\<open>absModuleId\<close> starts with \<^verbatim>\<open>/node_modules/\<close>, or the first file of the group when there
  is none: every file of the group has afterwards the greatest imported status of the
  group; the container is a file of the group and keeps its \<^verbatim>\<open>alias\<close>; every other file of
  the group has an \<^verbatim>\<open>alias\<close> whose \<^verbatim>\<open>absModuleId\<close> is the one of the container (the other
  properties of an alias it had are kept); and no \<^verbatim>\<open>absModuleId\<close> changes.\<close>

theorem mergeFilesWithSameRealPath_groups:
  assumes valid: "\<forall>p\<in>set (keys (realPathToFiles s)). \<forall>b\<in>set (groupOf s p). b < length (heap s)"
    and disjoint: "\<forall>p\<in>set (keys (realPathToFiles s)). \<forall>q\<in>set (keys (realPathToFiles s)).
                     p \<noteq> q \<longrightarrow> set (groupOf s p) \<inter> set (groupOf s q) = {}"
    and group: "realP \<in> set (keys (realPathToFiles s))" "files = groupOf s realP"
               "2 \<le> length files"
    and member: "a \<in> set files"
    and container: "container = firstOr (\<lambda>b. nodeModulesId (heap s ! b)) files"
  shows "indexOfStatus (imported (heap (mergeFilesWithSameRealPath s) ! a)) =
           Max ((\<lambda>b. indexOfStatus (imported (heap s ! b))) ` set files) \<and>
         container \<in> set files \<and>
         fileAlias (heap (mergeFilesWithSameRealPath s) ! container) = fileAlias (heap s ! container) \<and>
         (a \<noteq> container \<longrightarrow>
            fileAlias (heap (mergeFilesWithSameRealPath s) ! a) =
              Some ((case fileAlias (heap s ! a) of None \<Rightarrow> emptyResolution | Some al \<Rightarrow> al)
                      \<lparr>resAbsModuleId := idOf (absModuleId (heap s ! container))\<rparr>)) \<and>
         absModuleId (heap (mergeFilesWithSameRealPath s) ! a) = absModuleId (heap s ! a)"
proof -
  let ?ks = "keys (realPathToFiles s)"
  let ?M = "statusAt (maxIndex (heap s) files)"
  have d: "distinct ?ks" by simp
  have ne: "files \<noteq> []" using group(3) by auto
  have c: "container = chooseContainer (heap s) files"
    by (simp add: container firstOr_def chooseContainer_first nodeModulesId_inNodeModules)
  have cm: "container \<in> set files" unfolding c by (rule chooseContainer_mem[OF ne])
  have v: "\<forall>b\<in>set files. b < length (heap s)" using valid group by blast
  have g: "heap (mergeFilesWithSameRealPath s) ! b = mergeGroup (heap s) files ! b"
    if "b \<in> set files" for b
    unfolding mergeFiles_fold group(2)
  proof (rule fold_merge_group[OF d group(1)])
    show "\<forall>k'\<in>set ?ks. \<forall>b\<in>set (groupOf s k'). b < length (heap s)" by (rule valid)
    show "\<forall>k'\<in>set ?ks. k' \<noteq> realP \<longrightarrow> set (groupOf s k') \<inter> set (groupOf s realP) = {}"
      using disjoint group(1) by blast
    show "b \<in> set (groupOf s realP)" using that group(2) by simp
  qed
  have n: "mergeGroup (heap s) files ! b =
     (if b \<noteq> container then aliasTo (absModuleId (heap s ! container)) ((heap s ! b)\<lparr>imported := ?M\<rparr>)
      else (heap s ! b)\<lparr>imported := ?M\<rparr>)" if "b \<in> set files" for b
    using mergeGroup_nth[OF _ group(3) v, of b] that v by (simp add: c)
  have i: "indexOfStatus ?M = Max ((\<lambda>b. indexOfStatus (imported (heap s ! b))) ` set files)"
    using index_statusAt_maxIndex[of "heap s" files] maxIndex_Max[OF ne, of "heap s"] by simp
  have 1: "indexOfStatus (imported (heap (mergeFilesWithSameRealPath s) ! a)) =
           Max ((\<lambda>b. indexOfStatus (imported (heap s ! b))) ` set files)"
    unfolding g[OF member] n[OF member] using i by simp
  have 2: "fileAlias (heap (mergeFilesWithSameRealPath s) ! container) = fileAlias (heap s ! container)"
    unfolding g[OF cm] n[OF cm] by simp
  have 3: "a \<noteq> container \<Longrightarrow>
            fileAlias (heap (mergeFilesWithSameRealPath s) ! a) =
              Some ((case fileAlias (heap s ! a) of None \<Rightarrow> emptyResolution | Some al \<Rightarrow> al)
                      \<lparr>resAbsModuleId := idOf (absModuleId (heap s ! container))\<rparr>)"
    unfolding g[OF member] n[OF member] by (simp add: aliasTo_def)
  have 4: "absModuleId (heap (mergeFilesWithSameRealPath s) ! a) = absModuleId (heap s ! a)"
    unfolding g[OF member] n[OF member] by simp
  show ?thesis using 1 2 3 4 cm by blast
qed

theorem mergeFilesWithSameRealPath_groups_witness:
  "firstOr (\<lambda>b. nodeModulesId (heap mergeInput ! b)) [0, 1] = 1 \<and>
   imported (heap (mergeFilesWithSameRealPath mergeInput) ! 0) = Some Dynamic \<and>
   imported (heap (mergeFilesWithSameRealPath mergeInput) ! 1) = Some Dynamic \<and>
   fileAlias (heap (mergeFilesWithSameRealPath mergeInput) ! 0) =
     Some (emptyResolution\<lparr>resAbsModuleId := IdString ''/node_modules/pkg/a.js''\<rparr>) \<and>
   fileAlias (heap (mergeFilesWithSameRealPath mergeInput) ! 1) = None"
proof -
  have k: "keys (realPathToFiles mergeInput) = [''/real/a.js'', ''/real/other.js'']"
    by (simp add: mergeInput_def keys_plain)
  have g: "groupOf mergeInput ''/real/a.js'' = [0, 1]" "groupOf mergeInput ''/real/other.js'' = [2]"
    by (simp_all add: mergeInput_def groupOf_def)
  have h: "heap mergeInput ! 0 = emptyFile\<lparr>absModuleId := Some ''/imports/a.js'', imported := Some Dynamic\<rparr>"
    "heap mergeInput ! Suc 0 = emptyFile\<lparr>absModuleId := Some ''/node_modules/pkg/a.js'',
                imported := Some NotImported\<rparr>"
    "length (heap mergeInput) = 3"
    by (simp_all add: mergeInput_def)
  have c: "firstOr (\<lambda>b. nodeModulesId (heap mergeInput ! b)) [0, 1] = 1"
    by (simp add: firstOr_def h nodeModulesId_def startsWith_def)
  have v: "\<forall>p\<in>set (keys (realPathToFiles mergeInput)). \<forall>b\<in>set (groupOf mergeInput p).
             b < length (heap mergeInput)"
    by (simp add: k g h)
  have dj: "\<forall>p\<in>set (keys (realPathToFiles mergeInput)). \<forall>q\<in>set (keys (realPathToFiles mergeInput)).
                     p \<noteq> q \<longrightarrow> set (groupOf mergeInput p) \<inter> set (groupOf mergeInput q) = {}"
    by (simp add: k g)
  have m: "''/real/a.js'' \<in> set (keys (realPathToFiles mergeInput))" by (simp add: k)
  have x: "indexOfStatus y = 1 \<Longrightarrow> y = Some Dynamic" for y
    by (cases y rule: indexOfStatus.cases) simp_all
  note t = mergeFilesWithSameRealPath_groups[OF v dj m g(1)[symmetric] _ _ c[symmetric]]
  from t[of 0] have a0: "imported (heap (mergeFilesWithSameRealPath mergeInput) ! 0) = Some Dynamic"
    "fileAlias (heap (mergeFilesWithSameRealPath mergeInput) ! 0) =
     Some (emptyResolution\<lparr>resAbsModuleId := IdString ''/node_modules/pkg/a.js''\<rparr>)"
    "fileAlias (heap (mergeFilesWithSameRealPath mergeInput) ! 1) = None"
    by (simp_all add: h x emptyFile_def idOf_def)
  from t[of 1] have a1: "imported (heap (mergeFilesWithSameRealPath mergeInput) ! 1) = Some Dynamic"
    by (simp add: h x emptyFile_def)
  show ?thesis using c a0 a1 by simp
qed

subsection \<open>The files that getOutputFiles returns\<close>









subsection \<open>Native modules that are missing\<close>

lemma setFile_other [simp]:
  "absPathToOutputIndex (setFile s a f) = absPathToOutputIndex s"
  "outputFiles (setFile s a f) = outputFiles s"
  "name (setFile s a f) = name s" "sourceRoot (setFile s a f) = sourceRoot s"
  "nodeModulesPaths (setFile s a f) = nodeModulesPaths s"
  "realPathToFiles (setFile s a f) = realPathToFiles s"
  "realPathCache (setFile s a f) = realPathCache s"
  "allMissingModules (setFile s a f) = allMissingModules s"
  "watchSet (setFile s a f) = watchSet s" "messages (setFile s a f) = messages s"
  by (simp_all add: setFile_def)

lemma alloc_snd [simp]: "snd (alloc s f) = length (heap s)"
  by (simp add: alloc_def)

lemma getFile_alloc [simp]: "getFile env (fst (alloc s f)) p = getFile env s p"
  by (auto simp: getFile_def alloc_def split: option.splits)

lemma getFile_fields [simp]:
  "getFile env (s\<lparr>watchSet := w\<rparr>) p = getFile env s p"
  "getFile env (setFile s a f) p = getFile env s p"
  by (auto simp: getFile_def split: option.splits)

lemma addFile_fresh_cases:
  assumes "wfIndex s" and "getFile env s p = None"
  shows "fst (addFile env s p a) = s \<or>
         fst (addFile env s p a) =
           s\<lparr>absPathToOutputIndex :=
                AList.update (toLowerCase env p) (length (outputFiles s)) (absPathToOutputIndex s),
              outputFiles := outputFiles s @ [a]\<rparr>"
proof -
  have "map_of (absPathToOutputIndex s) (toLowerCase env p) = None"
  proof (cases "map_of (absPathToOutputIndex s) (toLowerCase env p)")
    case None
    thus ?thesis .
  next
    case (Some i)
    hence "i < length (outputFiles s)" using assms(1) by (simp add: wfIndex_def)
    with Some assms(2) show ?thesis by (simp add: getFile_def)
  qed
  thus ?thesis by (simp add: addFile_def Let_def)
qed

lemma nativeStub_cong:
  "name s' = name s \<Longrightarrow> bundleArch s' = bundleArch s \<Longrightarrow> nativeStub env s' x = nativeStub env s x"
  by (simp add: nativeStub_def isWeb_def)

lemma keeps_setFile:
  "keeps env p ident h fd s0 s \<Longrightarrow>
   (helperAt (fileAt s a) ident h fd \<longrightarrow> helperAt f ident h fd) \<Longrightarrow>
   keeps env p ident h fd s0 (setFile s a f)"
  unfolding keeps_def by (auto simp: fileAt_setFile wfIndex_def)

lemma keeps_setFile_deps:
  "keeps env p ident h fd s0 s \<Longrightarrow> deps f = deps (fileAt s a) \<Longrightarrow>
   keeps env p ident h fd s0 (setFile s a f)"
  by (rule keeps_setFile) (simp_all add: helperAt_def)

lemma keeps_fields [simp]:
  "keeps env p ident h fd s0 (s\<lparr>watchSet := w\<rparr>) = keeps env p ident h fd s0 s"
  by (simp add: keeps_def wfIndex_def fileAt_def)

lemma keeps_alloc:
  "keeps env p ident h fd s0 s \<Longrightarrow> keeps env p ident h fd s0 (fst (alloc s f))"
  unfolding keeps_def by (auto simp: alloc_def wfIndex_def fileAt_def nth_append)

lemma keeps_append:
  "keeps env p ident h fd s0 s \<Longrightarrow>
   keeps env p ident h fd s0
     (s\<lparr>absPathToOutputIndex := AList.update k (length (outputFiles s)) (absPathToOutputIndex s),
        outputFiles := outputFiles s @ [a]\<rparr>)"
  unfolding keeps_def by (auto simp: wfIndex_def fileAt_def update_conv' less_Suc_eq)

lemma keeps_addFile:
  assumes "keeps env p ident h fd s0 s" and "getFile env s q = None"
  shows "keeps env p ident h fd s0 (fst (addFile env s q a))"
proof -
  have "wfIndex s" using assms(1) by (simp add: keeps_def)
  from addFile_fresh_cases[OF this assms(2), of a] show ?thesis
    using assms(1) by (auto simp: keeps_append)
qed

lemma helperAt_addHelper:
  "helperAt f ident h fd \<Longrightarrow> deps f = Some ds \<Longrightarrow> map_of ds k = Some info \<Longrightarrow>
   helperAt (f\<lparr>deps := Some (AList.update k (addHelper x fd info) ds)\<rparr>) ident h fd"
  by (auto simp: helperAt_def update_conv' addHelper_def)

lemma helperAt_ensureHelpers:
  "helperAt f ident h fd \<Longrightarrow> deps f = Some ds \<Longrightarrow> map_of ds k = Some info \<Longrightarrow>
   helperAt (f\<lparr>deps := Some (AList.update k (ensureHelpers info) ds)\<rparr>) ident h fd"
  by (auto simp: helperAt_def update_conv' ensureHelpers_def)

lemma keeps_addHelper:
  "keeps env p ident h fd s0 s \<Longrightarrow> keeps env p ident h fd s0 (updateDep s a k (addHelper x fd))"
  by (auto simp: updateDep_def split: option.splits intro!: keeps_setFile helperAt_addHelper)

lemma keeps_ensureHelpers:
  "keeps env p ident h fd s0 s \<Longrightarrow> keeps env p ident h fd s0 (updateDep s a k ensureHelpers)"
  by (auto simp: updateDep_def split: option.splits intro!: keeps_setFile helperAt_ensureHelpers)

lemma keeps_ensureDep:
  "keeps env p ident h fd s0 s \<Longrightarrow> keeps env p ident h fd s0 (ensureDep s a k)"
  unfolding ensureDep_def Let_def
  by (rule keeps_setFile) (auto simp: helperAt_def update_conv' split: option.splits)

lemma getFile_ensureDep [simp]: "getFile env (ensureDep s a ident) p = getFile env s p"
  by (simp add: ensureDep_def Let_def)

lemma keys_single [simp]: "keys [(k, v)] = [k]"
  by (simp add: keys_def Let_def)

lemma has_mergeMissing_single:
  "has (mergeMissing t [(x, l)]) y \<Longrightarrow> has t y \<or> y = x"
  by (auto simp: mergeMissing_def has_def map_of_mergeMissingId split: if_splits)

lemma keeps_recordMissing:
  assumes "keeps env p ident h fd s0 s" and "nativeStub env s x = None"
  shows "keeps env p ident h fd s0 (recordMissing s a x info)"
proof -
  let ?s1 = "setFile s a ((fileAt s a)\<lparr>missingModules := Some
                 (AList.update x info
                    (case missingModules (fileAt s a) of None \<Rightarrow> [] | Some m \<Rightarrow> m))\<rparr>)"
  have 1: "keeps env p ident h fd s0 ?s1" by (rule keeps_setFile_deps[OF assms(1)]) simp
  have n: "nativeStub env s0 x = None"
    using assms nativeStub_cong[of s s0 env x] by (simp add: keeps_def)
  have r: "recordMissing s a x info =
     ?s1\<lparr>allMissingModules := mergeMissing (allMissingModules ?s1) [(x, [info])]\<rparr>"
    by (simp add: recordMissing_def Let_def)
  show ?thesis
    unfolding r using 1 n
    by (auto simp: keeps_def wfIndex_def fileAt_def dest!: has_mergeMissing_single)
qed

lemma keeps_setImportedStatus:
  "keeps env p ident h fd s0 s \<Longrightarrow>
   keeps env p ident h fd s0 (setFile s a (setImportedStatus (fileAt s a) st))"
  by (rule keeps_setFile_deps) (simp_all add: setImportedStatus_def)

lemma keeps_installAlias:
  assumes "keeps env p ident h fd s0 s" and "fl = getFile env s sourceP"
  shows "keeps env p ident h fd s0 (installAlias env s fl sourceP m al)"
proof (cases fl)
  case (Some a)
  thus ?thesis using assms(1) by (simp add: installAlias_def keeps_setFile_deps)
next
  case None
  let ?stub = "aliasStub env s al sourceP m"
  have "keeps env p ident h fd s0 (fst (alloc s ?stub))"
    by (rule keeps_alloc[OF assms(1)])
  moreover have "getFile env (fst (alloc s ?stub)) sourceP = None" using None assms(2) by simp
  ultimately have "keeps env p ident h fd s0
      (fst (addFile env (fst (alloc s ?stub)) sourceP (snd (alloc s ?stub))))"
    by (rule keeps_addFile)
  thus ?thesis using None by (simp add: installAlias_def split_def)
qed

lemma keeps_browserAlias:
  "keeps env p ident h fd s0 s \<Longrightarrow> browserAlias env s pkgFile pa browser sourceId = Inr s' \<Longrightarrow>
   keeps env p ident h fd s0 s'"
  unfolding browserAlias_def Let_def
  by (auto split: sum.splits option.splits prod.splits if_splits json.splits bool.splits
      intro!: keeps_installAlias keeps_ensureDep)

lemma keeps_browserAliases:
  "keeps env p ident h fd s0 s \<Longrightarrow> browserAliases env s pkgFile pa browser ids = Inr s' \<Longrightarrow>
   keeps env p ident h fd s0 s'"
  by (induction ids arbitrary: s) (auto split: sum.splits dest: keeps_browserAlias)

lemma keeps_resolvePkgJsonBrowserAliases:
  "keeps env p ident h fd s0 s \<Longrightarrow> resolvePkgJsonBrowserAliases env s pkgFile d = Inr s' \<Longrightarrow>
   keeps env p ident h fd s0 s'"
  unfolding resolvePkgJsonBrowserAliases_def Let_def
  by (auto split: sum.splits option.splits if_splits json.splits
      elim!: keeps_browserAliases[rotated] intro!: keeps_setFile simp: helperAt_def)

lemma keeps_addPkgJsonToOutput:
  assumes "keeps env p ident h fd s0 s"
    and "addPkgJsonToOutput env s pa pkg d = Inr (s', a)"
  shows "keeps env p ident h fd s0 s'"
proof (cases "getFile env s pa")
  case (Some fl)
  hence "s' = setFile s fl (setImportedStatus (fileAt s fl) (statusFor d))"
    using assms(2) by (auto simp: addPkgJsonToOutput_def)
  thus ?thesis using assms(1) by (simp add: keeps_setImportedStatus)
next
  case None
  let ?f = "pkgJsonFile env s pa pkg d"
  let ?s1 = "fst (alloc s ?f)"
  let ?s2 = "fst (addFile env ?s1 pa (length (heap s)))"
  let ?s3 = "if truthy (optimisticHashOrNull env pa)
             then ?s2\<lparr>watchSet := watchSet ?s2 @ [(pa, optimisticHashOrNull env pa)]\<rparr> else ?s2"
  have "keeps env p ident h fd s0 ?s1" by (rule keeps_alloc[OF assms(1)])
  moreover have "getFile env ?s1 pa = None" using None by simp
  ultimately have "keeps env p ident h fd s0 ?s2" by (rule keeps_addFile)
  hence 3: "keeps env p ident h fd s0 ?s3" by simp
  have "resolvePkgJsonBrowserAliases env ?s3 (length (heap s)) d = Inr s'"
    using assms(2) None
    by (auto simp: addPkgJsonToOutput_def split_def Let_def split: sum.splits if_splits)
  thus ?thesis by (rule keeps_resolvePkgJsonBrowserAliases[OF 3])
qed

lemma keeps_packageJsonHelper:
  "keeps env p ident h fd s0 s \<Longrightarrow>
   packageJsonHelper env s q i fd entry = Inr s' \<Longrightarrow> keeps env p ident h fd s0 s'"
  unfolding packageJsonHelper_def
  by (auto split: sum.splits prod.splits if_splits
      dest: keeps_addPkgJsonToOutput intro!: keeps_addHelper)

lemma keeps_packageJsonHelpers:
  "keeps env p ident h fd s0 s \<Longrightarrow>
   packageJsonHelpers env s q i fd entries = Inr s' \<Longrightarrow> keeps env p ident h fd s0 s'"
proof (induction entries arbitrary: s)
  case Nil
  then show ?case by simp
next
  case (Cons entry entries)
  from Cons.prems(2) obtain s1 where
    1: "packageJsonHelper env s q i fd entry = Inr s1" and
    2: "packageJsonHelpers env s1 q i fd entries = Inr s'"
    by (auto split: sum.splits)
  have "keeps env p ident h fd s0 s1" by (rule keeps_packageJsonHelper[OF Cons.prems(1) 1])
  thus ?case using 2 by (rule Cons.IH)
qed

lemma keeps_followAlias:
  "keeps env p ident h fd s0 s \<Longrightarrow> followAlias env s res d = Inr (s', r) \<Longrightarrow>
   keeps env p ident h fd s0 s'"
  unfolding followAlias_def
  by (auto split: option.splits intro!: keeps_setImportedStatus)

lemma resolverKeepsD:
  "resolverKeeps env fd res \<Longrightarrow> keeps env p ident h fd s0 s \<Longrightarrow>
   res env s q i fd = Some (Inr (s', r)) \<Longrightarrow> keeps env p ident h fd s0 s'"
  unfolding resolverKeeps_def by blast

lemma keeps_onMissing:
  assumes "resolverKeeps env fd res"
  shows "resolverKeeps env fd (onMissing res)"
  unfolding resolverKeeps_def
proof (intro allI impI)
  fix s q i s' r p ident h s0
  assume a: "keeps env p ident h fd s0 s" "onMissing res env s q i fd = Some (Inr (s', r))"
  show "keeps env p ident h fd s0 s'"
  proof (cases "nativeStub env s i")
    case None
    with a(2) have "s' = recordMissing s q i (missingInfo s q i
        (pathJoin env [sourceRoot s, the (sourcePath (fileAt s q))]) fd)"
      by (auto simp: onMissing_def Let_def split: option.splits)
    thus ?thesis using a(1) None by (simp add: keeps_recordMissing)
  next
    case (Some stubId)
    with a(2) have "res env (updateDep s q i (addHelper stubId fd)) q stubId fd = Some (Inr (s', r))"
      by (auto simp: onMissing_def Let_def split: option.splits)
    thus ?thesis using assms a(1) by (auto intro: resolverKeepsD keeps_addHelper)
  qed
qed

lemma keeps_resolve1:
  assumes "resolverKeeps env fd om"
  shows "resolverKeeps env fd (resolve1 om)"
  unfolding resolverKeeps_def
proof (intro allI impI)
  fix s q i s' r p ident h s0
  assume a: "keeps env p ident h fd s0 s" "resolve1 om env s q i fd = Some (Inr (s', r))"
  from a(2) obtain sp where sp: "sourcePath (fileAt s q) = Some sp"
    by (auto simp: resolve1_def split: option.splits)
  show "keeps env p ident h fd s0 s'"
  proof (cases "resolverResolve env (knownFile env s) i (pathJoin env [sourceRoot s, sp])")
    case (Unresolved str)
    with a(2) sp have "om env s q i fd = Some (Inr (s', r))" by (simp add: resolve1_def)
    thus ?thesis using assms a(1) by (auto intro: resolverKeepsD)
  next
    case ResolvedNull
    with a(2) sp have "s' = s" by (simp add: resolve1_def)
    thus ?thesis using a(1) by simp
  next
    case (Resolved res)
    show ?thesis
    proof (cases "packageJsonMap res")
      case None
      with a(2) sp Resolved have "s' = s" by (simp add: resolve1_def)
      thus ?thesis using a(1) by simp
    next
      case (Some pjm)
      with a(2) sp Resolved obtain s1 where
        1: "packageJsonHelpers env (updateDep s q i ensureHelpers) q i fd
              (map (\<lambda>k. (k, the (map_of pjm k))) (keys pjm)) = Inr s1" and
        2: "followAlias env s1 res fd = Inr (s', r)"
        by (auto simp: resolve1_def split: option.splits sum.splits)
      have "keeps env p ident h fd s0 s1"
        by (rule keeps_packageJsonHelpers[OF keeps_ensureHelpers[OF a(1)] 1])
      thus ?thesis using 2 by (rule keeps_followAlias)
    qed
  qed
qed

lemma keeps_resolve: "resolverKeeps env fd (resolve n)"
proof (induction n)
  case 0
  show ?case by (simp add: resolverKeeps_def)
next
  case (Suc n)
  show ?case by (simp add: keeps_resolve1 keeps_onMissing Suc)
qed

lemma resolve1_returns:
  assumes "\<And>sp str. sourcePath (fileAt s q) = Some sp \<Longrightarrow>
      resolverResolve env (knownFile env s) i (pathJoin env [sourceRoot s, sp]) = Unresolved str \<Longrightarrow>
      om env s q i fd \<noteq> None"
  shows "resolve1 om env s q i fd \<noteq> None"
  using assms unfolding resolve1_def
  by (auto split: option.splits resolved.splits sum.splits)

lemma onMissing_returns:
  "nativeStub env s i = None \<Longrightarrow> onMissing res env s q i fd \<noteq> None"
  by (simp add: onMissing_def Let_def split: option.splits)

lemma depInfo_updateDep:
  "a < length (heap s) \<Longrightarrow> depInfo s a ident = Some info \<Longrightarrow>
   depInfo (updateDep s a ident change) a ident = Some (change info)"
  by (auto simp: depInfo_def updateDep_def fileAt_setFile update_conv' split: option.splits)

lemma nth_update_same:
  "sel y = sel (h ! a) \<Longrightarrow> sel (h[a := y] ! b) = sel (h ! b)"
proof (cases "a < length h")
  case True
  assume "sel y = sel (h ! a)"
  thus ?thesis using True by (cases "a = b") simp_all
next
  case False
  thus ?thesis by (simp add: list_update_beyond)
qed

lemma updateDep_frame:
  "allMissingModules (updateDep s a ident change) = allMissingModules s"
  "missingModules (fileAt (updateDep s a ident change) b) = missingModules (fileAt s b)"
  "name (updateDep s a ident change) = name s"
  by (simp_all add: updateDep_def setFile_def fileAt_def nth_update_same split: option.splits)

lemma has_recordMissing: "has (allMissingModules (recordMissing s a ident info)) ident"
  by (simp add: recordMissing_def Let_def has_def map_of_mergeMissing)

lemma recordMissing_deps:
  "deps (fileAt (recordMissing s a ident info) b) = deps (fileAt s b)"
  by (simp add: recordMissing_def Let_def setFile_def fileAt_def nth_update_same)

lemma resolve_stub_keeps:
  assumes "sourcePath (fileAt s parentFile) = Some sp"
    and "resolverResolve env (knownFile env s) ident (pathJoin env [sourceRoot s, sp]) = Unresolved str"
    and "parentFile < length (heap s)"
    and ns: "nativeStub env s ident = Some stubId"
    and d: "depInfo s parentFile ident = Some info"
    and w: "wfIndex s"
    and r: "resolve (Suc n) env s parentFile ident fd = Some (Inr (s'', r))"
  shows "keeps env parentFile ident stubId fd s s''"
proof -
  let ?s = "updateDep s parentFile ident (addHelper stubId fd)"
  have 1: "resolve n env ?s parentFile stubId fd = Some (Inr (s'', r))"
    using assms(1,2) d r by (simp add: resolve1_def onMissing_def ns Let_def)
  have "depInfo ?s parentFile ident = Some (addHelper stubId fd info)"
    using d assms(3) by (simp add: depInfo_updateDep)
  hence h: "helperAt (fileAt ?s parentFile) ident stubId fd"
    by (auto simp: helperAt_def depInfo_def addHelper_def update_conv' split: option.splits)
  have l: "parentFile < length (heap ?s)"
    using assms(3) by (simp add: updateDep_def setFile_def split: option.splits)
  have x: "wfIndex ?s" "name ?s = name s" "bundleArch ?s = bundleArch s"
    "allMissingModules ?s = allMissingModules s"
    using w by (simp_all add: updateDep_def wfIndex_def split: option.splits)
  have "keeps env parentFile ident stubId fd s ?s"
    unfolding keeps_def using h l x by simp
  thus ?thesis by (rule resolverKeepsD[OF keeps_resolve _ 1])
qed

text \<open>Claim C8, as amended. A file of the heap with a source path imports \<open>ident\<close>, and
  the resolver does not resolve it. In an application scan (the scanner has no name) on
  a web architecture, when \<open>ident\<close> is a native module whose stub identifier is a string
  other than \<open>ident\<close>, and the file has the dependency \<open>ident\<close>: \<^verbatim>\<open>resolve\<close> records the
  stub identifier as a helper of that dependency, with the flag of the import, and its
  result is the result of resolving the stub identifier; \<^verbatim>\<open>allMissingModules\<close> and the
  missing modules of the file are as they were when the stub is resolved. Whatever state
  \<^verbatim>\<open>resolve\<close> returns, when every entry of the index of output files is a position of
  the list of output files: the dependency \<open>ident\<close> of the file has the helper, with the
  flag of the import, in the returned state, and \<open>ident\<close> is in \<^verbatim>\<open>allMissingModules\<close> of
  the returned state only if it was there before the call. When the stub identifier is
  not itself a native module, \<^verbatim>\<open>resolve\<close> returns within two calls. In a package
  scan, on a server architecture, for a module that is not native and for a native module
  without such a stub, \<^verbatim>\<open>resolve\<close> returns \<^verbatim>\<open>null\<close>, \<open>ident\<close> is in \<^verbatim>\<open>allMissingModules\<close>
  and the dependencies of the file are unchanged.\<close>

theorem onMissing_native_stub:
  assumes "sourcePath (fileAt s parentFile) = Some sp"
    and "resolverResolve env (knownFile env s) ident (pathJoin env [sourceRoot s, sp]) = Unresolved str"
    and "parentFile < length (heap s)"
  shows "(name s = [] \<and> isWeb env s \<and> isNative env ident \<and>
          getNativeStubId env ident = Some stubId \<and> stubId \<noteq> ident \<and>
          depInfo s parentFile ident = Some info \<longrightarrow>
          (let s' = updateDep s parentFile ident (addHelper stubId fd)
           in resolve (Suc n) env s parentFile ident fd = resolve n env s' parentFile stubId fd \<and>
              depInfo s' parentFile ident = Some (addHelper stubId fd info) \<and>
              (\<exists>hs. helpers (addHelper stubId fd info) = Some hs \<and> map_of hs stubId = Some fd) \<and>
              allMissingModules s' = allMissingModules s \<and>
              missingModules (fileAt s' parentFile) = missingModules (fileAt s parentFile)) \<and>
          (wfIndex s \<longrightarrow>
             (\<forall>s'' r. resolve (Suc n) env s parentFile ident fd = Some (Inr (s'', r)) \<longrightarrow>
                helperAt (fileAt s'' parentFile) ident stubId fd \<and>
                (has (allMissingModules s'') ident \<longrightarrow> has (allMissingModules s) ident))) \<and>
          (\<not> isNative env stubId \<longrightarrow>
             (\<exists>res. resolve (Suc (Suc n)) env s parentFile ident fd = Some res))) \<and>
         (name s \<noteq> [] \<or> \<not> isWeb env s \<or> \<not> isNative env ident \<or>
          getNativeStubId env ident = None \<or> getNativeStubId env ident = Some ident \<longrightarrow>
          (\<exists>s'. resolve (Suc n) env s parentFile ident fd = Some (Inr (s', None)) \<and>
                has (allMissingModules s') ident \<and>
                deps (fileAt s' parentFile) = deps (fileAt s parentFile)))"
proof (intro conjI impI allI)
  assume a: "name s = [] \<and> isWeb env s \<and> isNative env ident \<and>
          getNativeStubId env ident = Some stubId \<and> stubId \<noteq> ident \<and>
          depInfo s parentFile ident = Some info"
  hence ns: "nativeStub env s ident = Some stubId" by (simp add: nativeStub_def)
  let ?s = "updateDep s parentFile ident (addHelper stubId fd)"
  have "resolve (Suc n) env s parentFile ident fd = resolve n env ?s parentFile stubId fd"
    using assms a by (simp add: resolve1_def onMissing_def ns Let_def)
  moreover have "depInfo ?s parentFile ident = Some (addHelper stubId fd info)"
    using a assms(3) by (simp add: depInfo_updateDep)
  moreover have "\<exists>hs. helpers (addHelper stubId fd info) = Some hs \<and> map_of hs stubId = Some fd"
    by (simp add: addHelper_def update_conv')
  ultimately show "let s' = updateDep s parentFile ident (addHelper stubId fd)
           in resolve (Suc n) env s parentFile ident fd = resolve n env s' parentFile stubId fd \<and>
              depInfo s' parentFile ident = Some (addHelper stubId fd info) \<and>
              (\<exists>hs. helpers (addHelper stubId fd info) = Some hs \<and> map_of hs stubId = Some fd) \<and>
              allMissingModules s' = allMissingModules s \<and>
              missingModules (fileAt s' parentFile) = missingModules (fileAt s parentFile)"
    unfolding Let_def using updateDep_frame(1,2) by blast
next
  fix s'' r
  assume a: "name s = [] \<and> isWeb env s \<and> isNative env ident \<and>
          getNativeStubId env ident = Some stubId \<and> stubId \<noteq> ident \<and>
          depInfo s parentFile ident = Some info"
    and w: "wfIndex s"
    and r: "resolve (Suc n) env s parentFile ident fd = Some (Inr (s'', r))"
  from a have ns: "nativeStub env s ident = Some stubId" by (simp add: nativeStub_def)
  from a have d: "depInfo s parentFile ident = Some info" by simp
  have "keeps env parentFile ident stubId fd s s''"
    by (rule resolve_stub_keeps[OF assms ns d w r])
  thus "helperAt (fileAt s'' parentFile) ident stubId fd" by (simp add: keeps_def)
next
  fix s'' r
  assume a: "name s = [] \<and> isWeb env s \<and> isNative env ident \<and>
          getNativeStubId env ident = Some stubId \<and> stubId \<noteq> ident \<and>
          depInfo s parentFile ident = Some info"
    and w: "wfIndex s"
    and r: "resolve (Suc n) env s parentFile ident fd = Some (Inr (s'', r))"
    and m: "has (allMissingModules s'') ident"
  from a have ns: "nativeStub env s ident = Some stubId" by (simp add: nativeStub_def)
  from a have d: "depInfo s parentFile ident = Some info" by simp
  have "keeps env parentFile ident stubId fd s s''"
    by (rule resolve_stub_keeps[OF assms ns d w r])
  thus "has (allMissingModules s) ident" using m ns by (auto simp: keeps_def)
next
  assume a: "name s = [] \<and> isWeb env s \<and> isNative env ident \<and>
          getNativeStubId env ident = Some stubId \<and> stubId \<noteq> ident \<and>
          depInfo s parentFile ident = Some info"
    and nn: "\<not> isNative env stubId"
  hence ns: "nativeStub env s ident = Some stubId" by (simp add: nativeStub_def)
  let ?s = "updateDep s parentFile ident (addHelper stubId fd)"
  have 1: "resolve (Suc (Suc n)) env s parentFile ident fd =
           resolve (Suc n) env ?s parentFile stubId fd"
    using assms a by (simp add: resolve1_def onMissing_def ns Let_def)
  have "nativeStub env ?s stubId = None" using nn by (simp add: nativeStub_def)
  hence "resolve (Suc n) env ?s parentFile stubId fd \<noteq> None"
    by (simp add: resolve1_returns onMissing_returns)
  thus "\<exists>res. resolve (Suc (Suc n)) env s parentFile ident fd = Some res"
    unfolding 1 by auto
next
  assume "name s \<noteq> [] \<or> \<not> isWeb env s \<or> \<not> isNative env ident \<or>
          getNativeStubId env ident = None \<or> getNativeStubId env ident = Some ident"
  hence ns: "nativeStub env s ident = None" by (auto simp: nativeStub_def)
  let ?s = "recordMissing s parentFile ident
              (missingInfo s parentFile ident (pathJoin env [sourceRoot s, sp]) fd)"
  have "resolve (Suc n) env s parentFile ident fd = Some (Inr (?s, None))"
    using assms by (simp add: resolve1_def onMissing_def ns Let_def)
  thus "\<exists>s'. resolve (Suc n) env s parentFile ident fd = Some (Inr (s', None)) \<and>
                has (allMissingModules s') ident \<and>
                deps (fileAt s' parentFile) = deps (fileAt s parentFile)"
    using has_recordMissing recordMissing_deps by blast
qed

lemma nativeWorld_facts:
  "pathJoin nativeWorld [''/app'', ''main.js''] = ''/app/main.js''"
  "toLowerCase nativeWorld p = asciiLower p"
  "isNative nativeWorld ''fs''"
  "\<not> isNative nativeWorld ''meteor-node-stubs/deps/fs.js''"
  "getNativeStubId nativeWorld ''fs'' = Some ''meteor-node-stubs/deps/fs.js''"
  "resolverResolve nativeWorld k ''fs'' ''/app/main.js'' = Unresolved ''missing''"
  "resolverResolve nativeWorld k ''meteor-node-stubs/deps/fs.js'' ''/app/main.js'' =
     Resolved \<lparr>resPath = Some ''/app/node_modules/meteor-node-stubs/deps/fs.js'',
                 resId = Some ''meteor-node-stubs/deps/fs.js'', packageJsonMap = None,
                 resAbsModuleId = IdUndefined\<rparr>"
  "archMatches nativeWorld ''web.browser'' ''os'' = False"
  by (simp_all add: nativeWorld_def world_def posixJoin_def posixNormalize_def startsWith_def
      endsWith_def segments_def archMatchesPrefix_def)

lemma importsFs_facts:
  "fileAt (importsFs s) 0 = emptyFile\<lparr>sourcePath := Some ''main.js'', deps := Some [(''fs'', emptyInfo)]\<rparr>"
  "length (heap (importsFs s)) = 1"
  "name (importsFs s) = name s" "sourceRoot (importsFs s) = sourceRoot s"
  "bundleArch (importsFs s) = bundleArch s"
  "allMissingModules (importsFs s) = allMissingModules s"
  by (simp_all add: importsFs_def fileAt_def)

theorem onMissing_native_stub_witness:
  "wfIndex (importsFs (webApp nativeWorld)) \<and>
   \<not> isNative nativeWorld ''meteor-node-stubs/deps/fs.js'' \<and>
   (\<exists>s'. resolve 2 nativeWorld (importsFs (webApp nativeWorld)) 0 ''fs'' False =
           Some (Inr (s', Some \<lparr>resPath = Some ''/app/node_modules/meteor-node-stubs/deps/fs.js'',
                 resId = Some ''meteor-node-stubs/deps/fs.js'', packageJsonMap = None,
                 resAbsModuleId = IdUndefined\<rparr>)) \<and>
         depInfo s' 0 ''fs'' =
           Some (emptyInfo\<lparr>helpers := Some [(''meteor-node-stubs/deps/fs.js'', False)]\<rparr>) \<and>
         allMissingModules s' = [] \<and>
         helperAt (fileAt s' 0) ''fs'' ''meteor-node-stubs/deps/fs.js'' False \<and>
         \<not> has (allMissingModules s') ''fs'') \<and>
   (\<exists>s'. resolve 1 nativeWorld (importsFs (serverApp nativeWorld)) 0 ''fs'' False =
           Some (Inr (s', None)) \<and> has (allMissingModules s') ''fs'')"
proof -
  let ?s = "importsFs (webApp nativeWorld)"
  let ?t = "importsFs (serverApp nativeWorld)"
  have sp: "sourcePath (fileAt ?s 0) = Some ''main.js''" "sourcePath (fileAt ?t 0) = Some ''main.js''"
    by (simp_all add: importsFs_facts emptyFile_def)
  have r: "resolverResolve nativeWorld (knownFile nativeWorld ?s) ''fs''
             (pathJoin nativeWorld [sourceRoot ?s, ''main.js'']) = Unresolved ''missing''"
    "resolverResolve nativeWorld (knownFile nativeWorld ?t) ''fs''
             (pathJoin nativeWorld [sourceRoot ?t, ''main.js'']) = Unresolved ''missing''"
    by (simp_all add: importsFs_facts webApp_def serverApp_def newScanner_def nativeWorld_facts)
  have l: "0 < length (heap ?s)" "0 < length (heap ?t)" by (simp_all add: importsFs_facts)
  have h: "name ?s = [] \<and> isWeb nativeWorld ?s \<and> isNative nativeWorld ''fs'' \<and>
      getNativeStubId nativeWorld ''fs'' = Some ''meteor-node-stubs/deps/fs.js'' \<and>
      ''meteor-node-stubs/deps/fs.js'' \<noteq> ''fs'' \<and> depInfo ?s 0 ''fs'' = Some emptyInfo"
    by (simp add: importsFs_facts webApp_def newScanner_def nativeWorld_facts isWeb_def
        depInfo_def emptyFile_def)
  have g: "\<not> isWeb nativeWorld ?t"
    by (simp add: importsFs_facts serverApp_def newScanner_def isWeb_def nativeWorld_def world_def
        archMatchesPrefix_def startsWith_def)
  let ?u = "updateDep ?s 0 ''fs'' (addHelper ''meteor-node-stubs/deps/fs.js'' False)"
  have u: "?u = ?s\<lparr>heap := [emptyFile\<lparr>sourcePath := Some ''main.js'',
      deps := Some [(''fs'', emptyInfo\<lparr>helpers := Some [(''meteor-node-stubs/deps/fs.js'', False)]\<rparr>)]\<rparr>]\<rparr>"
    by (simp add: updateDep_def importsFs_def fileAt_def setFile_def emptyFile_def addHelper_def
        emptyInfo_def)
  have e: "resolve (Suc 0) nativeWorld ?u 0 ''meteor-node-stubs/deps/fs.js'' False =
      Some (Inr (?u, Some \<lparr>resPath = Some ''/app/node_modules/meteor-node-stubs/deps/fs.js'',
                 resId = Some ''meteor-node-stubs/deps/fs.js'', packageJsonMap = None,
                 resAbsModuleId = IdUndefined\<rparr>))"
    unfolding u
    by (simp add: resolve1_def fileAt_def emptyFile_def importsFs_def webApp_def newScanner_def
        nativeWorld_facts)
  have am: "allMissingModules ?s = []"
    by (simp add: importsFs_facts webApp_def newScanner_def)
  have ah: "addHelper ''meteor-node-stubs/deps/fs.js'' False emptyInfo =
      emptyInfo\<lparr>helpers := Some [(''meteor-node-stubs/deps/fs.js'', False)]\<rparr>"
    by (simp add: addHelper_def emptyInfo_def)
  note t = onMissing_native_stub[OF sp(1) r(1) l(1), where stubId = "''meteor-node-stubs/deps/fs.js''"
      and info = emptyInfo and n = "Suc 0" and fd = False, THEN conjunct1, THEN mp, OF h,
      unfolded Let_def]
  have 1: "resolve 2 nativeWorld ?s 0 ''fs'' False =
           Some (Inr (?u, Some \<lparr>resPath = Some ''/app/node_modules/meteor-node-stubs/deps/fs.js'',
                 resId = Some ''meteor-node-stubs/deps/fs.js'', packageJsonMap = None,
                 resAbsModuleId = IdUndefined\<rparr>))"
    "depInfo ?u 0 ''fs'' = Some (emptyInfo\<lparr>helpers := Some [(''meteor-node-stubs/deps/fs.js'', False)]\<rparr>)"
    "allMissingModules ?u = []"
    using t e am ah by (simp_all only: numeral_2_eq_2)
  have wf: "wfIndex ?s"
    by (simp add: wfIndex_def importsFs_def webApp_def newScanner_def)
  note k = t[THEN conjunct2, THEN conjunct1, THEN mp, OF wf, THEN spec, THEN spec, THEN mp,
      OF 1(1)[unfolded numeral_2_eq_2]]
  have 3: "helperAt (fileAt ?u 0) ''fs'' ''meteor-node-stubs/deps/fs.js'' False"
    "\<not> has (allMissingModules ?u) ''fs''"
    using k am by (auto simp only: has_def map_of.simps)
  from onMissing_native_stub[OF sp(2) r(2) l(2), where n = 0 and fd = False] g
  have 2: "\<exists>s'. resolve 1 nativeWorld ?t 0 ''fs'' False =
           Some (Inr (s', None)) \<and> has (allMissingModules s') ''fs''"
    by auto
  show ?thesis using wf nativeWorld_facts(4) 1 3 2 by blast
qed

text \<open>The claim as it was written fails for a package: scanned for the browser, the
  package \<^verbatim>\<open>my-package\<close> imports \<^verbatim>\<open>fs\<close>, which is native and has a stub; \<^verbatim>\<open>fs\<close> is
  recorded in \<^verbatim>\<open>allMissingModules\<close> and no helper is recorded.\<close>

theorem onMissing_package_counterexample:
  "name (importsFs (webPackage nativeWorld)) = ''my-package'' \<and>
   isWeb nativeWorld (importsFs (webPackage nativeWorld)) \<and> isNative nativeWorld ''fs'' \<and>
   getNativeStubId nativeWorld ''fs'' = Some ''meteor-node-stubs/deps/fs.js'' \<and>
   resolverResolve nativeWorld (knownFile nativeWorld (importsFs (webPackage nativeWorld))) ''fs''
     (pathJoin nativeWorld [sourceRoot (importsFs (webPackage nativeWorld)), ''main.js''])
     = Unresolved ''missing'' \<and>
   (\<exists>s'. (\<forall>n. resolve (Suc n) nativeWorld (importsFs (webPackage nativeWorld)) 0 ''fs'' False =
              Some (Inr (s', None))) \<and>
         has (allMissingModules s') ''fs'' \<and>
         depInfo s' 0 ''fs'' = Some emptyInfo)"
proof -
  let ?s = "importsFs (webPackage nativeWorld)"
  have ns: "nativeStub nativeWorld ?s ''fs'' = None"
    by (simp add: nativeStub_def importsFs_facts webPackage_def newScanner_def)
  let ?r = "recordMissing ?s 0 ''fs'' (missingInfo ?s 0 ''fs'' ''/app/main.js'' False)"
  have sp: "sourcePath (fileAt ?s 0) = Some ''main.js''" "sourceRoot ?s = ''/app''"
    by (simp_all add: importsFs_facts emptyFile_def webPackage_def newScanner_def)
  have q: "resolverResolve nativeWorld (knownFile nativeWorld ?s) ''fs''
     (pathJoin nativeWorld [sourceRoot ?s, ''main.js'']) = Unresolved ''missing''"
    by (simp add: sp nativeWorld_facts)
  have r: "resolve (Suc n) nativeWorld ?s 0 ''fs'' False = Some (Inr (?r, None))" for n
    using q by (simp add: resolve1_def onMissing_def ns sp nativeWorld_facts(1))
  have d: "depInfo ?r 0 ''fs'' = Some emptyInfo"
    by (simp add: depInfo_def recordMissing_deps importsFs_facts emptyFile_def)
  have w: "isWeb nativeWorld ?s"
    by (simp add: isWeb_def importsFs_facts webPackage_def newScanner_def nativeWorld_facts)
  have n: "name ?s = ''my-package''"
    by (simp add: importsFs_facts webPackage_def newScanner_def)
  show ?thesis using r d w n q has_recordMissing nativeWorld_facts(3,5) by blast
qed

end
